theory Spec2Isabelle
  imports Main
begin

section \<open>Skill-Swap platform: swap lifecycle and notification dispatch\<close>

text \<open>
  A shallow embedding of \<^verbatim>\<open>routes/swaps.js\<close> (the five lifecycle handlers),
  \<^verbatim>\<open>services/NotificationService.js\<close> and the read routes of
  \<^verbatim>\<open>routes/notifications.js\<close>, over the tables of the Prisma schema.
  Every handler is a function from the request and the world (database tables and the
  log of socket emits) to a result and the new world. An \<^verbatim>\<open>ApiError\<close> passed to
  \<^verbatim>\<open>next\<close> is \<open>Inl\<close>, a JSON response is \<open>Inr\<close>. The taxonomy of the
  specification is read off the HTTP status: 400 is InvalidArgument and InvalidState
  (told apart by their messages), 403 Forbidden, 404 NotFound, 500 Unavailable. The
  database is taken to answer every call: the only throws are Prisma's "record not
  found" on an update, a property read on a relation that is \<^verbatim>\<open>null\<close>, and a failing
  socket emit.
\<close>

subsection \<open>Strings\<close>

text \<open>
  A JavaScript string is a sequence of UTF-16 code units, and \<^verbatim>\<open>length\<close>,
  \<^verbatim>\<open>trim\<close>, \<^verbatim>\<open>===\<close> and the validators work on code units. A code unit is a
  natural number here (below \<open>65536\<close> in every string the program sees; no definition
  depends on the bound). \<open>js\<close> writes a literal of ASCII characters.
\<close>

type_synonym jsstring = "nat list"

definition js :: "string \<Rightarrow> jsstring" where
  "js s = map of_char s"

subsection \<open>Data model\<close>

type_synonym ident = jsstring
type_synonym timestamp = nat

datatype swap_status = PENDING | ACCEPTED | REJECTED | COMPLETED | CANCELLED

text \<open>The enum value as a template literal of an error message prints it.\<close>

fun status_str :: "swap_status \<Rightarrow> string" where
  "status_str PENDING = ''PENDING''"
| "status_str ACCEPTED = ''ACCEPTED''"
| "status_str REJECTED = ''REJECTED''"
| "status_str COMPLETED = ''COMPLETED''"
| "status_str CANCELLED = ''CANCELLED''"

text \<open>
  The rows of the Prisma schema (models \<^verbatim>\<open>User\<close>, \<^verbatim>\<open>SwapRequest\<close> and
  \<^verbatim>\<open>Notification\<close>, enums \<^verbatim>\<open>SwapRequestStatus\<close> and \<^verbatim>\<open>NotificationType\<close>). Of
  a user the handlers read the identity, the name and the two flags; the other columns
  are left out. Every \<^verbatim>\<open>id\<close> is a \<^verbatim>\<open>String @id @default(cuid())\<close>.
  The relations of the schema (the sender and the receiver of a swap request, the user
  of a notification) are foreign keys of the database; the tables here are lists, and a
  handler that reads the name of a relation it did not find throws as it does on
  \<^verbatim>\<open>null\<close>.
\<close>

record user =
  u_id :: ident
  u_name :: jsstring
  isActive :: bool
  isPublic :: bool

record swap_request =
  sw_id :: ident
  senderId :: ident
  receiverId :: ident
  skillOffered :: jsstring
  skillRequested :: jsstring
  sw_message :: "jsstring option"
  status :: swap_status
  sw_createdAt :: timestamp
  updatedAt :: timestamp
  completedAt :: "timestamp option"

datatype notification_type =
  SWAP_REQUEST_RECEIVED | SWAP_REQUEST_ACCEPTED | SWAP_REQUEST_REJECTED
  | SWAP_REQUEST_CANCELLED | SWAP_COMPLETED | FEEDBACK_RECEIVED | SKILL_APPROVED
  | SKILL_REJECTED | PLATFORM_MESSAGE | SYSTEM_ALERT

text \<open>
  The \<^verbatim>\<open>data\<close> object of a swap notification: its keys and string values. The row
  keeps it as JSON text; the model keeps the object.
\<close>

type_synonym payload = "(string \<times> jsstring) list"

record notification =
  n_id :: ident
  n_userId :: ident
  n_type :: notification_type
  n_title :: jsstring
  n_message :: jsstring
  n_data :: "payload option"
  isRead :: bool
  n_createdAt :: timestamp
  readAt :: "timestamp option"

text \<open>
  The two socket events. \<open>NotificationEvent\<close> carries id, type, title, message, data,
  createdAt and isRead; \<open>NotificationCount\<close> carries the count.
\<close>

datatype event =
  NotificationEvent ident notification_type jsstring jsstring "payload option" timestamp bool
  | NotificationCount nat

text \<open>
  The world: the three tables, the number of identities the database has generated so
  far, and the log of what was emitted to each room \<^verbatim>\<open>user_<id>\<close> (socket.io fans
  a room emit out to the connections that joined the room; a room with no connection
  drops it).
\<close>

record world =
  users :: "user list"
  swapRequests :: "swap_request list"
  notifications :: "notification list"
  cuidSeq :: nat
  emitted :: "(ident \<times> event) list"

text \<open>
  The socket server as the handlers see it: \<open>io room ev\<close> tells whether
  \<^verbatim>\<open>io.to(room).emit(ev)\<close> returns (\<open>True\<close>) or throws (\<open>False\<close>).
\<close>

type_synonym io_server = "ident \<Rightarrow> event \<Rightarrow> bool"

text \<open>
  The request: \<^verbatim>\<open>req.user.id\<close>, \<^verbatim>\<open>req.io\<close> (server.js attaches the socket server
  to every request; the handlers still test it) and the value of \<^verbatim>\<open>new Date()\<close>.
\<close>

record request =
  req_user_id :: ident
  req_io :: "io_server option"
  req_now :: timestamp

text \<open>
  Modelled from the spec: \<^verbatim>\<open>utils/ApiError.js\<close> is not among the sources. An error is
  the HTTP status and the message it is constructed with (the validation details are left
  out).
\<close>

datatype api_error = ApiError nat string

fun statusCode :: "api_error \<Rightarrow> nat" where
  "statusCode (ApiError c m) = c"

text \<open>
  What a call can throw: Prisma's "record to update not found", a property read on
  \<^verbatim>\<open>null\<close>, a failure of the socket emit.
\<close>

datatype exn = P2025 | TypeError | SocketError

subsection \<open>Sanitizers, validators and identities\<close>

text \<open>
  \<^verbatim>\<open>String.prototype.trim\<close> and the \<^verbatim>\<open>trim()\<close> sanitizer (a leading \<^verbatim>\<open>/^\s+/\<close>
  and a backward scan with \<^verbatim>\<open>/\s/\<close>) strip the same code units at both ends: the
  white space and the line terminators of ECMAScript, that is tab, line feed, vertical
  tab, form feed, carriage return, space, U+00A0, U+1680, U+2000 to U+200A, U+2028,
  U+2029, U+202F, U+205F, U+3000 and U+FEFF.
\<close>

definition is_space :: "nat \<Rightarrow> bool" where
  "is_space c =
     (c \<in> set [0x09, 0x0A, 0x0B, 0x0C, 0x0D, 0x20, 0xA0, 0x1680, 0x2028, 0x2029, 0x202F,
                0x205F, 0x3000, 0xFEFF]
      \<or> (0x2000 \<le> c \<and> c \<le> 0x200A))"

definition trim :: "jsstring \<Rightarrow> jsstring" where
  "trim s = rev (dropWhile is_space (rev (dropWhile is_space s)))"

text \<open>
  \<^verbatim>\<open>isLength({ max })\<close> counts characters rather than code units: from
  \<^verbatim>\<open>str.length\<close> it subtracts the number of variation selectors U+FE0F and U+FE0E and
  the number of surrogate pairs (a high surrogate followed by a low one).
\<close>

fun surrogatePairs :: "jsstring \<Rightarrow> nat" where
  "surrogatePairs (a # b # cs) =
     (if 0xD800 \<le> a \<and> a \<le> 0xDBFF \<and> 0xDC00 \<le> b \<and> b \<le> 0xDFFF
      then Suc (surrogatePairs cs) else surrogatePairs (b # cs))"
| "surrogatePairs cs = 0"

definition presentationSequences :: "jsstring \<Rightarrow> nat" where
  "presentationSequences s = length (filter (\<lambda>c. c = 0xFE0F \<or> c = 0xFE0E) s)"

definition isLength :: "nat \<Rightarrow> jsstring \<Rightarrow> bool" where
  "isLength mx s = (length s - presentationSequences s - surrogatePairs s \<le> mx)"

text \<open>
  \<^verbatim>\<open>isUUID()\<close> with no version, as the validator package of express-validator 7
  has it: eight, four, four, four and twelve hexadecimal digits of either case separated
  by hyphens, the first digit of the third group from 1 to 8 and the first digit of the
  fourth group one of 8, 9, a, b; or the nil UUID (all zeros); or the max UUID (all f).
\<close>

definition is_hex :: "nat \<Rightarrow> bool" where
  "is_hex c = ((0x30 \<le> c \<and> c \<le> 0x39) \<or> (0x41 \<le> c \<and> c \<le> 0x46) \<or> (0x61 \<le> c \<and> c \<le> 0x66))"

definition uuid_layout :: "(nat \<Rightarrow> nat \<Rightarrow> bool) \<Rightarrow> jsstring \<Rightarrow> bool" where
  "uuid_layout digit s =
     (length s = 36 \<and>
      list_all (\<lambda>(i, c). if i \<in> set [8, 13, 18, 23] then c = 0x2D else digit i c)
        (zip [0..<36] s))"

definition isUUID :: "jsstring \<Rightarrow> bool" where
  "isUUID s =
     (uuid_layout (\<lambda>i c. if i = 14 then 0x31 \<le> c \<and> c \<le> 0x38
                          else if i = 19 then c \<in> set [0x38, 0x39, 0x41, 0x42, 0x61, 0x62]
                          else is_hex c) s
      \<or> uuid_layout (\<lambda>i c. c = 0x30) s
      \<or> uuid_layout (\<lambda>i c. c = 0x46 \<or> c = 0x66) s)"

text \<open>
  The \<^verbatim>\<open>cuid()\<close> default of every \<^verbatim>\<open>id\<close> column: the letter c followed by
  twenty-four digits of base 36 in lower case. The database's generator is a sequence
  here: the \<open>n\<close>-th identity is \<open>n\<close> written with twenty-four digits of base 36.
\<close>

definition base36 :: "nat \<Rightarrow> nat" where
  "base36 d = (if d < 10 then 0x30 + d else 0x57 + d)"

fun base36_digits :: "nat \<Rightarrow> nat \<Rightarrow> jsstring" where
  "base36_digits 0 n = []"
| "base36_digits (Suc k) n = base36_digits k (n div 36) @ [base36 (n mod 36)]"

definition cuid :: "nat \<Rightarrow> ident" where
  "cuid n = 0x63 # base36_digits 24 n"

subsection \<open>The Prisma calls\<close>

definition findUser :: "world \<Rightarrow> ident \<Rightarrow> user option" where
  "findUser s k = find (\<lambda>u. u_id u = k) (users s)"

definition findSwap :: "world \<Rightarrow> ident \<Rightarrow> swap_request option" where
  "findSwap s k = find (\<lambda>r. sw_id r = k) (swapRequests s)"

text \<open>\<^verbatim>\<open>update\<close> throws P2025 when no row matches, else writes and returns the row.\<close>

definition updateSwap ::
  "ident \<Rightarrow> (swap_request \<Rightarrow> swap_request) \<Rightarrow> world \<Rightarrow> (exn + swap_request) \<times> world" where
  "updateSwap k f s =
     (case findSwap s k of
        None \<Rightarrow> (Inl P2025, s)
      | Some r \<Rightarrow>
          (Inr (f r),
           s\<lparr>swapRequests := map (\<lambda>x. if sw_id x = k then f x else x) (swapRequests s)\<rparr>))"

definition createSwap ::
  "(ident \<Rightarrow> swap_request) \<Rightarrow> world \<Rightarrow> swap_request \<times> world" where
  "createSwap mk s =
     (let r = mk (cuid (cuidSeq s))
      in (r, s\<lparr>swapRequests := swapRequests s @ [r], cuidSeq := Suc (cuidSeq s)\<rparr>))"

text \<open>The sequencing of awaited calls inside one \<^verbatim>\<open>try\<close>: the first throw ends it.\<close>

definition andThen ::
  "(exn + 'a) \<times> world \<Rightarrow> ('a \<Rightarrow> world \<Rightarrow> (exn + 'b) \<times> world) \<Rightarrow> (exn + 'b) \<times> world" where
  "andThen m f = (case m of (Inl e, s) \<Rightarrow> (Inl e, s) | (Inr x, s) \<Rightarrow> f x s)"

subsection \<open>NotificationService\<close>

definition emit :: "io_server \<Rightarrow> ident \<Rightarrow> event \<Rightarrow> world \<Rightarrow> (exn + unit) \<times> world" where
  "emit io userId ev s =
     (if io userId ev then (Inr (), s\<lparr>emitted := emitted s @ [(userId, ev)]\<rparr>)
      else (Inl SocketError, s))"

definition getUnreadCount :: "world \<Rightarrow> ident \<Rightarrow> nat" where
  "getUnreadCount s userId =
     length (filter (\<lambda>n. n_userId n = userId \<and> \<not> isRead n) (notifications s))"

text \<open>
  \<^verbatim>\<open>createNotification\<close>: insert the row, then (when \<^verbatim>\<open>realtime\<close> and the service has a
  socket server) emit the notification, count the unread rows and emit the count. The
  \<^verbatim>\<open>catch\<close> logs and throws the error again, so a throw is the result.
\<close>

definition createNotification ::
  "io_server option \<Rightarrow> timestamp \<Rightarrow> ident \<Rightarrow> notification_type \<Rightarrow> jsstring \<Rightarrow> jsstring \<Rightarrow>
   payload option \<Rightarrow> bool \<Rightarrow> world \<Rightarrow> (exn + notification) \<times> world" where
  "createNotification this_io now userId ty title msg data realtime s =
     (let n = \<lparr>n_id = cuid (cuidSeq s), n_userId = userId, n_type = ty, n_title = title,
               n_message = msg, n_data = data, isRead = False, n_createdAt = now,
               readAt = None\<rparr>;
          s1 = s\<lparr>notifications := notifications s @ [n], cuidSeq := Suc (cuidSeq s)\<rparr>
      in case this_io of
           Some io \<Rightarrow>
             if realtime then
               andThen (emit io userId
                          (NotificationEvent (n_id n) (n_type n) (n_title n) (n_message n) data
                             (n_createdAt n) False) s1)
                 (\<lambda>_ s2. andThen (emit io userId (NotificationCount (getUnreadCount s2 userId)) s2)
                    (\<lambda>_ s3. (Inr n, s3)))
             else (Inr n, s1)
         | None \<Rightarrow> (Inr n, s1))"

definition markAsRead ::
  "io_server option \<Rightarrow> timestamp \<Rightarrow> ident \<Rightarrow> ident \<Rightarrow> world \<Rightarrow> (exn + notification) \<times> world" where
  "markAsRead this_io now notificationId userId s =
     (case find (\<lambda>n. n_id n = notificationId \<and> n_userId n = userId) (notifications s) of
        None \<Rightarrow> (Inl P2025, s)
      | Some n0 \<Rightarrow>
          (let upd = (\<lambda>n. n\<lparr>isRead := True, readAt := Some now\<rparr>);
               s1 = s\<lparr>notifications :=
                        map (\<lambda>n. if n_id n = notificationId \<and> n_userId n = userId then upd n else n)
                          (notifications s)\<rparr>
           in case this_io of
                Some io \<Rightarrow>
                  andThen (emit io userId (NotificationCount (getUnreadCount s1 userId)) s1)
                    (\<lambda>_ s2. (Inr (upd n0), s2))
              | None \<Rightarrow> (Inr (upd n0), s1)))"

definition markAllAsRead ::
  "io_server option \<Rightarrow> timestamp \<Rightarrow> ident \<Rightarrow> world \<Rightarrow> (exn + unit) \<times> world" where
  "markAllAsRead this_io now userId s =
     (let s1 = s\<lparr>notifications :=
                   map (\<lambda>n. if n_userId n = userId \<and> \<not> isRead n
                             then n\<lparr>isRead := True, readAt := Some now\<rparr> else n)
                     (notifications s)\<rparr>
      in case this_io of
           Some io \<Rightarrow> emit io userId (NotificationCount 0) s1
         | None \<Rightarrow> (Inr (), s1))"

text \<open>
  The templates of the swap lifecycle. The party popper of the accepted title is the
  surrogate pair D83C DF89, the sparkles of the completed title the code unit 2728.
\<close>

definition notifySwapRequestReceived ::
  "io_server option \<Rightarrow> timestamp \<Rightarrow> ident \<Rightarrow> jsstring \<Rightarrow> jsstring \<Rightarrow> jsstring \<Rightarrow> ident \<Rightarrow>
   world \<Rightarrow> (exn + unit) \<times> world" where
  "notifySwapRequestReceived this_io now receiver senderName offered requested swapId s =
     andThen
       (createNotification this_io now receiver SWAP_REQUEST_RECEIVED (js ''New Swap Request'')
          (senderName @ js '' wants to swap '' @ requested @ js '' for your '' @ offered)
          (Some [(''swapId'', swapId), (''senderName'', senderName),
                 (''skillOffered'', offered), (''skillRequested'', requested)]) True s)
       (\<lambda>_ s'. (Inr (), s'))"

definition notifySwapRequestAccepted ::
  "io_server option \<Rightarrow> timestamp \<Rightarrow> ident \<Rightarrow> jsstring \<Rightarrow> jsstring \<Rightarrow> jsstring \<Rightarrow> ident \<Rightarrow>
   world \<Rightarrow> (exn + unit) \<times> world" where
  "notifySwapRequestAccepted this_io now sender receiverName offered requested swapId s =
     andThen
       (createNotification this_io now sender SWAP_REQUEST_ACCEPTED
          (js ''Swap Request Accepted! '' @ [0xD83C, 0xDF89])
          (receiverName @ js '' accepted your request to swap '' @ offered @ js '' for '' @ requested)
          (Some [(''swapId'', swapId), (''receiverName'', receiverName),
                 (''skillOffered'', offered), (''skillRequested'', requested)]) True s)
       (\<lambda>_ s'. (Inr (), s'))"

definition notifySwapRequestRejected ::
  "io_server option \<Rightarrow> timestamp \<Rightarrow> ident \<Rightarrow> jsstring \<Rightarrow> jsstring \<Rightarrow> jsstring \<Rightarrow> ident \<Rightarrow>
   world \<Rightarrow> (exn + unit) \<times> world" where
  "notifySwapRequestRejected this_io now sender receiverName offered requested swapId s =
     andThen
       (createNotification this_io now sender SWAP_REQUEST_REJECTED (js ''Swap Request Declined'')
          (receiverName @ js '' declined your request to swap '' @ offered @ js '' for '' @ requested)
          (Some [(''swapId'', swapId), (''receiverName'', receiverName),
                 (''skillOffered'', offered), (''skillRequested'', requested)]) True s)
       (\<lambda>_ s'. (Inr (), s'))"

definition notifySwapCompleted ::
  "io_server option \<Rightarrow> timestamp \<Rightarrow> ident \<Rightarrow> jsstring \<Rightarrow> jsstring \<Rightarrow> jsstring \<Rightarrow> ident \<Rightarrow>
   world \<Rightarrow> (exn + unit) \<times> world" where
  "notifySwapCompleted this_io now userId otherUserName offered requested swapId s =
     andThen
       (createNotification this_io now userId SWAP_COMPLETED
          (js ''Swap Completed! '' @ [0x2728])
          (js ''Your skill swap with '' @ otherUserName
             @ js '' has been completed. Don't forget to leave feedback!'')
          (Some [(''swapId'', swapId), (''otherUserName'', otherUserName),
                 (''skillOffered'', offered), (''skillRequested'', requested)]) True s)
       (\<lambda>_ s'. (Inr (), s'))"

subsection \<open>The lifecycle handlers of routes/swaps.js\<close>

text \<open>
  Each handler reads, checks its guards and returns early on a failed guard; the rest of
  the \<^verbatim>\<open>try\<close> block writes and notifies. The two parts are separate definitions: every
  \<^verbatim>\<open>await\<close> between them is a point where another request can run. The \<^verbatim>\<open>catch\<close>
  turns whatever was thrown into a 500.
\<close>

definition respond ::
  "string \<Rightarrow> (exn + 'a) \<times> world \<Rightarrow> (api_error + 'a) \<times> world" where
  "respond failure m =
     (case m of (Inl e, s) \<Rightarrow> (Inl (ApiError 500 failure), s) | (Inr x, s) \<Rightarrow> (Inr x, s))"

text \<open>The body of \<^verbatim>\<open>POST /api/swaps\<close>; a field that is missing is the empty string.\<close>

record swap_body =
  b_receiverId :: jsstring
  b_skillOffered :: jsstring
  b_skillRequested :: jsstring
  b_message :: "jsstring option"

text \<open>
  \<^verbatim>\<open>createSwapValidation\<close>: the sanitizers of a validation chain write the sanitized
  value back into \<^verbatim>\<open>req.body\<close>, so the handler reads trimmed skills and message.
  \<^verbatim>\<open>notEmpty()\<close> refuses the string of length zero; \<^verbatim>\<open>optional()\<close> skips the
  chain of a message that is missing; \<^verbatim>\<open>isLength\<close> sees the trimmed message.
\<close>

definition sanitize :: "swap_body \<Rightarrow> swap_body" where
  "sanitize b =
     b\<lparr>b_skillOffered := trim (b_skillOffered b),
       b_skillRequested := trim (b_skillRequested b),
       b_message := map_option trim (b_message b)\<rparr>"

definition createSwapValidation :: "swap_body \<Rightarrow> bool" where
  "createSwapValidation b =
     (b_receiverId b \<noteq> [] \<and> trim (b_skillOffered b) \<noteq> [] \<and> trim (b_skillRequested b) \<noteq> []
      \<and> (case b_message b of None \<Rightarrow> True | Some m \<Rightarrow> isLength 500 (trim m)))"

text \<open>The \<^verbatim>\<open>findFirst\<close> filter of the duplicate check: either direction, pending.\<close>

definition similar :: "ident \<Rightarrow> swap_body \<Rightarrow> swap_request \<Rightarrow> bool" where
  "similar sender b x =
     ((senderId x = sender \<and> receiverId x = b_receiverId b
         \<and> skillOffered x = b_skillOffered b \<and> skillRequested x = b_skillRequested b
         \<and> status x = PENDING)
      \<or> (senderId x = b_receiverId b \<and> receiverId x = sender
         \<and> skillOffered x = b_skillRequested b \<and> skillRequested x = b_skillOffered b
         \<and> status x = PENDING))"

definition submit_guard :: "request \<Rightarrow> swap_body \<Rightarrow> world \<Rightarrow> api_error + unit" where
  "submit_guard r b s =
     (if req_user_id r = b_receiverId b
      then Inl (ApiError 400 ''You cannot send a swap request to yourself'')
      else case findUser s (b_receiverId b) of
        None \<Rightarrow> Inl (ApiError 404 ''Receiver not found'')
      | Some receiver \<Rightarrow>
          if \<not> isActive receiver
          then Inl (ApiError 400 ''Cannot send request to inactive user'')
          else if \<not> isPublic receiver
          then Inl (ApiError 400 ''Cannot send request to private profile'')
          else (case find (similar (req_user_id r) b) (swapRequests s) of
                  Some existingRequest \<Rightarrow>
                    Inl (ApiError 400
                      ''A similar swap request already exists between you and this user'')
                | None \<Rightarrow> Inr ()))"

definition submit_commit ::
  "request \<Rightarrow> swap_body \<Rightarrow> world \<Rightarrow> (exn + swap_request) \<times> world" where
  "submit_commit r b s =
     (case createSwap
        (\<lambda>i. \<lparr>sw_id = i, senderId = req_user_id r, receiverId = b_receiverId b,
               skillOffered = trim (b_skillOffered b),
               skillRequested = trim (b_skillRequested b),
               sw_message =
                 (case b_message b of None \<Rightarrow> None
                  | Some m \<Rightarrow> if trim m = [] then None else Some (trim m)),
               status = PENDING, sw_createdAt = req_now r, updatedAt = req_now r,
               completedAt = None\<rparr>) s of
        (swap, s1) \<Rightarrow>
          (case req_io r of
             None \<Rightarrow> (Inr swap, s1)
           | Some io \<Rightarrow>
               (case findUser s1 (senderId swap) of
                  None \<Rightarrow> (Inl TypeError, s1)
                | Some sender \<Rightarrow>
                    andThen
                      (notifySwapRequestReceived (Some io) (req_now r) (b_receiverId b)
                         (u_name sender) (b_skillOffered b) (b_skillRequested b) (sw_id swap) s1)
                      (\<lambda>_ s2. (Inr swap, s2)))))"

definition submit :: "request \<Rightarrow> swap_body \<Rightarrow> world \<Rightarrow> (api_error + swap_request) \<times> world" where
  "submit r body s =
     (if \<not> createSwapValidation body then (Inl (ApiError 400 ''Validation failed''), s)
      else case submit_guard r (sanitize body) s of
        Inl e \<Rightarrow> (Inl e, s)
      | Inr _ \<Rightarrow> respond ''Failed to create swap request'' (submit_commit r (sanitize body) s))"

text \<open>
  \<^verbatim>\<open>findUnique\<close> with \<^verbatim>\<open>include: { sender, receiver }\<close>: the row and the two user rows
  as they were when it was read.
\<close>

type_synonym snapshot = "swap_request \<times> user option \<times> user option"

definition findSwapIncl :: "world \<Rightarrow> ident \<Rightarrow> snapshot option" where
  "findSwapIncl s k =
     map_option (\<lambda>x. (x, findUser s (senderId x), findUser s (receiverId x))) (findSwap s k)"

definition accept_guard :: "request \<Rightarrow> ident \<Rightarrow> world \<Rightarrow> api_error + snapshot" where
  "accept_guard r swapId s =
     (case findSwapIncl s swapId of
        None \<Rightarrow> Inl (ApiError 404 ''Swap request not found'')
      | Some (swapRequest, sender, receiver) \<Rightarrow>
          if receiverId swapRequest \<noteq> req_user_id r
          then Inl (ApiError 403 ''You can only accept requests sent to you'')
          else if status swapRequest \<noteq> PENDING
          then Inl (ApiError 400
                 (''Cannot accept request with status: '' @ status_str (status swapRequest)))
          else Inr (swapRequest, sender, receiver))"

definition accept_commit ::
  "request \<Rightarrow> ident \<Rightarrow> snapshot \<Rightarrow> world \<Rightarrow> (exn + swap_request) \<times> world" where
  "accept_commit r swapId snap s =
     (case snap of (swapRequest, sender, receiver) \<Rightarrow>
        andThen (updateSwap swapId (\<lambda>x. x\<lparr>status := ACCEPTED, updatedAt := req_now r\<rparr>) s)
          (\<lambda>updatedSwap s1.
             case req_io r of
               None \<Rightarrow> (Inr updatedSwap, s1)
             | Some io \<Rightarrow>
                 (case receiver of
                    None \<Rightarrow> (Inl TypeError, s1)
                  | Some rc \<Rightarrow>
                      andThen
                        (notifySwapRequestAccepted (Some io) (req_now r) (senderId swapRequest)
                           (u_name rc) (skillOffered updatedSwap) (skillRequested updatedSwap)
                           (sw_id updatedSwap) s1)
                        (\<lambda>_ s2. (Inr updatedSwap, s2)))))"

definition accept :: "request \<Rightarrow> ident \<Rightarrow> world \<Rightarrow> (api_error + swap_request) \<times> world" where
  "accept r swapId s =
     (case accept_guard r swapId s of
        Inl e \<Rightarrow> (Inl e, s)
      | Inr snap \<Rightarrow> respond ''Failed to accept swap request'' (accept_commit r swapId snap s))"

definition reject_guard :: "request \<Rightarrow> ident \<Rightarrow> world \<Rightarrow> api_error + snapshot" where
  "reject_guard r swapId s =
     (case findSwapIncl s swapId of
        None \<Rightarrow> Inl (ApiError 404 ''Swap request not found'')
      | Some (swapRequest, sender, receiver) \<Rightarrow>
          if receiverId swapRequest \<noteq> req_user_id r
          then Inl (ApiError 403 ''You can only reject requests sent to you'')
          else if status swapRequest \<noteq> PENDING
          then Inl (ApiError 400
                 (''Cannot reject request with status: '' @ status_str (status swapRequest)))
          else Inr (swapRequest, sender, receiver))"

definition reject_commit ::
  "request \<Rightarrow> ident \<Rightarrow> snapshot \<Rightarrow> world \<Rightarrow> (exn + swap_request) \<times> world" where
  "reject_commit r swapId snap s =
     (case snap of (swapRequest, sender, receiver) \<Rightarrow>
        andThen (updateSwap swapId (\<lambda>x. x\<lparr>status := REJECTED, updatedAt := req_now r\<rparr>) s)
          (\<lambda>updatedSwap s1.
             case req_io r of
               None \<Rightarrow> (Inr updatedSwap, s1)
             | Some io \<Rightarrow>
                 (case receiver of
                    None \<Rightarrow> (Inl TypeError, s1)
                  | Some rc \<Rightarrow>
                      andThen
                        (notifySwapRequestRejected (Some io) (req_now r) (senderId swapRequest)
                           (u_name rc) (skillOffered updatedSwap) (skillRequested updatedSwap)
                           (sw_id updatedSwap) s1)
                        (\<lambda>_ s2. (Inr updatedSwap, s2)))))"

definition reject :: "request \<Rightarrow> ident \<Rightarrow> world \<Rightarrow> (api_error + swap_request) \<times> world" where
  "reject r swapId s =
     (case reject_guard r swapId s of
        Inl e \<Rightarrow> (Inl e, s)
      | Inr snap \<Rightarrow> respond ''Failed to reject swap request'' (reject_commit r swapId snap s))"

definition cancel_guard :: "request \<Rightarrow> ident \<Rightarrow> world \<Rightarrow> api_error + swap_request" where
  "cancel_guard r swapId s =
     (case findSwap s swapId of
        None \<Rightarrow> Inl (ApiError 404 ''Swap request not found'')
      | Some swapRequest \<Rightarrow>
          if senderId swapRequest \<noteq> req_user_id r
          then Inl (ApiError 403 ''You can only cancel requests you sent'')
          else if status swapRequest \<noteq> PENDING
          then Inl (ApiError 400
                 (''Cannot cancel request with status: '' @ status_str (status swapRequest)))
          else Inr swapRequest)"

definition cancel_commit :: "request \<Rightarrow> ident \<Rightarrow> world \<Rightarrow> (exn + swap_request) \<times> world" where
  "cancel_commit r swapId s =
     updateSwap swapId (\<lambda>x. x\<lparr>status := CANCELLED, updatedAt := req_now r\<rparr>) s"

definition cancel :: "request \<Rightarrow> ident \<Rightarrow> world \<Rightarrow> (api_error + swap_request) \<times> world" where
  "cancel r swapId s =
     (case cancel_guard r swapId s of
        Inl e \<Rightarrow> (Inl e, s)
      | Inr _ \<Rightarrow> respond ''Failed to cancel swap request'' (cancel_commit r swapId s))"

definition complete_guard :: "request \<Rightarrow> ident \<Rightarrow> world \<Rightarrow> api_error + snapshot" where
  "complete_guard r swapId s =
     (case findSwapIncl s swapId of
        None \<Rightarrow> Inl (ApiError 404 ''Swap request not found'')
      | Some (swapRequest, sender, receiver) \<Rightarrow>
          if senderId swapRequest \<noteq> req_user_id r \<and> receiverId swapRequest \<noteq> req_user_id r
          then Inl (ApiError 403 ''You can only complete swaps you are part of'')
          else if status swapRequest \<noteq> ACCEPTED
          then Inl (ApiError 400 ''Can only complete accepted swap requests'')
          else Inr (swapRequest, sender, receiver))"

definition complete_commit ::
  "request \<Rightarrow> ident \<Rightarrow> snapshot \<Rightarrow> world \<Rightarrow> (exn + swap_request) \<times> world" where
  "complete_commit r swapId snap s =
     (case snap of (swapRequest, sender, receiver) \<Rightarrow>
        andThen
          (updateSwap swapId
             (\<lambda>x. x\<lparr>status := COMPLETED, completedAt := Some (req_now r),
                     updatedAt := req_now r\<rparr>) s)
          (\<lambda>updatedSwap s1.
             case req_io r of
               None \<Rightarrow> (Inr updatedSwap, s1)
             | Some io \<Rightarrow>
                 (case receiver of
                    None \<Rightarrow> (Inl TypeError, s1)
                  | Some rc \<Rightarrow>
                      andThen
                        (notifySwapCompleted (Some io) (req_now r) (senderId swapRequest)
                           (u_name rc) (skillOffered updatedSwap) (skillRequested updatedSwap)
                           (sw_id updatedSwap) s1)
                        (\<lambda>_ s2.
                           case sender of
                             None \<Rightarrow> (Inl TypeError, s2)
                           | Some sn \<Rightarrow>
                               andThen
                                 (notifySwapCompleted (Some io) (req_now r)
                                    (receiverId swapRequest) (u_name sn)
                                    (skillRequested updatedSwap) (skillOffered updatedSwap)
                                    (sw_id updatedSwap) s2)
                                 (\<lambda>_ s3. (Inr updatedSwap, s3))))))"

definition complete :: "request \<Rightarrow> ident \<Rightarrow> world \<Rightarrow> (api_error + swap_request) \<times> world" where
  "complete r swapId s =
     (case complete_guard r swapId s of
        Inl e \<Rightarrow> (Inl e, s)
      | Inr snap \<Rightarrow>
          respond ''Failed to complete swap request'' (complete_commit r swapId snap s))"

text \<open>The five operations as data, to speak about sequences of them.\<close>

datatype op = Submit swap_body | Accept ident | Reject ident | Cancel ident | Complete ident

fun exec :: "request \<Rightarrow> op \<Rightarrow> world \<Rightarrow> (api_error + swap_request) \<times> world" where
  "exec r (Submit body) s = submit r body s"
| "exec r (Accept swapId) s = accept r swapId s"
| "exec r (Reject swapId) s = reject r swapId s"
| "exec r (Cancel swapId) s = cancel r swapId s"
| "exec r (Complete swapId) s = complete r swapId s"

text \<open>
  The worlds a sequence of requests goes through, the first one included, when the
  requests do not overlap: each handler runs from its read to its answer before the
  next one starts. The handlers await between their read and their write, so requests
  that arrive together do overlap; two such handlers are \<open>interleave\<close> below.
\<close>

fun run_serial :: "world \<Rightarrow> (request \<times> op) list \<Rightarrow> world list" where
  "run_serial s [] = [s]"
| "run_serial s (c # cs) = s # run_serial (snd (exec (fst c) (snd c) s)) cs"

subsection \<open>The read routes of routes/notifications.js\<close>

text \<open>
  \<^verbatim>\<open>PUT /api/notifications/:id/read\<close>: the chain \<^verbatim>\<open>param('id').isUUID()\<close>
  answers 400 before the service is called; the service's P2025 is 404, any other throw
  500. \<^verbatim>\<open>PUT /api/notifications/mark-all-read\<close> has no chain.
\<close>

definition markRead ::
  "request \<Rightarrow> ident \<Rightarrow> world \<Rightarrow> (api_error + notification) \<times> world" where
  "markRead r notificationId s =
     (if \<not> isUUID notificationId then (Inl (ApiError 400 ''Validation failed''), s)
      else case markAsRead (req_io r) (req_now r) notificationId (req_user_id r) s of
        (Inl P2025, s') \<Rightarrow> (Inl (ApiError 404 ''Notification not found''), s')
      | (Inl e, s') \<Rightarrow> (Inl (ApiError 500 ''Failed to mark notification as read''), s')
      | (Inr n, s') \<Rightarrow> (Inr n, s'))"

definition markAllRead :: "request \<Rightarrow> world \<Rightarrow> (api_error + unit) \<times> world" where
  "markAllRead r s =
     respond ''Failed to mark all notifications as read''
       (markAllAsRead (req_io r) (req_now r) (req_user_id r) s)"

subsection \<open>The state machine of the specification\<close>

text \<open>
  The edges of section 4.1, and what one request may do to the row of an identity: leave
  it as it is, move it along an edge, or create it pending.
\<close>

definition edge :: "swap_status \<Rightarrow> swap_status \<Rightarrow> bool" where
  "edge a b = ((a = PENDING \<and> (b = ACCEPTED \<or> b = REJECTED \<or> b = CANCELLED))
               \<or> (a = ACCEPTED \<and> b = COMPLETED))"

fun transition_ok :: "swap_request option \<Rightarrow> swap_request option \<Rightarrow> bool" where
  "transition_ok None None = True"
| "transition_ok None (Some y) = (status y = PENDING)"
| "transition_ok (Some x) None = False"
| "transition_ok (Some x) (Some y) = (status y = status x \<or> edge (status x) (status y))"

definition follows :: "world \<Rightarrow> world \<Rightarrow> bool" where
  "follows s s' =
     list_all (\<lambda>k. transition_ok (findSwap s k) (findSwap s' k))
       (map sw_id (swapRequests s) @ map sw_id (swapRequests s'))"

text \<open>
  The specification's "equivalent pending request between the two parties, matching the
  skill pair in either direction", on the skills of the body trimmed.
\<close>

definition pending_between :: "ident \<Rightarrow> swap_body \<Rightarrow> swap_request \<Rightarrow> bool" where
  "pending_between sender body x =
     (status x = PENDING
      \<and> ((senderId x = sender \<and> receiverId x = b_receiverId body
            \<and> skillOffered x = trim (b_skillOffered body)
            \<and> skillRequested x = trim (b_skillRequested body))
         \<or> (senderId x = b_receiverId body \<and> receiverId x = sender
            \<and> skillOffered x = trim (b_skillRequested body)
            \<and> skillRequested x = trim (b_skillOffered body))))"

subsection \<open>Two requests on one row\<close>

text \<open>
  A handler runs in two atomic steps, the read with its guards and the write with its
  notification; the event loop may run a step of another request between them. A
  schedule tells which of two handlers moves next.
\<close>

datatype decision = AcceptIt | RejectIt

datatype hstate = Started | Guarded snapshot | Finished "api_error + swap_request"

fun hstep :: "decision \<Rightarrow> request \<Rightarrow> ident \<Rightarrow> hstate \<Rightarrow> world \<Rightarrow> hstate \<times> world" where
  "hstep AcceptIt r k Started s =
     (case accept_guard r k s of
        Inl e \<Rightarrow> (Finished (Inl e), s)
      | Inr snap \<Rightarrow> (Guarded snap, s))"
| "hstep AcceptIt r k (Guarded snap) s =
     (case respond ''Failed to accept swap request'' (accept_commit r k snap s) of
        (res, s') \<Rightarrow> (Finished res, s'))"
| "hstep RejectIt r k Started s =
     (case reject_guard r k s of
        Inl e \<Rightarrow> (Finished (Inl e), s)
      | Inr snap \<Rightarrow> (Guarded snap, s))"
| "hstep RejectIt r k (Guarded snap) s =
     (case respond ''Failed to reject swap request'' (reject_commit r k snap s) of
        (res, s') \<Rightarrow> (Finished res, s'))"
| "hstep d r k (Finished res) s = (Finished res, s)"

type_synonym handler = "decision \<times> request \<times> ident"

fun interleave ::
  "bool list \<Rightarrow> handler \<Rightarrow> handler \<Rightarrow> hstate \<times> hstate \<times> world \<Rightarrow> hstate \<times> hstate \<times> world" where
  "interleave [] a b c = c"
| "interleave (t # ts) a b (ha, hb, s) =
     (if t
      then (case hstep (fst a) (fst (snd a)) (snd (snd a)) ha s of
              (ha', s') \<Rightarrow> interleave ts a b (ha', hb, s'))
      else (case hstep (fst b) (fst (snd b)) (snd (snd b)) hb s of
              (hb', s') \<Rightarrow> interleave ts a b (ha, hb', s')))"


subsection \<open>What one notification leaves behind\<close>

text \<open>The row \<^verbatim>\<open>createNotification\<close> inserts.\<close>

definition new_row ::
  "world \<Rightarrow> timestamp \<Rightarrow> ident \<Rightarrow> notification_type \<Rightarrow> jsstring \<Rightarrow> jsstring \<Rightarrow>
   payload option \<Rightarrow> notification" where
  "new_row s now userId ty title msg data =
     \<lparr>n_id = cuid (cuidSeq s), n_userId = userId, n_type = ty, n_title = title,
      n_message = msg, n_data = data, isRead = False, n_createdAt = now, readAt = None\<rparr>"

text \<open>
  The two payloads \<^verbatim>\<open>createNotification\<close> emits for the row it has inserted: the
  row's fields with \<^verbatim>\<open>isRead: false\<close>, then the unread count it has read. And what
  a run of emits to one room leaves in the log: every emit before the first that throws.
\<close>

definition pushes :: "notification \<Rightarrow> nat \<Rightarrow> event list" where
  "pushes n c =
     [NotificationEvent (n_id n) (n_type n) (n_title n) (n_message n) (n_data n)
        (n_createdAt n) False,
      NotificationCount c]"

definition delivered :: "io_server \<Rightarrow> ident \<Rightarrow> event list \<Rightarrow> (ident \<times> event) list" where
  "delivered io room evs = map (Pair room) (takeWhile (io room) evs)"

text \<open>
  A notify template of a service with a socket server, in closed form (lemma
  \<open>pushed_createNotification\<close>): the row is in the table whatever the emits do, the
  log has the emits that returned, and the outcome is a throw as soon as one emit
  throws.
\<close>

definition pushed ::
  "io_server \<Rightarrow> ident \<Rightarrow> notification \<Rightarrow> world \<Rightarrow> (exn + unit) \<times> world" where
  "pushed io u n s =
     (if list_all (io u) (pushes n (Suc (getUnreadCount s u))) then Inr () else Inl SocketError,
      s\<lparr>notifications := notifications s @ [n], cuidSeq := Suc (cuidSeq s),
        emitted := emitted s @ delivered io u (pushes n (Suc (getUnreadCount s u)))\<rparr>)"

subsection \<open>Example data\<close>

definition ex_alice :: user where
  "ex_alice = \<lparr>u_id = js ''alice'', u_name = js ''Alice'', isActive = True, isPublic = True\<rparr>"
definition ex_bob :: user where
  "ex_bob = \<lparr>u_id = js ''bob'', u_name = js ''Bob'', isActive = True, isPublic = True\<rparr>"
definition ex_dan :: user where
  "ex_dan = \<lparr>u_id = js ''dan'', u_name = js ''Dan'', isActive = False, isPublic = True\<rparr>"
definition ex_eve :: user where
  "ex_eve = \<lparr>u_id = js ''eve'', u_name = js ''Eve'', isActive = True, isPublic = False\<rparr>"
definition ex_swap :: "swap_status \<Rightarrow> swap_request" where
  "ex_swap st = \<lparr>sw_id = js ''s1'', senderId = js ''alice'', receiverId = js ''bob'',
     skillOffered = js ''Guitar'', skillRequested = js ''Excel'', sw_message = None, status = st,
     sw_createdAt = 1, updatedAt = 1, completedAt = None\<rparr>"
definition ex_world :: "swap_status \<Rightarrow> world" where
  "ex_world st = \<lparr>users = [ex_alice, ex_bob, ex_dan, ex_eve], swapRequests = [ex_swap st], notifications = [],
     cuidSeq = 0, emitted = []\<rparr>"
definition ex_io :: io_server where "ex_io = (\<lambda>room ev. True)"
definition as_alice :: request where
  "as_alice = \<lparr>req_user_id = js ''alice'', req_io = Some ex_io, req_now = 5\<rparr>"
definition as_bob :: request where
  "as_bob = \<lparr>req_user_id = js ''bob'', req_io = Some ex_io, req_now = 7\<rparr>"
definition ex_body :: swap_body where
  "ex_body = \<lparr>b_receiverId = js ''bob'', b_skillOffered = js ''Piano'', b_skillRequested = js '' Chess '',
     b_message = Some (js ''  '')\<rparr>"

definition as_carol :: request where
  "as_carol = \<lparr>req_user_id = js ''carol'', req_io = Some ex_io, req_now = 9\<rparr>"

definition ex_self_body :: swap_body where
  "ex_self_body = \<lparr>b_receiverId = js ''alice'', b_skillOffered = js ''Piano'',
     b_skillRequested = js ''Chess'', b_message = None\<rparr>"

definition ex_dan_body :: swap_body where
  "ex_dan_body = \<lparr>b_receiverId = js ''dan'', b_skillOffered = js ''Piano'',
     b_skillRequested = js ''Chess'', b_message = None\<rparr>"

definition ex_dup_body :: swap_body where
  "ex_dup_body = \<lparr>b_receiverId = js ''bob'', b_skillOffered = js '' Guitar'',
     b_skillRequested = js ''Excel  '', b_message = None\<rparr>"

definition ex_mirror_body :: swap_body where
  "ex_mirror_body = \<lparr>b_receiverId = js ''alice'', b_skillOffered = js '' Chess '',
     b_skillRequested = js ''Piano'', b_message = Some (js ''hello'')\<rparr>"

definition ex_ghost_body :: swap_body where
  "ex_ghost_body = \<lparr>b_receiverId = js ''ghost'', b_skillOffered = js ''Guitar'',
     b_skillRequested = js ''Excel'', b_message = None\<rparr>"

definition ex_ghost_world :: world where
  "ex_ghost_world = \<lparr>users = [ex_alice, ex_bob],
     swapRequests = [(ex_swap PENDING)\<lparr>receiverId := js ''ghost''\<rparr>], notifications = [],
     cuidSeq = 0, emitted = []\<rparr>"


definition ex_note :: "ident \<Rightarrow> ident \<Rightarrow> bool \<Rightarrow> notification" where
  "ex_note i u rd = \<lparr>n_id = i, n_userId = u, n_type = PLATFORM_MESSAGE, n_title = js ''Hello'',
     n_message = js ''Welcome'', n_data = None, isRead = rd, n_createdAt = 2,
     readAt = (if rd then Some 3 else None)\<rparr>"

definition ex_inbox :: world where
  "ex_inbox = \<lparr>users = [ex_alice, ex_bob], swapRequests = [],
     notifications =
       [ex_note (cuid 10) (js ''bob'') False,
        ex_note (cuid 11) (js ''alice'') False,
        ex_note (cuid 12) (js ''bob'') False],
     cuidSeq = 13, emitted = []\<rparr>"

definition ex_down_io :: io_server where "ex_down_io = (\<lambda>room ev. False)"

definition ex_count_down_io :: io_server where
  "ex_count_down_io = (\<lambda>room ev. case ev of NotificationCount c \<Rightarrow> False | _ \<Rightarrow> True)"

definition ex_bob_down_io :: io_server where
  "ex_bob_down_io = (\<lambda>room ev. room \<noteq> js ''bob'')"

definition as_bob_down :: request where
  "as_bob_down = \<lparr>req_user_id = js ''bob'', req_io = Some ex_down_io, req_now = 7\<rparr>"

definition as_bob_count_down :: request where
  "as_bob_count_down = \<lparr>req_user_id = js ''bob'', req_io = Some ex_count_down_io, req_now = 7\<rparr>"

definition as_alice_count_down :: request where
  "as_alice_count_down =
     \<lparr>req_user_id = js ''alice'', req_io = Some ex_count_down_io, req_now = 5\<rparr>"

definition as_alice_bob_down :: request where
  "as_alice_bob_down = \<lparr>req_user_id = js ''alice'', req_io = Some ex_bob_down_io, req_now = 5\<rparr>"

definition ex_nbsp_body :: swap_body where
  "ex_nbsp_body = \<lparr>b_receiverId = js ''bob'', b_skillOffered = [0xA0, 0x2003] @ js ''Guitar'',
     b_skillRequested = 0xFEFF # js ''Excel'' @ [0x3000, 0x2028], b_message = None\<rparr>"

section \<open>Auxiliary facts\<close>

lemma js_eq_iff [simp]: "js a = js b \<longleftrightarrow> a = b"
  by (simp add: js_def inj_map_eq_map inj_on_def)

lemma js_empty_iff [simp]: "js a = [] \<longleftrightarrow> a = []" "[] = js a \<longleftrightarrow> a = []"
  by (auto simp: js_def)

lemmas str_eval = js_def trim_def is_space_def isLength_def presentationSequences_def

lemmas ex_defs =
  ex_alice_def ex_bob_def ex_dan_def ex_eve_def ex_swap_def ex_world_def ex_io_def as_alice_def
  as_bob_def ex_body_def

lemma find_update_row:
  assumes "\<And>x. sw_id (f x) = sw_id x"
  shows "find (\<lambda>r. sw_id r = k) (map (\<lambda>x. if sw_id x = i then f x else x) xs) =
         (if k = i then map_option f (find (\<lambda>r. sw_id r = i) xs) else find (\<lambda>r. sw_id r = k) xs)"
  by (induction xs) (auto simp: assms)

lemma findSwap_updateSwap:
  assumes "\<And>x. sw_id (f x) = sw_id x"
  shows "findSwap (snd (updateSwap i f s)) k =
         (if k = i then map_option f (findSwap s i) else findSwap s k)"
  using find_update_row [of f k i "swapRequests s", OF assms]
  by (auto simp: updateSwap_def findSwap_def split: option.splits)

lemma updateSwap_frame:
  "users (snd (updateSwap i f s)) = users s"
  "notifications (snd (updateSwap i f s)) = notifications s"
  "emitted (snd (updateSwap i f s)) = emitted s"
  "cuidSeq (snd (updateSwap i f s)) = cuidSeq s"
  by (auto simp: updateSwap_def split: option.splits)

lemma emit_frame:
  "users (snd (emit io u ev s)) = users s"
  "swapRequests (snd (emit io u ev s)) = swapRequests s"
  "notifications (snd (emit io u ev s)) = notifications s"
  "cuidSeq (snd (emit io u ev s)) = cuidSeq s"
  by (auto simp: emit_def)

lemma snd_andThen:
  "snd (andThen m f) = (case fst m of Inl e \<Rightarrow> snd m | Inr x \<Rightarrow> snd (f x (snd m)))"
  by (cases m) (auto simp: andThen_def split: sum.splits)

lemma fst_andThen:
  "fst (andThen m f) = (case fst m of Inl e \<Rightarrow> Inl e | Inr x \<Rightarrow> fst (f x (snd m)))"
  by (cases m) (auto simp: andThen_def split: sum.splits)

lemma createNotification_frame:
  "users (snd (createNotification io now u ty t m d rt s)) = users s"
  "swapRequests (snd (createNotification io now u ty t m d rt s)) = swapRequests s"
  "notifications (snd (createNotification io now u ty t m d rt s)) =
     notifications s @ [new_row s now u ty t m d]"
  "cuidSeq (snd (createNotification io now u ty t m d rt s)) = Suc (cuidSeq s)"
  by (auto simp: createNotification_def Let_def snd_andThen emit_frame new_row_def
      split: option.splits sum.splits)

lemma notify_frame:
  "snd (notifySwapRequestReceived io now u nm a b k s) =
     snd (createNotification io now u SWAP_REQUEST_RECEIVED (js ''New Swap Request'')
          (nm @ js '' wants to swap '' @ b @ js '' for your '' @ a)
          (Some [(''swapId'', k), (''senderName'', nm),
                 (''skillOffered'', a), (''skillRequested'', b)]) True s)"
  by (simp add: notifySwapRequestReceived_def snd_andThen split: sum.splits)

lemma swapRequests_notify:
  "swapRequests (snd (notifySwapRequestReceived io now u nm a b k s)) = swapRequests s"
  "swapRequests (snd (notifySwapRequestAccepted io now u nm a b k s)) = swapRequests s"
  "swapRequests (snd (notifySwapRequestRejected io now u nm a b k s)) = swapRequests s"
  "swapRequests (snd (notifySwapCompleted io now u nm a b k s)) = swapRequests s"
  by (simp_all add: notifySwapRequestReceived_def notifySwapRequestAccepted_def
      notifySwapRequestRejected_def notifySwapCompleted_def snd_andThen
      createNotification_frame split: sum.splits)

lemma users_notify:
  "users (snd (notifySwapRequestReceived io now u nm a b k s)) = users s"
  "users (snd (notifySwapRequestAccepted io now u nm a b k s)) = users s"
  "users (snd (notifySwapRequestRejected io now u nm a b k s)) = users s"
  "users (snd (notifySwapCompleted io now u nm a b k s)) = users s"
  by (simp_all add: notifySwapRequestReceived_def notifySwapRequestAccepted_def
      notifySwapRequestRejected_def notifySwapCompleted_def snd_andThen
      createNotification_frame split: sum.splits)

lemma swapRequests_accept_commit:
  "swapRequests (snd (accept_commit r i snap s)) =
   swapRequests (snd (updateSwap i (\<lambda>x. x\<lparr>status := ACCEPTED, updatedAt := req_now r\<rparr>) s))"
  by (cases snap)
     (simp add: accept_commit_def snd_andThen swapRequests_notify
        split: sum.splits option.splits prod.splits)

lemma swapRequests_reject_commit:
  "swapRequests (snd (reject_commit r i snap s)) =
   swapRequests (snd (updateSwap i (\<lambda>x. x\<lparr>status := REJECTED, updatedAt := req_now r\<rparr>) s))"
  by (cases snap)
     (simp add: reject_commit_def snd_andThen swapRequests_notify
        split: sum.splits option.splits prod.splits)

lemma swapRequests_complete_commit:
  "swapRequests (snd (complete_commit r i snap s)) =
   swapRequests (snd (updateSwap i
      (\<lambda>x. x\<lparr>status := COMPLETED, completedAt := Some (req_now r), updatedAt := req_now r\<rparr>) s))"
  by (cases snap)
     (simp add: complete_commit_def snd_andThen swapRequests_notify
        split: sum.splits option.splits prod.splits)

lemma snd_respond: "snd (respond msg m) = snd m"
  by (cases m) (auto simp: respond_def split: sum.splits)

lemma fst_respond:
  "fst (respond msg m) = (case fst m of Inl e \<Rightarrow> Inl (ApiError 500 msg) | Inr x \<Rightarrow> Inr x)"
  by (cases m) (auto simp: respond_def split: sum.splits)

lemma transition_ok_refl: "transition_ok x x"
  by (cases x) auto

lemma findSwap_None: "findSwap s k = None \<longleftrightarrow> k \<notin> sw_id ` set (swapRequests s)"
  by (auto simp: findSwap_def find_None_iff)

lemma follows_iff: "follows s s' \<longleftrightarrow> (\<forall>k. transition_ok (findSwap s k) (findSwap s' k))"
proof
  assume f: "follows s s'"
  show "\<forall>k. transition_ok (findSwap s k) (findSwap s' k)"
  proof
    fix k
    show "transition_ok (findSwap s k) (findSwap s' k)"
    proof (cases "k \<in> sw_id ` set (swapRequests s) \<or> k \<in> sw_id ` set (swapRequests s')")
      case True
      with f show ?thesis by (auto simp: follows_def list_all_iff)
    next
      case False
      then have "findSwap s k = None" "findSwap s' k = None"
        by (simp_all add: findSwap_None)
      then show ?thesis by simp
    qed
  qed
next
  assume "\<forall>k. transition_ok (findSwap s k) (findSwap s' k)"
  then show "follows s s'" by (simp add: follows_def list_all_iff)
qed

lemma find_snoc:
  "find P (xs @ [y]) = (case find P xs of Some x \<Rightarrow> Some x | None \<Rightarrow> if P y then Some y else None)"
  by (induction xs) auto

lemma submit_commit_swaps:
  "\<exists>x. status x = PENDING \<and> swapRequests (snd (submit_commit r b s)) = swapRequests s @ [x]"
  by (auto simp: submit_commit_def createSwap_def Let_def snd_andThen swapRequests_notify
      split: option.splits sum.splits)

lemma submit_transition: "transition_ok (findSwap s k) (findSwap (snd (submit r b s)) k)"
proof -
  obtain x where x: "status x = PENDING"
    "swapRequests (snd (submit_commit r (sanitize b) s)) = swapRequests s @ [x]"
    using submit_commit_swaps by blast
  have "transition_ok (findSwap s k) (findSwap (snd (submit_commit r (sanitize b) s)) k)"
    using x by (cases "findSwap s k") (auto simp: findSwap_def find_snoc)
  then show ?thesis
    by (auto simp: submit_def snd_respond transition_ok_refl split: sum.splits)
qed

lemma accept_transition: "transition_ok (findSwap s k) (findSwap (snd (accept r i s)) k)"
proof (cases "accept_guard r i s")
  case (Inl e)
  then show ?thesis by (simp add: accept_def transition_ok_refl)
next
  case (Inr snap)
  then obtain x where x: "findSwap s i = Some x" "status x = PENDING"
    by (auto simp: accept_guard_def findSwapIncl_def split: option.splits if_splits)
  have "findSwap (snd (accept r i s)) k =
        findSwap (snd (updateSwap i (\<lambda>x. x\<lparr>status := ACCEPTED, updatedAt := req_now r\<rparr>) s)) k"
    using Inr by (simp add: accept_def snd_respond findSwap_def swapRequests_accept_commit)
  then show ?thesis
    using x by (simp add: findSwap_updateSwap transition_ok_refl edge_def)
qed

lemma reject_transition: "transition_ok (findSwap s k) (findSwap (snd (reject r i s)) k)"
proof (cases "reject_guard r i s")
  case (Inl e)
  then show ?thesis by (simp add: reject_def transition_ok_refl)
next
  case (Inr snap)
  then obtain x where x: "findSwap s i = Some x" "status x = PENDING"
    by (auto simp: reject_guard_def findSwapIncl_def split: option.splits if_splits)
  have "findSwap (snd (reject r i s)) k =
        findSwap (snd (updateSwap i (\<lambda>x. x\<lparr>status := REJECTED, updatedAt := req_now r\<rparr>) s)) k"
    using Inr by (simp add: reject_def snd_respond findSwap_def swapRequests_reject_commit)
  then show ?thesis
    using x by (simp add: findSwap_updateSwap transition_ok_refl edge_def)
qed

lemma cancel_transition: "transition_ok (findSwap s k) (findSwap (snd (cancel r i s)) k)"
proof (cases "cancel_guard r i s")
  case (Inl e)
  then show ?thesis by (simp add: cancel_def transition_ok_refl)
next
  case (Inr snap)
  then obtain x where x: "findSwap s i = Some x" "status x = PENDING"
    by (auto simp: cancel_guard_def split: option.splits if_splits)
  have "findSwap (snd (cancel r i s)) k =
        findSwap (snd (updateSwap i (\<lambda>x. x\<lparr>status := CANCELLED, updatedAt := req_now r\<rparr>) s)) k"
    using Inr by (simp add: cancel_def snd_respond cancel_commit_def)
  then show ?thesis
    using x by (simp add: findSwap_updateSwap transition_ok_refl edge_def)
qed

lemma complete_transition: "transition_ok (findSwap s k) (findSwap (snd (complete r i s)) k)"
proof (cases "complete_guard r i s")
  case (Inl e)
  then show ?thesis by (simp add: complete_def transition_ok_refl)
next
  case (Inr snap)
  then obtain x where x: "findSwap s i = Some x" "status x = ACCEPTED"
    by (auto simp: complete_guard_def findSwapIncl_def split: option.splits if_splits)
  have "findSwap (snd (complete r i s)) k =
        findSwap (snd (updateSwap i
          (\<lambda>x. x\<lparr>status := COMPLETED, completedAt := Some (req_now r), updatedAt := req_now r\<rparr>) s)) k"
    using Inr by (simp add: complete_def snd_respond findSwap_def swapRequests_complete_commit)
  then show ?thesis
    using x by (simp add: findSwap_updateSwap transition_ok_refl edge_def)
qed

lemma exec_follows: "follows s (snd (exec r c s))"
  by (cases c)
     (simp_all add: follows_iff submit_transition accept_transition reject_transition
        cancel_transition complete_transition)

lemma run_follows: "successively follows (run_serial s cs)"
proof (induction cs arbitrary: s)
  case Nil
  then show ?case by simp
next
  case (Cons c cs)
  have "run_serial (snd (exec (fst c) (snd c) s)) cs \<noteq> []" by (cases cs) auto
  then obtain t ts where ts: "run_serial (snd (exec (fst c) (snd c) s)) cs = t # ts"
    by (cases "run_serial (snd (exec (fst c) (snd c) s)) cs") auto
  moreover have "t = snd (exec (fst c) (snd c) s)" using ts by (cases cs) auto
  ultimately show ?case
    using Cons.IH [of "snd (exec (fst c) (snd c) s)"] exec_follows [of s "fst c" "snd c"]
    by simp
qed

lemma exec_error_unchanged:
  "fst (exec r c s) = Inl e \<Longrightarrow> statusCode e \<noteq> 500 \<Longrightarrow> snd (exec r c s) = s"
  by (cases c)
     (auto simp: submit_def accept_def reject_def cancel_def complete_def fst_respond
        split: sum.splits if_splits)

lemma dropWhile_fix: "xs = [] \<or> \<not> P (hd xs) \<Longrightarrow> dropWhile P xs = xs"
  by (cases xs) auto

lemma trim_idem: "trim (trim s) = trim s"
proof -
  define a where "a = dropWhile is_space s"
  define b where "b = dropWhile is_space (rev a)"
  have t: "trim s = rev b" by (simp add: trim_def a_def b_def)
  have b_hd: "b = [] \<or> \<not> is_space (hd b)"
    unfolding b_def using hd_dropWhile [of is_space "rev a"] by blast
  have a_hd: "a = [] \<or> \<not> is_space (hd a)"
    unfolding a_def using hd_dropWhile [of is_space s] by blast
  have b_last: "b = [] \<or> \<not> is_space (last b)"
  proof (cases "b = []")
    case True
    then show ?thesis by simp
  next
    case False
    then have "rev a \<noteq> []" by (auto simp: b_def)
    then have an: "a \<noteq> []" by simp
    obtain ys where "rev a = ys @ b"
      unfolding b_def by (metis takeWhile_dropWhile_id)
    with False have "last b = last (rev a)" by simp
    also have "\<dots> = hd a" using an by (simp add: last_rev)
    finally show ?thesis using a_hd an by simp
  qed
  have d1: "dropWhile is_space (rev b) = rev b"
    using b_last by (intro dropWhile_fix) (auto simp: hd_rev)
  have d2: "dropWhile is_space b = b"
    using b_hd by (intro dropWhile_fix)
  have "trim (rev b) = rev b" by (simp add: trim_def d1 d2)
  then show ?thesis by (simp add: t)
qed

lemma users_submit: "users (snd (submit r b s)) = users s"
  by (auto simp: submit_def snd_respond submit_commit_def createSwap_def Let_def snd_andThen
      users_notify split: sum.splits option.splits)

lemma submit_guard_similar:
  assumes "x \<in> set (swapRequests s)" "similar (req_user_id r) b x"
  shows "\<exists>e. submit_guard r b s = Inl e"
proof -
  have "find (similar (req_user_id r) b) (swapRequests s) \<noteq> None"
    using assms by (auto simp: find_None_iff)
  then show ?thesis
    by (auto simp: submit_guard_def split: option.splits)
qed

lemma submit_guard_codes:
  assumes "submit_guard r b s = Inl e"
  shows "statusCode e = 400 \<or> (statusCode e = 404 \<and> findUser s (b_receiverId b) = None)"
  using assms by (auto simp: submit_guard_def split: option.splits if_splits)

lemma getUnreadCount_cong:
  "notifications s = notifications t \<Longrightarrow> getUnreadCount s u = getUnreadCount t u"
  by (simp add: getUnreadCount_def)

lemma createNotification_result:
  "fst (createNotification io now u ty t m d rt s) = Inr n \<Longrightarrow> n = new_row s now u ty t m d"
  by (auto simp: createNotification_def Let_def fst_andThen new_row_def
      split: option.splits sum.splits if_splits)

lemma createNotification_emitted:
  assumes "fst (createNotification (Some io) now u ty t m d True s) = Inr n"
  shows "emitted (snd (createNotification (Some io) now u ty t m d True s)) =
         emitted s @ [(u, NotificationEvent (n_id n) ty t m d now False),
                      (u, NotificationCount
                            (getUnreadCount (snd (createNotification (Some io) now u ty t m d True s)) u))]"
  using assms
  by (auto simp: createNotification_def Let_def andThen_def emit_def getUnreadCount_def
      split: option.splits sum.splits if_splits prod.splits)

lemma createNotification_no_io:
  "createNotification None now u ty t m d rt s =
     (Inr (new_row s now u ty t m d),
      s\<lparr>notifications := notifications s @ [new_row s now u ty t m d],
        cuidSeq := Suc (cuidSeq s)\<rparr>)"
  by (simp add: createNotification_def Let_def new_row_def)

lemma getUnreadCount_snoc:
  "notifications s' = notifications s @ [n] \<Longrightarrow>
   getUnreadCount s' u = getUnreadCount s u + (if n_userId n = u \<and> \<not> isRead n then 1 else 0)"
  by (simp add: getUnreadCount_def)

lemma new_row_simps:
  "n_userId (new_row s now u ty t m d) = u"
  "n_type (new_row s now u ty t m d) = ty"
  "isRead (new_row s now u ty t m d) = False"
  "n_id (new_row s now u ty t m d) = cuid (cuidSeq s)"
  "n_title (new_row s now u ty t m d) = t"
  "n_message (new_row s now u ty t m d) = m"
  "n_data (new_row s now u ty t m d) = d"
  "n_createdAt (new_row s now u ty t m d) = now"
  "readAt (new_row s now u ty t m d) = None"
  by (simp_all add: new_row_def)

text \<open>What a notify template leaves behind, whatever its outcome.\<close>

lemma notifySwapCompleted_rows:
  "\<exists>n. notifications (snd (notifySwapCompleted io now u nm a b k s)) = notifications s @ [n]
       \<and> n_userId n = u \<and> n_type n = SWAP_COMPLETED \<and> \<not> isRead n"
  by (simp add: notifySwapCompleted_def snd_andThen createNotification_frame new_row_simps
      split: sum.splits)

lemma updateSwap_found:
  "findSwap s i = Some x \<Longrightarrow>
   updateSwap i f s =
     (Inr (f x), s\<lparr>swapRequests := map (\<lambda>y. if sw_id y = i then f y else y) (swapRequests s)\<rparr>)"
  by (simp add: updateSwap_def)

lemma complete_guard_Inr:
  "complete_guard r i s = Inr (x, sn, rc) \<Longrightarrow>
   findSwap s i = Some x \<and> status x = ACCEPTED
   \<and> (senderId x = req_user_id r \<or> receiverId x = req_user_id r)
   \<and> sn = findUser s (senderId x) \<and> rc = findUser s (receiverId x)"
  by (auto simp: complete_guard_def findSwapIncl_def split: option.splits if_splits)

lemma complete_success:
  assumes ok: "complete r i s = (Inr y, s')" and io: "req_io r = Some io"
  shows "\<exists>x n1 n2. findSwap s i = Some x \<and> status x = ACCEPTED
      \<and> (senderId x = req_user_id r \<or> receiverId x = req_user_id r)
      \<and> y = x\<lparr>status := COMPLETED, completedAt := Some (req_now r), updatedAt := req_now r\<rparr>
      \<and> findSwap s' i = Some y
      \<and> notifications s' = notifications s @ [n1, n2]
      \<and> n_userId n1 = senderId x \<and> n_type n1 = SWAP_COMPLETED \<and> \<not> isRead n1
      \<and> n_userId n2 = receiverId x \<and> n_type n2 = SWAP_COMPLETED \<and> \<not> isRead n2"
proof -
  from ok obtain x sn rc where g: "complete_guard r i s = Inr (x, sn, rc)"
    by (cases "complete_guard r i s") (auto simp: complete_def)
  note gx = complete_guard_Inr [OF g]
  let ?f = "\<lambda>x. x\<lparr>status := COMPLETED, completedAt := Some (req_now r), updatedAt := req_now r\<rparr>"
  define s1 where "s1 = snd (updateSwap i ?f s)"
  have u: "updateSwap i ?f s = (Inr (?f x), s1)"
    using gx by (simp add: s1_def updateSwap_found)
  from ok g have c: "complete_commit r i (x, sn, rc) s = (Inr y, s')"
    by (cases "complete_commit r i (x, sn, rc) s")
       (auto simp: complete_def respond_def split: sum.splits)
  from c u io obtain rcu where rcu: "rc = Some rcu"
    by (cases rc) (auto simp: complete_commit_def andThen_def)
  define m1 where "m1 = notifySwapCompleted (Some io) (req_now r) (senderId x) (u_name rcu)
       (skillOffered (?f x)) (skillRequested (?f x)) (sw_id (?f x)) s1"
  from c u io rcu obtain s2 where s2: "m1 = (Inr (), s2)"
    by (cases m1; cases "fst m1") (auto simp: complete_commit_def andThen_def m1_def)
  from c u io rcu s2 obtain snu where snu: "sn = Some snu"
    by (cases sn) (auto simp: complete_commit_def andThen_def m1_def)
  define m2 where "m2 = notifySwapCompleted (Some io) (req_now r) (receiverId x) (u_name snu)
       (skillRequested (?f x)) (skillOffered (?f x)) (sw_id (?f x)) s2"
  from c u io rcu s2 snu have "andThen m2 (\<lambda>_ s3. (Inr (?f x), s3)) = (Inr y, s')"
    by (simp add: complete_commit_def andThen_def m1_def m2_def)
  then have fin: "y = ?f x" "s' = snd m2"
    by (cases m2; cases "fst m2"; auto simp: andThen_def)+
  obtain n1 where n1: "notifications s2 = notifications s1 @ [n1]"
      "n_userId n1 = senderId x" "n_type n1 = SWAP_COMPLETED" "\<not> isRead n1"
    using notifySwapCompleted_rows [of "Some io" "req_now r" "senderId x" "u_name rcu"
        "skillOffered (?f x)" "skillRequested (?f x)" "sw_id (?f x)" s1] s2
    by (auto simp: m1_def)
  obtain n2 where n2: "notifications s' = notifications s2 @ [n2]"
      "n_userId n2 = receiverId x" "n_type n2 = SWAP_COMPLETED" "\<not> isRead n2"
    using notifySwapCompleted_rows [of "Some io" "req_now r" "receiverId x" "u_name snu"
        "skillRequested (?f x)" "skillOffered (?f x)" "sw_id (?f x)" s2] fin
    by (auto simp: m2_def)
  have ns1: "notifications s1 = notifications s"
    by (simp add: s1_def updateSwap_frame)
  have "swapRequests s' = swapRequests s1"
    using fin s2 swapRequests_notify(4) [of "Some io" "req_now r" "receiverId x" "u_name snu"
        "skillRequested (?f x)" "skillOffered (?f x)" "sw_id (?f x)" s2]
      swapRequests_notify(4) [of "Some io" "req_now r" "senderId x" "u_name rcu"
        "skillOffered (?f x)" "skillRequested (?f x)" "sw_id (?f x)" s1]
    by (simp add: m1_def m2_def)
  then have "findSwap s' i = findSwap s1 i" by (simp add: findSwap_def)
  also have "\<dots> = Some (?f x)"
    using gx by (simp add: s1_def findSwap_updateSwap)
  finally have fs: "findSwap s' i = Some y" by (simp add: fin)
  show ?thesis
    using gx fin(1) fs n1 n2 ns1 by auto
qed




lemma findSwap_accept_commit:
  "findSwap s k = Some x \<Longrightarrow>
   findSwap (snd (accept_commit r k snap s)) k =
     Some (x\<lparr>status := ACCEPTED, updatedAt := req_now r\<rparr>)"
  using findSwap_updateSwap [of "\<lambda>x. x\<lparr>status := ACCEPTED, updatedAt := req_now r\<rparr>" k s k]
  by (simp add: findSwap_def swapRequests_accept_commit)

lemma findSwap_reject_commit:
  "findSwap s k = Some x \<Longrightarrow>
   findSwap (snd (reject_commit r k snap s)) k =
     Some (x\<lparr>status := REJECTED, updatedAt := req_now r\<rparr>)"
  using findSwap_updateSwap [of "\<lambda>x. x\<lparr>status := REJECTED, updatedAt := req_now r\<rparr>" k s k]
  by (simp add: findSwap_def swapRequests_reject_commit)

lemma accept_guard_pass:
  "findSwap s k = Some x \<Longrightarrow> status x = PENDING \<Longrightarrow> receiverId x = req_user_id r \<Longrightarrow>
   accept_guard r k s = Inr (x, findUser s (senderId x), findUser s (receiverId x))"
  by (simp add: accept_guard_def findSwapIncl_def)

lemma reject_guard_pass:
  "findSwap s k = Some x \<Longrightarrow> status x = PENDING \<Longrightarrow> receiverId x = req_user_id r \<Longrightarrow>
   reject_guard r k s = Inr (x, findUser s (senderId x), findUser s (receiverId x))"
  by (simp add: reject_guard_def findSwapIncl_def)

lemma accept_guard_state:
  "findSwap s k = Some x \<Longrightarrow> status x \<noteq> PENDING \<Longrightarrow>
   accept_guard r k s =
     Inl (if receiverId x = req_user_id r
          then ApiError 400 (''Cannot accept request with status: '' @ status_str (status x))
          else ApiError 403 ''You can only accept requests sent to you'')"
  by (simp add: accept_guard_def findSwapIncl_def)

lemma reject_guard_state:
  "findSwap s k = Some x \<Longrightarrow> status x \<noteq> PENDING \<Longrightarrow>
   reject_guard r k s =
     Inl (if receiverId x = req_user_id r
          then ApiError 400 (''Cannot reject request with status: '' @ status_str (status x))
          else ApiError 403 ''You can only reject requests sent to you'')"
  by (simp add: reject_guard_def findSwapIncl_def)

lemma cancel_guard_state:
  "findSwap s k = Some x \<Longrightarrow> status x \<noteq> PENDING \<Longrightarrow>
   cancel_guard r k s =
     Inl (if senderId x = req_user_id r
          then ApiError 400 (''Cannot cancel request with status: '' @ status_str (status x))
          else ApiError 403 ''You can only cancel requests you sent'')"
  by (simp add: cancel_guard_def)

lemma complete_guard_state:
  "findSwap s k = Some x \<Longrightarrow> status x \<noteq> ACCEPTED \<Longrightarrow>
   complete_guard r k s =
     Inl (if senderId x = req_user_id r \<or> receiverId x = req_user_id r
          then ApiError 400 ''Can only complete accepted swap requests''
          else ApiError 403 ''You can only complete swaps you are part of'')"
  by (simp add: complete_guard_def findSwapIncl_def)


lemma interleaved_accept_reject:
  assumes "findSwap s k = Some x" "status x = PENDING"
    "receiverId x = req_user_id ra" "receiverId x = req_user_id rb"
  defines "snap \<equiv> (x, findUser s (senderId x), findUser s (receiverId x))"
  defines "A \<equiv> respond ''Failed to accept swap request'' (accept_commit ra k snap s)"
  defines "R \<equiv> respond ''Failed to reject swap request'' (reject_commit rb k snap (snd A))"
  shows "interleave [True, False, True, False] (AcceptIt, ra, k) (RejectIt, rb, k)
           (Started, Started, s) = (Finished (fst A), Finished (fst R), snd R)"
    and "findSwap (snd R) k =
           Some (x\<lparr>status := REJECTED, updatedAt := req_now rb\<rparr>)"
proof -
  show "interleave [True, False, True, False] (AcceptIt, ra, k) (RejectIt, rb, k)
           (Started, Started, s) = (Finished (fst A), Finished (fst R), snd R)"
    using assms(1-4)
    by (simp add: accept_guard_pass reject_guard_pass snap_def A_def R_def split: prod.splits)
  have "findSwap (snd A) k = Some (x\<lparr>status := ACCEPTED, updatedAt := req_now ra\<rparr>)"
    using assms(1) by (simp add: A_def snd_respond findSwap_accept_commit)
  then show "findSwap (snd R) k = Some (x\<lparr>status := REJECTED, updatedAt := req_now rb\<rparr>)"
    by (simp add: R_def snd_respond findSwap_reject_commit)
qed

lemma respond_not_400: "fst (respond msg m) = Inl e \<Longrightarrow> statusCode e = 500"
  by (auto simp: fst_respond split: sum.splits)

lemma submit_commit_result:
  assumes "fst (submit_commit r b s) = Inr x"
  shows "swapRequests (snd (submit_commit r b s)) = swapRequests s @ [x] \<and> status x = PENDING
     \<and> senderId x = req_user_id r \<and> receiverId x = b_receiverId b
     \<and> skillOffered x = trim (b_skillOffered b) \<and> skillRequested x = trim (b_skillRequested b)
     \<and> sw_message x = (case b_message b of None \<Rightarrow> None
                        | Some m \<Rightarrow> if trim m = [] then None else Some (trim m))"
  using assms
  by (auto simp: submit_commit_def createSwap_def Let_def snd_andThen fst_andThen
      swapRequests_notify split: option.splits sum.splits)

lemma submit_Inr:
  assumes "fst (submit r body s) = Inr x"
  shows "createSwapValidation body \<and> submit_guard r (sanitize body) s = Inr ()
     \<and> fst (submit_commit r (sanitize body) s) = Inr x
     \<and> snd (submit r body s) = snd (submit_commit r (sanitize body) s)"
  using assms
  by (auto simp: submit_def fst_respond snd_respond split: if_splits sum.splits)

lemma createNotification_reliable:
  assumes "\<forall>room ev. io room ev"
  shows "fst (createNotification (Some io) now u ty t m d rt s) = Inr (new_row s now u ty t m d)"
  using assms by (simp add: createNotification_def Let_def andThen_def emit_def new_row_def)

lemma notify_reliable:
  assumes "\<forall>room ev. io room ev"
  shows "fst (notifySwapRequestReceived (Some io) now u nm a b k s) = Inr ()"
    "fst (notifySwapRequestAccepted (Some io) now u nm a b k s) = Inr ()"
    "fst (notifySwapRequestRejected (Some io) now u nm a b k s) = Inr ()"
    "fst (notifySwapCompleted (Some io) now u nm a b k s) = Inr ()"
  using assms
  by (simp_all add: notifySwapRequestReceived_def notifySwapRequestAccepted_def
      notifySwapRequestRejected_def notifySwapCompleted_def fst_andThen
      createNotification_reliable)

lemma andThen_Inr: "andThen (Inr x, s) f = f x s"
  by (simp add: andThen_def)

lemma complete_guard_pass:
  "findSwap s k = Some x \<Longrightarrow> status x = ACCEPTED \<Longrightarrow>
   senderId x = req_user_id r \<or> receiverId x = req_user_id r \<Longrightarrow>
   complete_guard r k s = Inr (x, findUser s (senderId x), findUser s (receiverId x))"
  by (auto simp: complete_guard_def findSwapIncl_def)

lemma complete_commit_reliable:
  assumes "findSwap s k = Some x" "req_io r = Some io" "\<forall>room ev. io room ev"
  shows "fst (complete_commit r k (x0, Some sn, Some rc) s) =
         Inr (x\<lparr>status := COMPLETED, completedAt := Some (req_now r), updatedAt := req_now r\<rparr>)"
  using assms
  by (simp add: complete_commit_def updateSwap_found andThen_Inr fst_andThen notify_reliable)

lemma accept_commit_reliable:
  assumes "findSwap s k = Some x" "req_io r = Some io" "\<forall>room ev. io room ev"
  shows "fst (accept_commit r k (x0, sn, Some rc) s) =
         Inr (x\<lparr>status := ACCEPTED, updatedAt := req_now r\<rparr>)"
  using assms
  by (simp add: accept_commit_def updateSwap_found andThen_Inr fst_andThen notify_reliable)

lemma reject_commit_reliable:
  assumes "findSwap s k = Some x" "req_io r = Some io" "\<forall>room ev. io room ev"
  shows "fst (reject_commit r k (x0, sn, Some rc) s) =
         Inr (x\<lparr>status := REJECTED, updatedAt := req_now r\<rparr>)"
  using assms
  by (simp add: reject_commit_def updateSwap_found andThen_Inr fst_andThen notify_reliable)

lemma accept_reliable:
  assumes "findSwap s k = Some x" "status x = PENDING" "receiverId x = req_user_id r"
    "req_io r = Some io" "\<forall>room ev. io room ev" "findUser s (receiverId x) = Some rc"
  shows "fst (accept r k s) = Inr (x\<lparr>status := ACCEPTED, updatedAt := req_now r\<rparr>)"
  using assms accept_commit_reliable [of s k x r io x "findUser s (senderId x)" rc]
  by (simp add: accept_def accept_guard_pass fst_respond)

lemma reject_reliable:
  assumes "findSwap s k = Some x" "status x = PENDING" "receiverId x = req_user_id r"
    "req_io r = Some io" "\<forall>room ev. io room ev" "findUser s (receiverId x) = Some rc"
  shows "fst (reject r k s) = Inr (x\<lparr>status := REJECTED, updatedAt := req_now r\<rparr>)"
  using assms reject_commit_reliable [of s k x r io x "findUser s (senderId x)" rc]
  by (simp add: reject_def reject_guard_pass fst_respond)



lemma ex_pending_facts:
  "findSwap (ex_world PENDING) (js ''s1'') = Some (ex_swap PENDING)"
  "status (ex_swap PENDING) = PENDING"
  "receiverId (ex_swap PENDING) = req_user_id as_bob"
  "req_io as_bob = Some ex_io"
  "\<forall>room ev. ex_io room ev"
  "findUser (ex_world PENDING) (receiverId (ex_swap PENDING)) = Some ex_bob"
  by (simp_all add: findSwap_def findUser_def ex_defs)

lemma sanitize_simps:
  "b_receiverId (sanitize b) = b_receiverId b"
  "b_skillOffered (sanitize b) = trim (b_skillOffered b)"
  "b_skillRequested (sanitize b) = trim (b_skillRequested b)"
  "b_message (sanitize b) = map_option trim (b_message b)"
  by (simp_all add: sanitize_def)

lemma api_error_code: "statusCode e = c \<Longrightarrow> \<exists>m. e = ApiError c m"
  by (cases e) simp

lemma submit_invalid:
  "\<not> createSwapValidation body \<Longrightarrow> submit r body s = (Inl (ApiError 400 ''Validation failed''), s)"
  by (simp add: submit_def)

lemma submit_guard_Inl:
  "createSwapValidation body \<Longrightarrow> submit_guard r (sanitize body) s = Inl e \<Longrightarrow>
   submit r body s = (Inl e, s)"
  by (simp add: submit_def)

lemma submit_self:
  assumes "req_user_id r = b_receiverId body"
  shows "\<exists>m. submit r body s = (Inl (ApiError 400 m), s)"
proof (cases "createSwapValidation body")
  case False
  then show ?thesis by (simp add: submit_invalid)
next
  case True
  have "submit_guard r (sanitize body) s =
      Inl (ApiError 400 ''You cannot send a swap request to yourself'')"
    using assms by (simp add: submit_guard_def sanitize_simps)
  with True show ?thesis by (simp add: submit_guard_Inl)
qed

lemma submit_closed_profile:
  assumes "findUser s (b_receiverId body) = Some u" "\<not> isActive u \<or> \<not> isPublic u"
  shows "\<exists>m. submit r body s = (Inl (ApiError 400 m), s)"
proof (cases "createSwapValidation body")
  case False
  then show ?thesis by (simp add: submit_invalid)
next
  case True
  have "\<exists>m. submit_guard r (sanitize body) s = Inl (ApiError 400 m)"
    using assms by (auto simp: submit_guard_def sanitize_simps)
  with True show ?thesis by (auto simp: submit_guard_Inl)
qed

lemma submit_similar_fails:
  assumes "x \<in> set (swapRequests s)" "similar (req_user_id r) (sanitize body) x"
  shows "\<exists>e. submit r body s = (Inl e, s)
     \<and> (statusCode e = 400 \<or> statusCode e = 404 \<and> findUser s (b_receiverId body) = None)"
proof (cases "createSwapValidation body")
  case False
  then show ?thesis by (simp add: submit_invalid)
next
  case True
  obtain e where e: "submit_guard r (sanitize body) s = Inl e"
    using submit_guard_similar [OF assms] by blast
  from submit_guard_codes [OF e] True e show ?thesis
    by (auto simp: submit_guard_Inl sanitize_simps)
qed

lemma submit_duplicate:
  assumes "findUser s (b_receiverId body) = Some u"
    "x \<in> set (swapRequests s)" "similar (req_user_id r) (sanitize body) x"
  shows "\<exists>m. submit r body s = (Inl (ApiError 400 m), s)"
proof -
  obtain e where e: "submit r body s = (Inl e, s)"
      "statusCode e = 400 \<or> statusCode e = 404 \<and> findUser s (b_receiverId body) = None"
    using submit_similar_fails [OF assms(2,3)] by blast
  with assms(1) have "statusCode e = 400" by auto
  then obtain m where "e = ApiError 400 m" using api_error_code by blast
  with e show ?thesis by blast
qed

lemma submit_duplicate_message:
  assumes "createSwapValidation body" "req_user_id r \<noteq> b_receiverId body"
    "findUser s (b_receiverId body) = Some u" "isActive u" "isPublic u"
    "x \<in> set (swapRequests s)" "similar (req_user_id r) (sanitize body) x"
  shows "submit r body s =
    (Inl (ApiError 400 ''A similar swap request already exists between you and this user''), s)"
proof -
  have "find (similar (req_user_id r) (sanitize body)) (swapRequests s) \<noteq> None"
    using assms(6,7) by (auto simp: find_None_iff)
  then have "submit_guard r (sanitize body) s =
      Inl (ApiError 400 ''A similar swap request already exists between you and this user'')"
    using assms(2-5) by (auto simp: submit_guard_def sanitize_simps split: option.splits)
  with assms(1) show ?thesis by (simp add: submit_guard_Inl)
qed

lemma submit_effect:
  assumes "fst (submit r body s) = Inr x"
  shows "swapRequests (snd (submit r body s)) = swapRequests s @ [x] \<and> status x = PENDING
     \<and> senderId x = req_user_id r \<and> receiverId x = b_receiverId body
     \<and> skillOffered x = trim (b_skillOffered body)
     \<and> skillRequested x = trim (b_skillRequested body)
     \<and> sw_message x = (case b_message body of None \<Rightarrow> None
                        | Some m \<Rightarrow> if trim m = [] then None else Some (trim m))"
  using submit_Inr [OF assms] submit_commit_result [of r "sanitize body" s x]
  by (auto simp: sanitize_simps trim_idem split: option.splits)

lemma submit_commit_notified:
  assumes ok: "fst (submit_commit r b s) = Inr x" and io: "req_io r = Some io"
  shows "\<exists>n. notifications (snd (submit_commit r b s)) = notifications s @ [n]
     \<and> n_userId n = b_receiverId b \<and> n_type n = SWAP_REQUEST_RECEIVED \<and> isRead n = False
     \<and> emitted (snd (submit_commit r b s)) =
         emitted s @ [(b_receiverId b, NotificationEvent (n_id n) SWAP_REQUEST_RECEIVED
                        (n_title n) (n_message n) (n_data n) (n_createdAt n) False),
                      (b_receiverId b, NotificationCount
                        (getUnreadCount (snd (submit_commit r b s)) (b_receiverId b)))]"
proof -
  define mk where "mk = (\<lambda>i. \<lparr>sw_id = i, senderId = req_user_id r, receiverId = b_receiverId b,
               skillOffered = trim (b_skillOffered b),
               skillRequested = trim (b_skillRequested b),
               sw_message =
                 (case b_message b of None \<Rightarrow> None
                  | Some m \<Rightarrow> if trim m = [] then None else Some (trim m)),
               status = PENDING, sw_createdAt = req_now r, updatedAt = req_now r,
               completedAt = None\<rparr>)"
  define sw where "sw = fst (createSwap mk s)"
  define s1 where "s1 = snd (createSwap mk s)"
  have c: "createSwap mk s = (sw, s1)" by (simp add: sw_def s1_def)
  have s1: "notifications s1 = notifications s" "emitted s1 = emitted s"
    by (simp_all add: s1_def createSwap_def Let_def)
  have unf: "submit_commit r b s =
      (case findUser s1 (senderId sw) of
         None \<Rightarrow> (Inl TypeError, s1)
       | Some sender \<Rightarrow>
           andThen
             (notifySwapRequestReceived (Some io) (req_now r) (b_receiverId b)
                (u_name sender) (b_skillOffered b) (b_skillRequested b) (sw_id sw) s1)
             (\<lambda>_ s2. (Inr sw, s2)))"
    using c io by (simp add: submit_commit_def mk_def [symmetric])
  from ok unf obtain sender where sn: "findUser s1 (senderId sw) = Some sender"
    by (cases "findUser s1 (senderId sw)") auto
  let ?t = "js ''New Swap Request''"
  let ?m = "u_name sender @ js '' wants to swap '' @ b_skillRequested b @ js '' for your '' @ b_skillOffered b"
  let ?d = "Some [(''swapId'', sw_id sw), (''senderName'', u_name sender),
                 (''skillOffered'', b_skillOffered b), (''skillRequested'', b_skillRequested b)]"
  define cn where "cn = createNotification (Some io) (req_now r) (b_receiverId b)
     SWAP_REQUEST_RECEIVED ?t ?m ?d True s1"
  have unf2: "submit_commit r b s = andThen (andThen cn (\<lambda>_ s'. (Inr (), s'))) (\<lambda>_ s2. (Inr sw, s2))"
    using unf sn by (simp add: notifySwapRequestReceived_def cn_def)
  from ok obtain n where n: "fst cn = Inr n"
    by (cases "fst cn") (auto simp: unf2 fst_andThen)
  have snd_eq: "snd (submit_commit r b s) = snd cn"
    using n by (simp add: unf2 snd_andThen fst_andThen)
  have nr: "n = new_row s1 (req_now r) (b_receiverId b) SWAP_REQUEST_RECEIVED ?t ?m ?d"
    using createNotification_result n unfolding cn_def by blast
  have nots: "notifications (snd cn) = notifications s @ [n]"
    unfolding cn_def by (simp add: createNotification_frame nr s1)
  have em: "emitted (snd cn) =
      emitted s @ [(b_receiverId b, NotificationEvent (n_id n) SWAP_REQUEST_RECEIVED ?t ?m ?d
                      (req_now r) False),
                   (b_receiverId b, NotificationCount (getUnreadCount (snd cn) (b_receiverId b)))]"
    using createNotification_emitted [of io "req_now r" "b_receiverId b" SWAP_REQUEST_RECEIVED
        ?t ?m ?d s1 n] n
    by (simp add: cn_def s1)
  show ?thesis
    using nots em by (auto simp: snd_eq nr new_row_simps)
qed

lemma pending_between_similar:
  "pending_between sender body x \<longleftrightarrow> similar sender (sanitize body) x"
  by (auto simp: pending_between_def similar_def sanitize_simps)

lemma submit_mirrored:
  assumes ok: "fst (submit r body s) = Inr x"
    and ua: "findUser s (req_user_id r) = Some ua"
    and m: "req_user_id r2 = b_receiverId body" "b_receiverId b2 = req_user_id r"
      "b_skillOffered b2 = b_skillRequested body" "b_skillRequested b2 = b_skillOffered body"
  shows "\<exists>msg. submit r2 b2 (snd (submit r body s)) =
           (Inl (ApiError 400 msg), snd (submit r body s))"
proof -
  let ?s1 = "snd (submit r body s)"
  note e = submit_effect [OF ok]
  have x: "x \<in> set (swapRequests ?s1)" using e by simp
  have "pending_between (req_user_id r2) b2 x"
    using e m by (simp add: pending_between_def)
  then have sim: "similar (req_user_id r2) (sanitize b2) x"
    by (simp add: pending_between_similar)
  have "findUser ?s1 (b_receiverId b2) = Some ua"
    using ua m by (simp add: findUser_def users_submit)
  from submit_duplicate [OF this x sim] show ?thesis .
qed

lemmas ex_body_defs =
  ex_self_body_def ex_dan_body_def ex_dup_body_def ex_mirror_body_def ex_ghost_body_def
  ex_ghost_world_def

lemmas submit_eval =
  submit_def createSwapValidation_def str_eval sanitize_def
  submit_guard_def findUser_def similar_def fst_respond submit_commit_def createSwap_def
  notifySwapRequestReceived_def createNotification_def andThen_def emit_def Let_def




lemma submit_whitespace_variant_fails:
  assumes "x \<in> set (swapRequests s)" "status x = PENDING" "senderId x = req_user_id r"
    "receiverId x = b_receiverId body" "skillOffered x = trim (b_skillOffered body)"
    "skillRequested x = trim (b_skillRequested body)"
  shows "\<exists>e. submit r body s = (Inl e, s)"
proof -
  have "pending_between (req_user_id r) body x"
    using assms by (simp add: pending_between_def)
  then have "similar (req_user_id r) (sanitize body) x"
    by (simp add: pending_between_similar)
  from submit_similar_fails [OF assms(1) this] show ?thesis by blast
qed

lemma find_Some_ex: "find P xs \<noteq> None \<longleftrightarrow> (\<exists>x\<in>set xs. P x)"
  by (auto simp: find_None_iff)

lemma markAsRead_P2025:
  "fst (markAsRead this_io now nid uid s) = Inl P2025
   \<longleftrightarrow> \<not> (\<exists>n\<in>set (notifications s). n_id n = nid \<and> n_userId n = uid)"
proof (cases "find (\<lambda>n. n_id n = nid \<and> n_userId n = uid) (notifications s)")
  case None
  then have "\<not> (\<exists>n\<in>set (notifications s). n_id n = nid \<and> n_userId n = uid)"
    by (auto simp: find_None_iff)
  moreover have "fst (markAsRead this_io now nid uid s) = Inl P2025"
    using None by (simp add: markAsRead_def)
  ultimately show ?thesis by simp
next
  case (Some n0)
  then have "\<exists>n\<in>set (notifications s). n_id n = nid \<and> n_userId n = uid"
    using find_Some_ex [of "\<lambda>n. n_id n = nid \<and> n_userId n = uid" "notifications s"] by simp
  moreover have "fst (markAsRead this_io now nid uid s) \<noteq> Inl P2025"
    using Some
    by (auto simp: markAsRead_def Let_def fst_andThen emit_def split: option.splits sum.splits)
  ultimately show ?thesis by simp
qed

lemma markAsRead_rows:
  assumes "\<exists>n\<in>set (notifications s). n_id n = nid \<and> n_userId n = uid"
  shows "notifications (snd (markAsRead this_io now nid uid s)) =
     map (\<lambda>n. if n_id n = nid \<and> n_userId n = uid
               then n\<lparr>isRead := True, readAt := Some now\<rparr> else n) (notifications s)"
proof -
  obtain n0 where "find (\<lambda>n. n_id n = nid \<and> n_userId n = uid) (notifications s) = Some n0"
    using assms find_Some_ex [of "\<lambda>n. n_id n = nid \<and> n_userId n = uid" "notifications s"]
    by auto
  then show ?thesis
    by (auto simp: markAsRead_def Let_def snd_andThen emit_frame split: option.splits sum.splits)
qed

lemma markAsRead_pushes:
  assumes "\<exists>n\<in>set (notifications s). n_id n = nid \<and> n_userId n = uid"
    and "\<forall>room ev. io room ev"
  shows "emitted (snd (markAsRead (Some io) now nid uid s)) =
           emitted s @ [(uid, NotificationCount
                               (getUnreadCount (snd (markAsRead (Some io) now nid uid s)) uid))]"
    and "\<exists>n'. fst (markAsRead (Some io) now nid uid s) = Inr n' \<and> isRead n' \<and> readAt n' = Some now
           \<and> n_id n' = nid \<and> n_userId n' = uid"
proof -
  obtain n0 where f: "find (\<lambda>n. n_id n = nid \<and> n_userId n = uid) (notifications s) = Some n0"
    using assms(1) find_Some_ex [of "\<lambda>n. n_id n = nid \<and> n_userId n = uid" "notifications s"]
    by auto
  then have n0: "n_id n0 = nid \<and> n_userId n0 = uid"
    using find_Some_iff [of "\<lambda>n. n_id n = nid \<and> n_userId n = uid" "notifications s" n0] by blast
  show "emitted (snd (markAsRead (Some io) now nid uid s)) =
           emitted s @ [(uid, NotificationCount
                               (getUnreadCount (snd (markAsRead (Some io) now nid uid s)) uid))]"
    using f assms(2)
    by (simp add: markAsRead_def Let_def andThen_def emit_def getUnreadCount_def)
  show "\<exists>n'. fst (markAsRead (Some io) now nid uid s) = Inr n' \<and> isRead n' \<and> readAt n' = Some now
           \<and> n_id n' = nid \<and> n_userId n' = uid"
    using f assms(2) n0
    by (simp add: markAsRead_def Let_def andThen_def emit_def)
qed

lemma markRead_404:
  "isUUID nid \<Longrightarrow>
   fst (markRead r nid s) = Inl (ApiError 404 ''Notification not found'')
   \<longleftrightarrow> fst (markAsRead (req_io r) (req_now r) nid (req_user_id r) s) = Inl P2025"
  by (cases "markAsRead (req_io r) (req_now r) nid (req_user_id r) s";
      cases "fst (markAsRead (req_io r) (req_now r) nid (req_user_id r) s)")
     (auto simp: markRead_def split: exn.splits)

lemmas inbox_defs = ex_note_def ex_inbox_def

lemma markAllAsRead_rows:
  "notifications (snd (markAllAsRead this_io now uid s)) =
     map (\<lambda>n. if n_userId n = uid \<and> \<not> isRead n
               then n\<lparr>isRead := True, readAt := Some now\<rparr> else n) (notifications s)"
  by (auto simp: markAllAsRead_def Let_def emit_def split: option.splits)

lemma markAllAsRead_zero: "getUnreadCount (snd (markAllAsRead this_io now uid s)) uid = 0"
  by (simp add: getUnreadCount_def markAllAsRead_rows filter_empty_conv)

lemma markAllAsRead_pushes:
  "io uid (NotificationCount 0) \<Longrightarrow>
   fst (markAllAsRead (Some io) now uid s) = Inr ()
   \<and> emitted (snd (markAllAsRead (Some io) now uid s)) = emitted s @ [(uid, NotificationCount 0)]"
  by (simp add: markAllAsRead_def Let_def emit_def)

lemma createNotification_unread:
  "\<exists>n. notifications (snd (createNotification io now u ty t m d rt s)) = notifications s @ [n]
       \<and> n_userId n = u \<and> n_type n = ty \<and> isRead n = False \<and> readAt n = None"
  by (simp add: createNotification_frame new_row_simps)

lemma accept_guard_Inr:
  "accept_guard r k s = Inr (x, sn, rc) \<Longrightarrow>
   findSwap s k = Some x \<and> status x = PENDING \<and> receiverId x = req_user_id r
   \<and> sn = findUser s (senderId x) \<and> rc = findUser s (receiverId x)"
  by (auto simp: accept_guard_def findSwapIncl_def split: option.splits if_splits)

lemma reject_guard_Inr:
  "reject_guard r k s = Inr (x, sn, rc) \<Longrightarrow>
   findSwap s k = Some x \<and> status x = PENDING \<and> receiverId x = req_user_id r
   \<and> sn = findUser s (senderId x) \<and> rc = findUser s (receiverId x)"
  by (auto simp: reject_guard_def findSwapIncl_def split: option.splits if_splits)

lemma findSwap_complete_commit:
  "findSwap s k = Some x \<Longrightarrow>
   findSwap (snd (complete_commit r k snap s)) k =
     Some (x\<lparr>status := COMPLETED, completedAt := Some (req_now r), updatedAt := req_now r\<rparr>)"
  using findSwap_updateSwap [of "\<lambda>x. x\<lparr>status := COMPLETED, completedAt := Some (req_now r),
      updatedAt := req_now r\<rparr>" k s k]
  by (simp add: findSwap_def swapRequests_complete_commit)

lemmas down_defs =
  ex_down_io_def as_bob_down_def ex_count_down_io_def ex_bob_down_io_def
  as_bob_count_down_def as_alice_bob_down_def as_alice_count_down_def

lemma createNotification_pushes:
  "createNotification (Some io) now u ty t m d True s =
     (if list_all (io u) (pushes (new_row s now u ty t m d) (Suc (getUnreadCount s u)))
      then Inr (new_row s now u ty t m d) else Inl SocketError,
      s\<lparr>notifications := notifications s @ [new_row s now u ty t m d],
        cuidSeq := Suc (cuidSeq s),
        emitted := emitted s @ delivered io u
          (pushes (new_row s now u ty t m d) (Suc (getUnreadCount s u)))\<rparr>)"
  by (simp add: createNotification_def Let_def andThen_def emit_def pushes_def delivered_def
      new_row_def getUnreadCount_def)

lemma andThen_unit: "andThen m (\<lambda>_ s'. (Inr (), s')) = (map_sum id (\<lambda>_. ()) (fst m), snd m)"
  by (cases m; cases "fst m") (auto simp: andThen_def)

lemma pushed_createNotification:
  "andThen (createNotification (Some io) now u ty t m d True s) (\<lambda>_ s'. (Inr (), s')) =
     pushed io u (new_row s now u ty t m d) s"
  by (simp add: andThen_unit createNotification_pushes pushed_def)

lemma notify_pushed:
  "\<exists>n. notifySwapRequestReceived (Some io) now u nm a b k s = pushed io u n s
       \<and> n_userId n = u \<and> n_type n = SWAP_REQUEST_RECEIVED \<and> isRead n = False"
  "\<exists>n. notifySwapRequestAccepted (Some io) now u nm a b k s = pushed io u n s
       \<and> n_userId n = u \<and> n_type n = SWAP_REQUEST_ACCEPTED \<and> isRead n = False"
  "\<exists>n. notifySwapRequestRejected (Some io) now u nm a b k s = pushed io u n s
       \<and> n_userId n = u \<and> n_type n = SWAP_REQUEST_REJECTED \<and> isRead n = False"
  "\<exists>n. notifySwapCompleted (Some io) now u nm a b k s = pushed io u n s
       \<and> n_userId n = u \<and> n_type n = SWAP_COMPLETED \<and> isRead n = False"
  unfolding notifySwapRequestReceived_def notifySwapRequestAccepted_def
    notifySwapRequestRejected_def notifySwapCompleted_def pushed_createNotification
  by (rule exI, rule conjI, rule refl, simp add: new_row_simps)+


lemma andThen_const:
  "andThen m (\<lambda>_ s2. (Inr y, s2)) = (map_sum id (\<lambda>_. y) (fst m), snd m)"
  by (cases m; cases "fst m") (auto simp: andThen_def)

lemma accept_commit_pushed:
  assumes f: "findSwap s k = Some x" and io: "req_io r = Some io"
  defines "s1 \<equiv> s\<lparr>swapRequests :=
      map (\<lambda>y. if sw_id y = k then y\<lparr>status := ACCEPTED, updatedAt := req_now r\<rparr> else y)
        (swapRequests s)\<rparr>"
  shows "\<exists>n. n_userId n = senderId x0 \<and> n_type n = SWAP_REQUEST_ACCEPTED \<and> isRead n = False
     \<and> accept_commit r k (x0, sn, Some rc) s =
         (map_sum id (\<lambda>_. x\<lparr>status := ACCEPTED, updatedAt := req_now r\<rparr>)
            (fst (pushed io (senderId x0) n s1)),
          snd (pushed io (senderId x0) n s1))"
proof -
  let ?f = "\<lambda>x. x\<lparr>status := ACCEPTED, updatedAt := req_now r\<rparr>"
  have u: "updateSwap k ?f s = (Inr (?f x), s1)"
    using f by (simp add: updateSwap_found s1_def)
  obtain n where n: "notifySwapRequestAccepted (Some io) (req_now r) (senderId x0) (u_name rc)
        (skillOffered x) (skillRequested x) (sw_id x) s1 = pushed io (senderId x0) n s1"
      "n_userId n = senderId x0" "n_type n = SWAP_REQUEST_ACCEPTED" "isRead n = False"
    using notify_pushed(2) by blast
  have "accept_commit r k (x0, sn, Some rc) s =
      andThen (pushed io (senderId x0) n s1) (\<lambda>_ s2. (Inr (?f x), s2))"
    unfolding accept_commit_def u by (simp add: io andThen_Inr n(1))
  then have "accept_commit r k (x0, sn, Some rc) s =
      (map_sum id (\<lambda>_. ?f x) (fst (pushed io (senderId x0) n s1)),
       snd (pushed io (senderId x0) n s1))"
    by (simp only: andThen_const)
  then show ?thesis using n(2-4) by blast
qed

lemma reject_commit_pushed:
  assumes f: "findSwap s k = Some x" and io: "req_io r = Some io"
  defines "s1 \<equiv> s\<lparr>swapRequests :=
      map (\<lambda>y. if sw_id y = k then y\<lparr>status := REJECTED, updatedAt := req_now r\<rparr> else y)
        (swapRequests s)\<rparr>"
  shows "\<exists>n. n_userId n = senderId x0 \<and> n_type n = SWAP_REQUEST_REJECTED \<and> isRead n = False
     \<and> reject_commit r k (x0, sn, Some rc) s =
         (map_sum id (\<lambda>_. x\<lparr>status := REJECTED, updatedAt := req_now r\<rparr>)
            (fst (pushed io (senderId x0) n s1)),
          snd (pushed io (senderId x0) n s1))"
proof -
  let ?f = "\<lambda>x. x\<lparr>status := REJECTED, updatedAt := req_now r\<rparr>"
  have u: "updateSwap k ?f s = (Inr (?f x), s1)"
    using f by (simp add: updateSwap_found s1_def)
  obtain n where n: "notifySwapRequestRejected (Some io) (req_now r) (senderId x0) (u_name rc)
        (skillOffered x) (skillRequested x) (sw_id x) s1 = pushed io (senderId x0) n s1"
      "n_userId n = senderId x0" "n_type n = SWAP_REQUEST_REJECTED" "isRead n = False"
    using notify_pushed(3) by blast
  have "reject_commit r k (x0, sn, Some rc) s =
      andThen (pushed io (senderId x0) n s1) (\<lambda>_ s2. (Inr (?f x), s2))"
    unfolding reject_commit_def u by (simp add: io andThen_Inr n(1))
  then have "reject_commit r k (x0, sn, Some rc) s =
      (map_sum id (\<lambda>_. ?f x) (fst (pushed io (senderId x0) n s1)),
       snd (pushed io (senderId x0) n s1))"
    by (simp only: andThen_const)
  then show ?thesis using n(2-4) by blast
qed

lemma pushed_simps:
  "notifications (snd (pushed io u n s)) = notifications s @ [n]"
  "swapRequests (snd (pushed io u n s)) = swapRequests s"
  "users (snd (pushed io u n s)) = users s"
  "cuidSeq (snd (pushed io u n s)) = Suc (cuidSeq s)"
  "emitted (snd (pushed io u n s)) =
     emitted s @ delivered io u (pushes n (Suc (getUnreadCount s u)))"
  "fst (pushed io u n s) =
     (if list_all (io u) (pushes n (Suc (getUnreadCount s u))) then Inr () else Inl SocketError)"
  by (simp_all add: pushed_def)

lemma getUnreadCount_pushed:
  "n_userId n = u \<Longrightarrow> isRead n = False \<Longrightarrow>
   getUnreadCount (snd (pushed io u n s)) u = Suc (getUnreadCount s u)"
  by (simp add: getUnreadCount_def pushed_simps)

lemma accept_outcome:
  assumes g: "accept_guard r k s = Inr (x, sn, Some rc)" and io: "req_io r = Some io"
  shows "\<exists>n. notifications (snd (accept r k s)) = notifications s @ [n]
     \<and> n_userId n = senderId x \<and> n_type n = SWAP_REQUEST_ACCEPTED \<and> isRead n = False
     \<and> findSwap (snd (accept r k s)) k = Some (x\<lparr>status := ACCEPTED, updatedAt := req_now r\<rparr>)
     \<and> emitted (snd (accept r k s)) =
         emitted s @ delivered io (senderId x)
           (pushes n (getUnreadCount (snd (accept r k s)) (senderId x)))
     \<and> fst (accept r k s) =
         (if list_all (io (senderId x))
               (pushes n (getUnreadCount (snd (accept r k s)) (senderId x)))
          then Inr (x\<lparr>status := ACCEPTED, updatedAt := req_now r\<rparr>)
          else Inl (ApiError 500 ''Failed to accept swap request''))"
proof -
  from g have f: "findSwap s k = Some x" using accept_guard_Inr by blast
  define s1 where "s1 = s\<lparr>swapRequests :=
      map (\<lambda>y. if sw_id y = k then y\<lparr>status := ACCEPTED, updatedAt := req_now r\<rparr> else y)
        (swapRequests s)\<rparr>"
  obtain n where n: "n_userId n = senderId x" "n_type n = SWAP_REQUEST_ACCEPTED" "isRead n = False"
    and c: "accept_commit r k (x, sn, Some rc) s =
         (map_sum id (\<lambda>_. x\<lparr>status := ACCEPTED, updatedAt := req_now r\<rparr>)
            (fst (pushed io (senderId x) n s1)),
          snd (pushed io (senderId x) n s1))"
    using accept_commit_pushed [OF f io, of x sn rc] unfolding s1_def by blast
  have h: "accept r k s = respond ''Failed to accept swap request'' (accept_commit r k (x, sn, Some rc) s)"
    by (simp add: accept_def g)
  have w: "snd (accept r k s) = snd (pushed io (senderId x) n s1)"
    by (simp add: h snd_respond c)
  have s1: "notifications s1 = notifications s" "emitted s1 = emitted s"
    "getUnreadCount s1 (senderId x) = getUnreadCount s (senderId x)"
    by (simp_all add: s1_def getUnreadCount_def)
  have cnt: "getUnreadCount (snd (accept r k s)) (senderId x) = Suc (getUnreadCount s (senderId x))"
    by (simp add: w getUnreadCount_pushed n s1)
  have 1: "notifications (snd (accept r k s)) = notifications s @ [n]"
    by (simp add: w pushed_simps s1)
  have 2: "findSwap (snd (accept r k s)) k = Some (x\<lparr>status := ACCEPTED, updatedAt := req_now r\<rparr>)"
    by (simp add: h snd_respond findSwap_accept_commit [OF f])
  have 3: "emitted (snd (accept r k s)) =
         emitted s @ delivered io (senderId x)
           (pushes n (getUnreadCount (snd (accept r k s)) (senderId x)))"
    unfolding cnt by (simp add: w pushed_simps s1)
  have 4: "fst (accept r k s) =
         (if list_all (io (senderId x))
               (pushes n (getUnreadCount (snd (accept r k s)) (senderId x)))
          then Inr (x\<lparr>status := ACCEPTED, updatedAt := req_now r\<rparr>)
          else Inl (ApiError 500 ''Failed to accept swap request''))"
    unfolding cnt by (simp add: h fst_respond c pushed_simps s1)
  show ?thesis using 1 n 2 3 4 by blast
qed

lemma reject_outcome:
  assumes g: "reject_guard r k s = Inr (x, sn, Some rc)" and io: "req_io r = Some io"
  shows "\<exists>n. notifications (snd (reject r k s)) = notifications s @ [n]
     \<and> n_userId n = senderId x \<and> n_type n = SWAP_REQUEST_REJECTED \<and> isRead n = False
     \<and> findSwap (snd (reject r k s)) k = Some (x\<lparr>status := REJECTED, updatedAt := req_now r\<rparr>)
     \<and> emitted (snd (reject r k s)) =
         emitted s @ delivered io (senderId x)
           (pushes n (getUnreadCount (snd (reject r k s)) (senderId x)))
     \<and> fst (reject r k s) =
         (if list_all (io (senderId x))
               (pushes n (getUnreadCount (snd (reject r k s)) (senderId x)))
          then Inr (x\<lparr>status := REJECTED, updatedAt := req_now r\<rparr>)
          else Inl (ApiError 500 ''Failed to reject swap request''))"
proof -
  from g have f: "findSwap s k = Some x" using reject_guard_Inr by blast
  define s1 where "s1 = s\<lparr>swapRequests :=
      map (\<lambda>y. if sw_id y = k then y\<lparr>status := REJECTED, updatedAt := req_now r\<rparr> else y)
        (swapRequests s)\<rparr>"
  obtain n where n: "n_userId n = senderId x" "n_type n = SWAP_REQUEST_REJECTED" "isRead n = False"
    and c: "reject_commit r k (x, sn, Some rc) s =
         (map_sum id (\<lambda>_. x\<lparr>status := REJECTED, updatedAt := req_now r\<rparr>)
            (fst (pushed io (senderId x) n s1)),
          snd (pushed io (senderId x) n s1))"
    using reject_commit_pushed [OF f io, of x sn rc] unfolding s1_def by blast
  have h: "reject r k s = respond ''Failed to reject swap request'' (reject_commit r k (x, sn, Some rc) s)"
    by (simp add: reject_def g)
  have w: "snd (reject r k s) = snd (pushed io (senderId x) n s1)"
    by (simp add: h snd_respond c)
  have s1: "notifications s1 = notifications s" "emitted s1 = emitted s"
    "getUnreadCount s1 (senderId x) = getUnreadCount s (senderId x)"
    by (simp_all add: s1_def getUnreadCount_def)
  have cnt: "getUnreadCount (snd (reject r k s)) (senderId x) = Suc (getUnreadCount s (senderId x))"
    by (simp add: w getUnreadCount_pushed n s1)
  have 1: "notifications (snd (reject r k s)) = notifications s @ [n]"
    by (simp add: w pushed_simps s1)
  have 2: "findSwap (snd (reject r k s)) k = Some (x\<lparr>status := REJECTED, updatedAt := req_now r\<rparr>)"
    by (simp add: h snd_respond findSwap_reject_commit [OF f])
  have 3: "emitted (snd (reject r k s)) =
         emitted s @ delivered io (senderId x)
           (pushes n (getUnreadCount (snd (reject r k s)) (senderId x)))"
    unfolding cnt by (simp add: w pushed_simps s1)
  have 4: "fst (reject r k s) =
         (if list_all (io (senderId x))
               (pushes n (getUnreadCount (snd (reject r k s)) (senderId x)))
          then Inr (x\<lparr>status := REJECTED, updatedAt := req_now r\<rparr>)
          else Inl (ApiError 500 ''Failed to reject swap request''))"
    unfolding cnt by (simp add: h fst_respond c pushed_simps s1)
  show ?thesis using 1 n 2 3 4 by blast
qed


lemma complete_commit_pushed:
  assumes f: "findSwap s k = Some x" and io: "req_io r = Some io"
  defines "s1 \<equiv> s\<lparr>swapRequests :=
      map (\<lambda>y. if sw_id y = k
                then y\<lparr>status := COMPLETED, completedAt := Some (req_now r), updatedAt := req_now r\<rparr>
                else y)
        (swapRequests s)\<rparr>"
  shows "\<exists>n1. n_userId n1 = senderId x0 \<and> n_type n1 = SWAP_COMPLETED \<and> isRead n1 = False
     \<and> (\<exists>n2. n_userId n2 = receiverId x0 \<and> n_type n2 = SWAP_COMPLETED \<and> isRead n2 = False
          \<and> complete_commit r k (x0, Some sn, Some rc) s =
            (if fst (pushed io (senderId x0) n1 s1) = Inr ()
             then (map_sum id
                     (\<lambda>_. x\<lparr>status := COMPLETED, completedAt := Some (req_now r),
                              updatedAt := req_now r\<rparr>)
                     (fst (pushed io (receiverId x0) n2 (snd (pushed io (senderId x0) n1 s1)))),
                   snd (pushed io (receiverId x0) n2 (snd (pushed io (senderId x0) n1 s1))))
             else (Inl SocketError, snd (pushed io (senderId x0) n1 s1))))"
proof -
  let ?f = "\<lambda>x. x\<lparr>status := COMPLETED, completedAt := Some (req_now r), updatedAt := req_now r\<rparr>"
  have u: "updateSwap k ?f s = (Inr (?f x), s1)"
    using f by (simp add: updateSwap_found s1_def)
  obtain n1 where n1: "notifySwapCompleted (Some io) (req_now r) (senderId x0) (u_name rc)
        (skillOffered x) (skillRequested x) (sw_id x) s1 = pushed io (senderId x0) n1 s1"
      "n_userId n1 = senderId x0" "n_type n1 = SWAP_COMPLETED" "isRead n1 = False"
    using notify_pushed(4) by blast
  define s2 where "s2 = snd (pushed io (senderId x0) n1 s1)"
  obtain n2 where n2: "notifySwapCompleted (Some io) (req_now r) (receiverId x0) (u_name sn)
        (skillRequested x) (skillOffered x) (sw_id x) s2 = pushed io (receiverId x0) n2 s2"
      "n_userId n2 = receiverId x0" "n_type n2 = SWAP_COMPLETED" "isRead n2 = False"
    using notify_pushed(4) by blast
  have p1: "pushed io (senderId x0) n1 s1 = (fst (pushed io (senderId x0) n1 s1), s2)"
    by (simp add: s2_def)
  have "complete_commit r k (x0, Some sn, Some rc) s =
      andThen (pushed io (senderId x0) n1 s1)
        (\<lambda>_ s2. andThen (notifySwapCompleted (Some io) (req_now r) (receiverId x0) (u_name sn)
                           (skillRequested x) (skillOffered x) (sw_id x) s2)
                   (\<lambda>_ s3. (Inr (?f x), s3)))"
    unfolding complete_commit_def u by (simp add: io andThen_Inr n1(1))
  also have "\<dots> =
      (if fst (pushed io (senderId x0) n1 s1) = Inr ()
       then andThen (pushed io (receiverId x0) n2 s2) (\<lambda>_ s3. (Inr (?f x), s3))
       else (Inl SocketError, s2))"
    by (subst p1) (simp add: andThen_def pushed_simps n2(1))
  finally have "complete_commit r k (x0, Some sn, Some rc) s =
      (if fst (pushed io (senderId x0) n1 s1) = Inr ()
       then (map_sum id (\<lambda>_. ?f x) (fst (pushed io (receiverId x0) n2 s2)),
             snd (pushed io (receiverId x0) n2 s2))
       else (Inl SocketError, s2))"
    by (simp only: andThen_const)
  then show ?thesis using n1(2-4) n2(2-4) unfolding s2_def by blast
qed


lemma complete_outcome:
  assumes g: "complete_guard r k s = Inr (x, Some sn, Some rc)" and io: "req_io r = Some io"
  shows "findSwap (snd (complete r k s)) k =
       Some (x\<lparr>status := COMPLETED, completedAt := Some (req_now r), updatedAt := req_now r\<rparr>)
     \<and> (\<exists>n1. n_userId n1 = senderId x \<and> n_type n1 = SWAP_COMPLETED \<and> isRead n1 = False
          \<and> (if list_all (io (senderId x)) (pushes n1 (Suc (getUnreadCount s (senderId x))))
              then \<exists>n2. n_userId n2 = receiverId x \<and> n_type n2 = SWAP_COMPLETED
                     \<and> isRead n2 = False
                     \<and> notifications (snd (complete r k s)) = notifications s @ [n1, n2]
                     \<and> emitted (snd (complete r k s)) =
                         emitted s
                         @ delivered io (senderId x)
                             (pushes n1 (Suc (getUnreadCount s (senderId x))))
                         @ delivered io (receiverId x)
                             (pushes n2 (getUnreadCount (snd (complete r k s)) (receiverId x)))
                     \<and> fst (complete r k s) =
                         (if list_all (io (receiverId x))
                               (pushes n2 (getUnreadCount (snd (complete r k s)) (receiverId x)))
                          then Inr (x\<lparr>status := COMPLETED, completedAt := Some (req_now r),
                                       updatedAt := req_now r\<rparr>)
                          else Inl (ApiError 500 ''Failed to complete swap request''))
              else notifications (snd (complete r k s)) = notifications s @ [n1]
                   \<and> emitted (snd (complete r k s)) =
                       emitted s @ delivered io (senderId x)
                         (pushes n1 (Suc (getUnreadCount s (senderId x))))
                   \<and> fst (complete r k s) =
                       Inl (ApiError 500 ''Failed to complete swap request'')))"
proof -
  from g have f: "findSwap s k = Some x" using complete_guard_Inr by blast
  let ?x' = "x\<lparr>status := COMPLETED, completedAt := Some (req_now r), updatedAt := req_now r\<rparr>"
  define s1 where "s1 = s\<lparr>swapRequests :=
      map (\<lambda>y. if sw_id y = k
                then y\<lparr>status := COMPLETED, completedAt := Some (req_now r), updatedAt := req_now r\<rparr>
                else y)
        (swapRequests s)\<rparr>"
  obtain n1 n2 where n1: "n_userId n1 = senderId x" "n_type n1 = SWAP_COMPLETED" "isRead n1 = False"
    and n2: "n_userId n2 = receiverId x" "n_type n2 = SWAP_COMPLETED" "isRead n2 = False"
    and c: "complete_commit r k (x, Some sn, Some rc) s =
            (if fst (pushed io (senderId x) n1 s1) = Inr ()
             then (map_sum id (\<lambda>_. ?x')
                     (fst (pushed io (receiverId x) n2 (snd (pushed io (senderId x) n1 s1)))),
                   snd (pushed io (receiverId x) n2 (snd (pushed io (senderId x) n1 s1))))
             else (Inl SocketError, snd (pushed io (senderId x) n1 s1)))"
    using complete_commit_pushed [OF f io, of x sn rc] unfolding s1_def by blast
  define s2 where "s2 = snd (pushed io (senderId x) n1 s1)"
  let ?p1 = "pushes n1 (Suc (getUnreadCount s (senderId x)))"
  have h: "complete r k s =
      respond ''Failed to complete swap request'' (complete_commit r k (x, Some sn, Some rc) s)"
    by (simp add: complete_def g)
  have s1: "notifications s1 = notifications s" "emitted s1 = emitted s"
    "getUnreadCount s1 (senderId x) = getUnreadCount s (senderId x)"
    by (simp_all add: s1_def getUnreadCount_def)
  have s2: "notifications s2 = notifications s @ [n1]"
    "emitted s2 = emitted s @ delivered io (senderId x) ?p1"
    by (simp_all add: s2_def pushed_simps s1)
  have ok1: "fst (pushed io (senderId x) n1 s1) = Inr () \<longleftrightarrow> list_all (io (senderId x)) ?p1"
    by (simp add: pushed_simps s1)
  have fs: "findSwap (snd (complete r k s)) k = Some ?x'"
    by (simp add: h snd_respond findSwap_complete_commit [OF f])
  show ?thesis
  proof (cases "list_all (io (senderId x)) ?p1")
    case False
    then have c': "complete_commit r k (x, Some sn, Some rc) s = (Inl SocketError, s2)"
      using c ok1 by (simp add: s2_def)
    have "notifications (snd (complete r k s)) = notifications s @ [n1]
        \<and> emitted (snd (complete r k s)) = emitted s @ delivered io (senderId x) ?p1
        \<and> fst (complete r k s) = Inl (ApiError 500 ''Failed to complete swap request'')"
      by (simp add: h c' respond_def s2)
    with False fs n1 show ?thesis by auto
  next
    case True
    then have c': "complete_commit r k (x, Some sn, Some rc) s =
        (map_sum id (\<lambda>_. ?x') (fst (pushed io (receiverId x) n2 s2)),
         snd (pushed io (receiverId x) n2 s2))"
      using c ok1 by (simp add: s2_def)
    have w: "snd (complete r k s) = snd (pushed io (receiverId x) n2 s2)"
      by (simp add: h snd_respond c')
    have cnt: "getUnreadCount (snd (complete r k s)) (receiverId x)
        = Suc (getUnreadCount s2 (receiverId x))"
      by (simp add: w getUnreadCount_pushed n2)
    have a: "notifications (snd (complete r k s)) = notifications s @ [n1, n2]"
      by (simp add: w pushed_simps s2)
    have b: "emitted (snd (complete r k s)) =
        emitted s @ delivered io (senderId x) ?p1
        @ delivered io (receiverId x)
            (pushes n2 (getUnreadCount (snd (complete r k s)) (receiverId x)))"
      unfolding cnt by (simp add: w pushed_simps s2)
    have d: "fst (complete r k s) =
        (if list_all (io (receiverId x))
              (pushes n2 (getUnreadCount (snd (complete r k s)) (receiverId x)))
         then Inr ?x' else Inl (ApiError 500 ''Failed to complete swap request''))"
      unfolding cnt by (simp add: h fst_respond c' pushed_simps)
    from True fs n1 n2 a b d show ?thesis by auto
  qed
qed

lemma submit_outcome:
  assumes v: "createSwapValidation body" and g: "submit_guard r (sanitize body) s = Inr ()"
    and io: "req_io r = Some io" and ua: "findUser s (req_user_id r) = Some ua"
  shows "\<exists>x n. swapRequests (snd (submit r body s)) = swapRequests s @ [x]
     \<and> status x = PENDING \<and> senderId x = req_user_id r \<and> receiverId x = b_receiverId body
     \<and> notifications (snd (submit r body s)) = notifications s @ [n]
     \<and> n_userId n = b_receiverId body \<and> n_type n = SWAP_REQUEST_RECEIVED \<and> isRead n = False
     \<and> emitted (snd (submit r body s)) =
         emitted s @ delivered io (b_receiverId body)
           (pushes n (getUnreadCount (snd (submit r body s)) (b_receiverId body)))
     \<and> fst (submit r body s) =
         (if list_all (io (b_receiverId body))
               (pushes n (getUnreadCount (snd (submit r body s)) (b_receiverId body)))
          then Inr x else Inl (ApiError 500 ''Failed to create swap request''))"
proof -
  let ?b = "sanitize body"
  let ?u = "b_receiverId body"
  define mk where "mk = (\<lambda>i. \<lparr>sw_id = i, senderId = req_user_id r, receiverId = b_receiverId ?b,
               skillOffered = trim (b_skillOffered ?b),
               skillRequested = trim (b_skillRequested ?b),
               sw_message =
                 (case b_message ?b of None \<Rightarrow> None
                  | Some m \<Rightarrow> if trim m = [] then None else Some (trim m)),
               status = PENDING, sw_createdAt = req_now r, updatedAt = req_now r,
               completedAt = None\<rparr>)"
  define sw where "sw = mk (cuid (cuidSeq s))"
  define s1 where "s1 = s\<lparr>swapRequests := swapRequests s @ [sw], cuidSeq := Suc (cuidSeq s)\<rparr>"
  have cs: "createSwap mk s = (sw, s1)"
    by (simp add: createSwap_def Let_def sw_def s1_def)
  have sw: "status sw = PENDING" "senderId sw = req_user_id r" "receiverId sw = ?u"
    by (simp_all add: sw_def mk_def sanitize_simps)
  have s1: "notifications s1 = notifications s" "emitted s1 = emitted s"
    "swapRequests s1 = swapRequests s @ [sw]"
    "getUnreadCount s1 ?u = getUnreadCount s ?u"
    "findUser s1 (senderId sw) = Some ua"
    using ua by (simp_all add: s1_def getUnreadCount_def findUser_def sw)
  obtain n where n: "notifySwapRequestReceived (Some io) (req_now r) ?u (u_name ua)
        (trim (b_skillOffered body)) (trim (b_skillRequested body)) (sw_id sw) s1
          = pushed io ?u n s1"
      "n_userId n = ?u" "n_type n = SWAP_REQUEST_RECEIVED" "isRead n = False"
    using notify_pushed(1) by blast
  have "submit_commit r ?b s = andThen (pushed io ?u n s1) (\<lambda>_ s2. (Inr sw, s2))"
    unfolding submit_commit_def mk_def [symmetric] cs
    by (simp add: io s1 n(1) sanitize_simps)
  then have c: "submit_commit r ?b s =
      (map_sum id (\<lambda>_. sw) (fst (pushed io ?u n s1)), snd (pushed io ?u n s1))"
    by (simp only: andThen_const)
  have h: "submit r body s = respond ''Failed to create swap request'' (submit_commit r ?b s)"
    using v g by (simp add: submit_def)
  have w: "snd (submit r body s) = snd (pushed io ?u n s1)"
    by (simp add: h snd_respond c)
  have cnt: "getUnreadCount (snd (submit r body s)) ?u = Suc (getUnreadCount s ?u)"
    by (simp add: w getUnreadCount_pushed n s1)
  have 1: "swapRequests (snd (submit r body s)) = swapRequests s @ [sw]"
    by (simp add: w pushed_simps s1)
  have 2: "notifications (snd (submit r body s)) = notifications s @ [n]"
    by (simp add: w pushed_simps s1)
  have 3: "emitted (snd (submit r body s)) =
         emitted s @ delivered io ?u (pushes n (getUnreadCount (snd (submit r body s)) ?u))"
    unfolding cnt by (simp add: w pushed_simps s1)
  have 4: "fst (submit r body s) =
         (if list_all (io ?u) (pushes n (getUnreadCount (snd (submit r body s)) ?u))
          then Inr sw else Inl (ApiError 500 ''Failed to create swap request''))"
    unfolding cnt by (simp add: h fst_respond c pushed_simps s1)
  show ?thesis using 1 sw 2 n(2-4) 3 4 by blast
qed

lemma isUUID_length: "isUUID s \<Longrightarrow> length s = 36"
  by (auto simp: isUUID_def uuid_layout_def)

lemma length_base36_digits: "length (base36_digits k n) = k"
  by (induction k arbitrary: n) simp_all

lemma length_cuid: "length (cuid n) = 25"
  by (simp add: cuid_def length_base36_digits)

lemma base36_digits_numeral:
  "base36_digits (numeral k) n = base36_digits (pred_numeral k) (n div 36) @ [base36 (n mod 36)]"
  unfolding numeral_eq_Suc [of k] by (rule base36_digits.simps(2))

lemma cuid_not_UUID: "\<not> isUUID (cuid n)"
proof
  assume "isUUID (cuid n)"
  then have "length (cuid n) = 36" by (rule isUUID_length)
  then show False by (simp add: length_cuid)
qed

lemma markRead_cuid: "markRead r (cuid n) s = (Inl (ApiError 400 ''Validation failed''), s)"
  by (simp add: markRead_def cuid_not_UUID)

lemma cuid_distinct: "cuid 12 \<noteq> cuid 10" "cuid 11 \<noteq> cuid 10"
  by (simp_all add: cuid_def base36_def base36_digits_numeral)

lemma overlapping_accept_reject:
  assumes "findSwap s k = Some x" "status x = PENDING"
    "receiverId x = req_user_id ra" "receiverId x = req_user_id rb"
  shows "\<exists>A R h w2 w3.
      interleave [True, False, True] (AcceptIt, ra, k) (RejectIt, rb, k) (Started, Started, s)
        = (Finished A, h, w2)
      \<and> interleave [True, False, True, False] (AcceptIt, ra, k) (RejectIt, rb, k)
          (Started, Started, s) = (Finished A, Finished R, w3)
      \<and> findSwap w2 k = Some (x\<lparr>status := ACCEPTED, updatedAt := req_now ra\<rparr>)
      \<and> findSwap w3 k = Some (x\<lparr>status := REJECTED, updatedAt := req_now rb\<rparr>)
      \<and> \<not> follows w2 w3
      \<and> (\<forall>e. R = Inl e \<longrightarrow> statusCode e = 500)"
proof -
  let ?snap = "(x, findUser s (senderId x), findUser s (receiverId x))"
  let ?A = "respond ''Failed to accept swap request'' (accept_commit ra k ?snap s)"
  let ?R = "respond ''Failed to reject swap request'' (reject_commit rb k ?snap (snd ?A))"
  have 3: "interleave [True, False, True] (AcceptIt, ra, k) (RejectIt, rb, k) (Started, Started, s)
        = (Finished (fst ?A), Guarded ?snap, snd ?A)"
    using assms by (simp add: accept_guard_pass reject_guard_pass split: prod.splits)
  have 4: "interleave [True, False, True, False] (AcceptIt, ra, k) (RejectIt, rb, k)
          (Started, Started, s) = (Finished (fst ?A), Finished (fst ?R), snd ?R)"
    by (rule interleaved_accept_reject(1) [OF assms])
  have f2: "findSwap (snd ?A) k = Some (x\<lparr>status := ACCEPTED, updatedAt := req_now ra\<rparr>)"
    using assms(1) by (simp add: snd_respond findSwap_accept_commit)
  have f3: "findSwap (snd ?R) k = Some (x\<lparr>status := REJECTED, updatedAt := req_now rb\<rparr>)"
    by (rule interleaved_accept_reject(2) [OF assms])
  have nf: "\<not> follows (snd ?A) (snd ?R)"
  proof
    assume "follows (snd ?A) (snd ?R)"
    then have "transition_ok (findSwap (snd ?A) k) (findSwap (snd ?R) k)"
      by (simp add: follows_iff)
    then show False by (simp add: f2 f3 edge_def)
  qed
  have er: "\<forall>e. fst ?R = Inl e \<longrightarrow> statusCode e = 500"
    using respond_not_400 by blast
  show ?thesis using 3 4 f2 f3 nf er by blast
qed

section \<open>The claims\<close>

text \<open>
  C1 (as the code has it). When lifecycle requests run one after another, each answered
  before the next starts, the row of every identity only moves along the edges of the
  state machine and a row that appears is pending; a row that submit creates is
  pending; and accept, reject or cancel of a row that is not pending, or complete of a
  row that is not accepted, fails and changes nothing, with 400 and the message naming
  the state when the caller has the role the operation asks for (the receiver for accept
  and reject, the sender for cancel, either of them for complete) and with 403 otherwise,
  the role being checked first. Requests that overlap are not bound by the edges: a
  handler reads the row, awaits, and updates it by identity without looking at the status
  again, so an accept and a reject by the receiver whose reads both come before the
  writes take a pending row to ACCEPTED and from ACCEPTED to REJECTED, and the reject
  does not fail with 400 (it answers a response, or 500 when its push throws).
\<close>

theorem status_follows_edges:
  "successively follows (run_serial s cs)
   \<and> (\<forall>x. fst (submit r body s) = Inr x \<longrightarrow>
          status x = PENDING \<and> swapRequests (snd (submit r body s)) = swapRequests s @ [x])
   \<and> (\<forall>x. findSwap s k = Some x \<and> status x \<noteq> PENDING \<longrightarrow>
          accept r k s =
            (Inl (if receiverId x = req_user_id r
                  then ApiError 400 (''Cannot accept request with status: '' @ status_str (status x))
                  else ApiError 403 ''You can only accept requests sent to you''), s)
        \<and> reject r k s =
            (Inl (if receiverId x = req_user_id r
                  then ApiError 400 (''Cannot reject request with status: '' @ status_str (status x))
                  else ApiError 403 ''You can only reject requests sent to you''), s)
        \<and> cancel r k s =
            (Inl (if senderId x = req_user_id r
                  then ApiError 400 (''Cannot cancel request with status: '' @ status_str (status x))
                  else ApiError 403 ''You can only cancel requests you sent''), s))
   \<and> (\<forall>x. findSwap s k = Some x \<and> status x \<noteq> ACCEPTED \<longrightarrow>
          complete r k s =
            (Inl (if senderId x = req_user_id r \<or> receiverId x = req_user_id r
                  then ApiError 400 ''Can only complete accepted swap requests''
                  else ApiError 403 ''You can only complete swaps you are part of''), s))
   \<and> (\<forall>x. findSwap s k = Some x \<and> status x = PENDING
          \<and> receiverId x = req_user_id ra \<and> receiverId x = req_user_id rb \<longrightarrow>
        (\<exists>A R h w2 w3.
           interleave [True, False, True] (AcceptIt, ra, k) (RejectIt, rb, k)
             (Started, Started, s) = (Finished A, h, w2)
           \<and> interleave [True, False, True, False] (AcceptIt, ra, k) (RejectIt, rb, k)
               (Started, Started, s) = (Finished A, Finished R, w3)
           \<and> findSwap w2 k = Some (x\<lparr>status := ACCEPTED, updatedAt := req_now ra\<rparr>)
           \<and> findSwap w3 k = Some (x\<lparr>status := REJECTED, updatedAt := req_now rb\<rparr>)
           \<and> \<not> follows w2 w3
           \<and> (\<forall>e. R = Inl e \<longrightarrow> statusCode e = 500)))"
proof (intro conjI allI impI)
  show "successively follows (run_serial s cs)" by (rule run_follows)
next
  fix x assume a: "fst (submit r body s) = Inr x"
  note i = submit_Inr [OF a]
  from i submit_commit_result [of r "sanitize body" s x]
  show "status x = PENDING" by simp
  from i submit_commit_result [of r "sanitize body" s x]
  show "swapRequests (snd (submit r body s)) = swapRequests s @ [x]" by simp
next
  fix x assume "findSwap s k = Some x \<and> status x \<noteq> PENDING"
  then have a: "findSwap s k = Some x" "status x \<noteq> PENDING" by simp_all
  show "accept r k s =
            (Inl (if receiverId x = req_user_id r
                  then ApiError 400 (''Cannot accept request with status: '' @ status_str (status x))
                  else ApiError 403 ''You can only accept requests sent to you''), s)"
    by (simp add: accept_def accept_guard_state [OF a])
  show "reject r k s =
            (Inl (if receiverId x = req_user_id r
                  then ApiError 400 (''Cannot reject request with status: '' @ status_str (status x))
                  else ApiError 403 ''You can only reject requests sent to you''), s)"
    by (simp add: reject_def reject_guard_state [OF a])
  show "cancel r k s =
            (Inl (if senderId x = req_user_id r
                  then ApiError 400 (''Cannot cancel request with status: '' @ status_str (status x))
                  else ApiError 403 ''You can only cancel requests you sent''), s)"
    by (simp add: cancel_def cancel_guard_state [OF a])
next
  fix x assume "findSwap s k = Some x \<and> status x \<noteq> ACCEPTED"
  then have a: "findSwap s k = Some x" "status x \<noteq> ACCEPTED" by simp_all
  show "complete r k s =
            (Inl (if senderId x = req_user_id r \<or> receiverId x = req_user_id r
                  then ApiError 400 ''Can only complete accepted swap requests''
                  else ApiError 403 ''You can only complete swaps you are part of''), s)"
    by (simp add: complete_def complete_guard_state [OF a])
next
  fix x
  assume "findSwap s k = Some x \<and> status x = PENDING
          \<and> receiverId x = req_user_id ra \<and> receiverId x = req_user_id rb"
  then have h: "findSwap s k = Some x" "status x = PENDING"
    "receiverId x = req_user_id ra" "receiverId x = req_user_id rb" by blast+
  show "\<exists>A R h w2 w3.
           interleave [True, False, True] (AcceptIt, ra, k) (RejectIt, rb, k)
             (Started, Started, s) = (Finished A, h, w2)
           \<and> interleave [True, False, True, False] (AcceptIt, ra, k) (RejectIt, rb, k)
               (Started, Started, s) = (Finished A, Finished R, w3)
           \<and> findSwap w2 k = Some (x\<lparr>status := ACCEPTED, updatedAt := req_now ra\<rparr>)
           \<and> findSwap w3 k = Some (x\<lparr>status := REJECTED, updatedAt := req_now rb\<rparr>)
           \<and> \<not> follows w2 w3
           \<and> (\<forall>e. R = Inl e \<longrightarrow> statusCode e = 500)"
    by (rule overlapping_accept_reject [OF h])
qed

theorem overlapping_requests_leave_edges_counterexample:
  "map_option status
     (findSwap (snd (snd (interleave [True, False, True]
        (AcceptIt, as_bob, js ''s1'') (RejectIt, as_bob, js ''s1'')
        (Started, Started, ex_world PENDING)))) (js ''s1'')) = Some ACCEPTED
   \<and> map_option status
     (findSwap (snd (snd (interleave [True, False, True, False]
        (AcceptIt, as_bob, js ''s1'') (RejectIt, as_bob, js ''s1'')
        (Started, Started, ex_world PENDING)))) (js ''s1'')) = Some REJECTED
   \<and> \<not> edge ACCEPTED REJECTED
   \<and> \<not> follows
       (snd (snd (interleave [True, False, True]
          (AcceptIt, as_bob, js ''s1'') (RejectIt, as_bob, js ''s1'')
          (Started, Started, ex_world PENDING))))
       (snd (snd (interleave [True, False, True, False]
          (AcceptIt, as_bob, js ''s1'') (RejectIt, as_bob, js ''s1'')
          (Started, Started, ex_world PENDING))))
   \<and> fst (snd (interleave [True, False, True, False]
        (AcceptIt, as_bob, js ''s1'') (RejectIt, as_bob, js ''s1'')
        (Started, Started, ex_world PENDING)))
       = Finished (Inr ((ex_swap PENDING)\<lparr>status := REJECTED, updatedAt := 7\<rparr>))
   \<and> accept as_alice (js ''s1'') (ex_world REJECTED) =
       (Inl (ApiError 403 ''You can only accept requests sent to you''), ex_world REJECTED)"
  by (simp add: ex_defs accept_def accept_guard_def reject_guard_def findSwapIncl_def
      findSwap_def findUser_def respond_def accept_commit_def reject_commit_def updateSwap_def
      andThen_def notifySwapRequestAccepted_def notifySwapRequestRejected_def
      createNotification_def emit_def Let_def follows_def edge_def)

theorem status_follows_edges_witness:
  "successively follows
     (run_serial (ex_world PENDING)
        [(as_bob, Accept (js ''s1'')), (as_alice, Complete (js ''s1'')),
         (as_alice, Cancel (js ''s1''))])
   \<and> (\<exists>x. fst (submit as_alice ex_body (ex_world REJECTED)) = Inr x \<and> status x = PENDING
        \<and> swapRequests (snd (submit as_alice ex_body (ex_world REJECTED))) = [ex_swap REJECTED, x])
   \<and> findSwap (ex_world REJECTED) (js ''s1'') = Some (ex_swap REJECTED)
   \<and> status (ex_swap REJECTED) \<noteq> PENDING \<and> status (ex_swap REJECTED) \<noteq> ACCEPTED
   \<and> accept as_bob (js ''s1'') (ex_world REJECTED) =
       (Inl (ApiError 400 ''Cannot accept request with status: REJECTED''), ex_world REJECTED)
   \<and> reject as_bob (js ''s1'') (ex_world REJECTED) =
       (Inl (ApiError 400 ''Cannot reject request with status: REJECTED''), ex_world REJECTED)
   \<and> cancel as_alice (js ''s1'') (ex_world REJECTED) =
       (Inl (ApiError 400 ''Cannot cancel request with status: REJECTED''), ex_world REJECTED)
   \<and> complete as_alice (js ''s1'') (ex_world REJECTED) =
       (Inl (ApiError 400 ''Can only complete accepted swap requests''), ex_world REJECTED)
   \<and> accept as_alice (js ''s1'') (ex_world REJECTED) =
       (Inl (ApiError 403 ''You can only accept requests sent to you''), ex_world REJECTED)
   \<and> cancel as_bob (js ''s1'') (ex_world REJECTED) =
       (Inl (ApiError 403 ''You can only cancel requests you sent''), ex_world REJECTED)
   \<and> findSwap (ex_world PENDING) (js ''s1'') = Some (ex_swap PENDING)
   \<and> status (ex_swap PENDING) = PENDING
   \<and> receiverId (ex_swap PENDING) = req_user_id as_bob
   \<and> map_option status
         (findSwap (snd (snd (interleave [True, False, True]
            (AcceptIt, as_bob, js ''s1'') (RejectIt, as_bob, js ''s1'')
            (Started, Started, ex_world PENDING)))) (js ''s1'')) = Some ACCEPTED
   \<and> map_option status
         (findSwap (snd (snd (interleave [True, False, True, False]
            (AcceptIt, as_bob, js ''s1'') (RejectIt, as_bob, js ''s1'')
            (Started, Started, ex_world PENDING)))) (js ''s1'')) = Some REJECTED"
proof -
  let ?k = "js ''s1''" and ?w = "ex_world REJECTED"
  let ?cs = "[(as_bob, Accept (js ''s1'')), (as_alice, Complete (js ''s1'')),
         (as_alice, Cancel (js ''s1''))]"
  have f: "findSwap ?w ?k = Some (ex_swap REJECTED)"
    by (simp add: findSwap_def ex_defs)
  have st: "status (ex_swap REJECTED) \<noteq> PENDING" "status (ex_swap REJECTED) \<noteq> ACCEPTED"
    by (simp_all add: ex_defs)
  have v: "status (ex_swap REJECTED) = REJECTED" "receiverId (ex_swap REJECTED) = js ''bob''"
    "senderId (ex_swap REJECTED) = js ''alice''"
    "req_user_id as_bob = js ''bob''" "req_user_id as_alice = js ''alice''"
    "swapRequests ?w = [ex_swap REJECTED]"
    by (simp_all add: ex_defs)
  note tb = status_follows_edges [of "ex_world PENDING" ?cs as_bob ex_body ?k as_bob as_bob]
  note b = status_follows_edges [of ?w "[]" as_bob ex_body ?k as_bob as_bob]
  note a = status_follows_edges [of ?w "[]" as_alice ex_body ?k as_bob as_bob]
  have c1: "successively follows (run_serial (ex_world PENDING) ?cs)"
    by (rule tb [THEN conjunct1])
  obtain x where x: "fst (submit as_alice ex_body ?w) = Inr x"
    by (simp add: ex_defs submit_eval)
  have c2: "\<exists>x. fst (submit as_alice ex_body ?w) = Inr x \<and> status x = PENDING
        \<and> swapRequests (snd (submit as_alice ex_body ?w)) = [ex_swap REJECTED, x]"
    using a [THEN conjunct2, THEN conjunct1, rule_format, OF x] x v(6)
    by (intro exI [of _ x]) simp
  note pb = b [THEN conjunct2, THEN conjunct2, THEN conjunct1, rule_format, OF conjI [OF f st(1)]]
  note pa = a [THEN conjunct2, THEN conjunct2, THEN conjunct1, rule_format, OF conjI [OF f st(1)]]
  note qa = a [THEN conjunct2, THEN conjunct2, THEN conjunct2, THEN conjunct1, rule_format,
      OF conjI [OF f st(2)]]
  have c3: "accept as_bob ?k ?w =
       (Inl (ApiError 400 ''Cannot accept request with status: REJECTED''), ?w)"
    using pb [THEN conjunct1] by (simp add: v)
  have c4: "reject as_bob ?k ?w =
       (Inl (ApiError 400 ''Cannot reject request with status: REJECTED''), ?w)"
    using pb [THEN conjunct2, THEN conjunct1] by (simp add: v)
  have c5: "cancel as_alice ?k ?w =
       (Inl (ApiError 400 ''Cannot cancel request with status: REJECTED''), ?w)"
    using pa [THEN conjunct2, THEN conjunct2] by (simp add: v)
  have c6: "complete as_alice ?k ?w =
       (Inl (ApiError 400 ''Can only complete accepted swap requests''), ?w)"
    using qa by (simp add: v)
  have c7: "accept as_alice ?k ?w =
       (Inl (ApiError 403 ''You can only accept requests sent to you''), ?w)"
    using pa [THEN conjunct1] by (simp add: v)
  have c8: "cancel as_bob ?k ?w =
       (Inl (ApiError 403 ''You can only cancel requests you sent''), ?w)"
    using pb [THEN conjunct2, THEN conjunct2] by (simp add: v)
  from tb [THEN conjunct2, THEN conjunct2, THEN conjunct2, THEN conjunct2, rule_format,
      of "ex_swap PENDING",
      OF conjI [OF ex_pending_facts(1) conjI [OF ex_pending_facts(2)
        conjI [OF ex_pending_facts(3) ex_pending_facts(3)]]]]
  obtain A R h w2 w3 where
    i3: "interleave [True, False, True] (AcceptIt, as_bob, ?k) (RejectIt, as_bob, ?k)
          (Started, Started, ex_world PENDING) = (Finished A, h, w2)"
    and i4: "interleave [True, False, True, False] (AcceptIt, as_bob, ?k) (RejectIt, as_bob, ?k)
          (Started, Started, ex_world PENDING) = (Finished A, Finished R, w3)"
    and f2: "findSwap w2 ?k = Some ((ex_swap PENDING)\<lparr>status := ACCEPTED, updatedAt := req_now as_bob\<rparr>)"
    and f3: "findSwap w3 ?k = Some ((ex_swap PENDING)\<lparr>status := REJECTED, updatedAt := req_now as_bob\<rparr>)"
    by (elim exE conjE)
  have c9: "map_option status
         (findSwap (snd (snd (interleave [True, False, True]
            (AcceptIt, as_bob, ?k) (RejectIt, as_bob, ?k)
            (Started, Started, ex_world PENDING)))) ?k) = Some ACCEPTED"
    unfolding i3 by (simp add: f2)
  have c10: "map_option status
         (findSwap (snd (snd (interleave [True, False, True, False]
            (AcceptIt, as_bob, ?k) (RejectIt, as_bob, ?k)
            (Started, Started, ex_world PENDING)))) ?k) = Some REJECTED"
    unfolding i4 by (simp add: f3)
  show ?thesis
    by (intro conjI) (rule c1, rule c2, rule f, rule st(1), rule st(2), rule c3, rule c4, rule c5,
      rule c6, rule c7, rule c8, rule ex_pending_facts(1), rule ex_pending_facts(2),
      rule ex_pending_facts(3), rule c9, rule c10)
qed




text \<open>
  C3. submit fails with 400 (InvalidArgument) and changes nothing when the sender is the
  receiver, when the receiver's row is inactive or private, and when the receiver exists
  and a pending request between the two parties has the (trimmed) skill pair of the body
  in either direction; in particular the mirrored request right after a successful one
  fails with 400. A successful submit has appended exactly the row it returns, pending,
  from the caller to the receiver with the trimmed skills, and a request that carries the
  socket server has added one unread SWAP_REQUEST_RECEIVED row for the receiver and
  emitted it, with the recomputed unread count, to the receiver's room.
\<close>

theorem submit_guards_and_effect:
  "(req_user_id r = b_receiverId body \<longrightarrow>
      (\<exists>m. submit r body s = (Inl (ApiError 400 m), s)))
   \<and> (\<forall>u. findUser s (b_receiverId body) = Some u \<and> (\<not> isActive u \<or> \<not> isPublic u) \<longrightarrow>
      (\<exists>m. submit r body s = (Inl (ApiError 400 m), s)))
   \<and> (\<forall>u x. findUser s (b_receiverId body) = Some u \<and> x \<in> set (swapRequests s)
          \<and> pending_between (req_user_id r) body x \<longrightarrow>
      (\<exists>m. submit r body s = (Inl (ApiError 400 m), s)))
   \<and> (\<forall>x ua r2 b2. fst (submit r body s) = Inr x \<and> findUser s (req_user_id r) = Some ua
          \<and> req_user_id r2 = b_receiverId body \<and> b_receiverId b2 = req_user_id r
          \<and> b_skillOffered b2 = b_skillRequested body
          \<and> b_skillRequested b2 = b_skillOffered body \<longrightarrow>
      (\<exists>m. submit r2 b2 (snd (submit r body s)) = (Inl (ApiError 400 m), snd (submit r body s))))
   \<and> (\<forall>x. fst (submit r body s) = Inr x \<longrightarrow>
        swapRequests (snd (submit r body s)) = swapRequests s @ [x] \<and> status x = PENDING
        \<and> senderId x = req_user_id r \<and> receiverId x = b_receiverId body
        \<and> skillOffered x = trim (b_skillOffered body)
        \<and> skillRequested x = trim (b_skillRequested body)
        \<and> (\<forall>io. req_io r = Some io \<longrightarrow>
             (\<exists>n. notifications (snd (submit r body s)) = notifications s @ [n]
                \<and> n_userId n = b_receiverId body \<and> n_type n = SWAP_REQUEST_RECEIVED
                \<and> isRead n = False
                \<and> emitted (snd (submit r body s)) =
                    emitted s @
                      [(b_receiverId body,
                        NotificationEvent (n_id n) SWAP_REQUEST_RECEIVED (n_title n)
                          (n_message n) (n_data n) (n_createdAt n) False),
                       (b_receiverId body,
                        NotificationCount
                          (getUnreadCount (snd (submit r body s)) (b_receiverId body)))])))"
proof (intro conjI allI impI)
  assume "req_user_id r = b_receiverId body"
  then show "\<exists>m. submit r body s = (Inl (ApiError 400 m), s)" by (rule submit_self)
next
  fix u assume "findUser s (b_receiverId body) = Some u \<and> (\<not> isActive u \<or> \<not> isPublic u)"
  then show "\<exists>m. submit r body s = (Inl (ApiError 400 m), s)"
    using submit_closed_profile by blast
next
  fix u x
  assume "findUser s (b_receiverId body) = Some u \<and> x \<in> set (swapRequests s)
          \<and> pending_between (req_user_id r) body x"
  then show "\<exists>m. submit r body s = (Inl (ApiError 400 m), s)"
    using submit_duplicate [of s body u x r] by (simp add: pending_between_similar)
next
  fix x ua and r2 :: request and b2 :: swap_body
  assume "fst (submit r body s) = Inr x \<and> findUser s (req_user_id r) = Some ua
          \<and> req_user_id r2 = b_receiverId body \<and> b_receiverId b2 = req_user_id r
          \<and> b_skillOffered b2 = b_skillRequested body
          \<and> b_skillRequested b2 = b_skillOffered body"
  then show "\<exists>m. submit r2 b2 (snd (submit r body s)) =
      (Inl (ApiError 400 m), snd (submit r body s))"
    using submit_mirrored [of r body s x ua r2 b2] by blast
next
  fix x assume a: "fst (submit r body s) = Inr x"
  note e = submit_effect [OF a]
  show "swapRequests (snd (submit r body s)) = swapRequests s @ [x]" using e by simp
  show "status x = PENDING" using e by simp
  show "senderId x = req_user_id r" using e by simp
  show "receiverId x = b_receiverId body" using e by simp
  show "skillOffered x = trim (b_skillOffered body)" using e by simp
  show "skillRequested x = trim (b_skillRequested body)" using e by simp
next
  fix x io assume a: "fst (submit r body s) = Inr x" and io: "req_io r = Some io"
  note i = submit_Inr [OF a]
  from i have c: "fst (submit_commit r (sanitize body) s) = Inr x"
    and sn: "snd (submit r body s) = snd (submit_commit r (sanitize body) s)" by simp_all
  from submit_commit_notified [OF c io]
  show "\<exists>n. notifications (snd (submit r body s)) = notifications s @ [n]
                \<and> n_userId n = b_receiverId body \<and> n_type n = SWAP_REQUEST_RECEIVED
                \<and> isRead n = False
                \<and> emitted (snd (submit r body s)) =
                    emitted s @
                      [(b_receiverId body,
                        NotificationEvent (n_id n) SWAP_REQUEST_RECEIVED (n_title n)
                          (n_message n) (n_data n) (n_createdAt n) False),
                       (b_receiverId body,
                        NotificationCount
                          (getUnreadCount (snd (submit r body s)) (b_receiverId body)))]"
    by (simp add: sn sanitize_simps)
qed

theorem submit_guards_and_effect_witness:
  "req_user_id as_alice = b_receiverId ex_self_body
   \<and> (\<exists>m. submit as_alice ex_self_body (ex_world PENDING) =
          (Inl (ApiError 400 m), ex_world PENDING))
   \<and> findUser (ex_world PENDING) (b_receiverId ex_dan_body) = Some ex_dan
   \<and> \<not> isActive ex_dan
   \<and> (\<exists>m. submit as_alice ex_dan_body (ex_world PENDING) =
          (Inl (ApiError 400 m), ex_world PENDING))
   \<and> findUser (ex_world PENDING) (b_receiverId ex_dup_body) = Some ex_bob
   \<and> ex_swap PENDING \<in> set (swapRequests (ex_world PENDING))
   \<and> pending_between (req_user_id as_alice) ex_dup_body (ex_swap PENDING)
   \<and> (\<exists>m. submit as_alice ex_dup_body (ex_world PENDING) =
          (Inl (ApiError 400 m), ex_world PENDING))
   \<and> (\<exists>x. fst (submit as_alice ex_body (ex_world PENDING)) = Inr x \<and> status x = PENDING
        \<and> swapRequests (snd (submit as_alice ex_body (ex_world PENDING))) = [ex_swap PENDING, x])
   \<and> (\<exists>m. submit as_bob ex_mirror_body (snd (submit as_alice ex_body (ex_world PENDING))) =
          (Inl (ApiError 400 m), snd (submit as_alice ex_body (ex_world PENDING))))
   \<and> (\<exists>n. notifications (snd (submit as_alice ex_body (ex_world PENDING))) = [n]
        \<and> n_userId n = js ''bob'' \<and> n_type n = SWAP_REQUEST_RECEIVED \<and> isRead n = False)"
proof -
  let ?w = "ex_world PENDING"
  note t1 = submit_guards_and_effect [of as_alice ex_self_body ?w]
  note t2 = submit_guards_and_effect [of as_alice ex_dan_body ?w]
  note t3 = submit_guards_and_effect [of as_alice ex_dup_body ?w]
  note t4 = submit_guards_and_effect [of as_alice ex_body ?w]
  have h1: "req_user_id as_alice = b_receiverId ex_self_body"
    by (simp add: ex_defs ex_body_defs)
  have c1: "\<exists>m. submit as_alice ex_self_body ?w = (Inl (ApiError 400 m), ?w)"
    using t1 [THEN conjunct1] h1 by blast
  have h2: "findUser ?w (b_receiverId ex_dan_body) = Some ex_dan" "\<not> isActive ex_dan"
    by (simp_all add: ex_defs ex_body_defs findUser_def)
  have c2: "\<exists>m. submit as_alice ex_dan_body ?w = (Inl (ApiError 400 m), ?w)"
    using t2 [THEN conjunct2, THEN conjunct1, rule_format, of ex_dan] h2 by blast
  have h3: "findUser ?w (b_receiverId ex_dup_body) = Some ex_bob"
    "ex_swap PENDING \<in> set (swapRequests ?w)"
    "pending_between (req_user_id as_alice) ex_dup_body (ex_swap PENDING)"
    by (simp_all add: ex_defs ex_body_defs findUser_def pending_between_def str_eval)
  have c3: "\<exists>m. submit as_alice ex_dup_body ?w = (Inl (ApiError 400 m), ?w)"
    using t3 [THEN conjunct2, THEN conjunct2, THEN conjunct1, rule_format, of ex_bob "ex_swap PENDING"]
      h3 by blast
  obtain x where x: "fst (submit as_alice ex_body ?w) = Inr x"
    by (simp add: ex_defs submit_eval)
  have h4: "findUser ?w (req_user_id as_alice) = Some ex_alice"
    "req_user_id as_bob = b_receiverId ex_body" "b_receiverId ex_mirror_body = req_user_id as_alice"
    "b_skillOffered ex_mirror_body = b_skillRequested ex_body"
    "b_skillRequested ex_mirror_body = b_skillOffered ex_body"
    "req_io as_alice = Some ex_io" "b_receiverId ex_body = js ''bob''"
    "swapRequests ?w = [ex_swap PENDING]" "notifications ?w = []"
    by (simp_all add: ex_defs ex_body_defs findUser_def)
  have c4: "\<exists>m. submit as_bob ex_mirror_body (snd (submit as_alice ex_body ?w)) =
          (Inl (ApiError 400 m), snd (submit as_alice ex_body ?w))"
    using t4 [THEN conjunct2, THEN conjunct2, THEN conjunct2, THEN conjunct1, rule_format,
        of x ex_alice as_bob ex_mirror_body] x h4(1-5) by blast
  note eff = t4 [THEN conjunct2, THEN conjunct2, THEN conjunct2, THEN conjunct2, rule_format, OF x]
  have c5: "\<exists>x. fst (submit as_alice ex_body ?w) = Inr x \<and> status x = PENDING
        \<and> swapRequests (snd (submit as_alice ex_body ?w)) = [ex_swap PENDING, x]"
    using x eff h4(8) by (intro exI [of _ x]) simp
  have c6: "\<exists>n. notifications (snd (submit as_alice ex_body ?w)) = [n]
        \<and> n_userId n = js ''bob'' \<and> n_type n = SWAP_REQUEST_RECEIVED \<and> isRead n = False"
    using eff [THEN conjunct2, THEN conjunct2, THEN conjunct2, THEN conjunct2, THEN conjunct2,
        THEN conjunct2, rule_format, OF h4(6)] h4(7,9) by auto
  show ?thesis
    by (intro conjI) (rule h1, rule c1, rule h2(1), rule h2(2), rule c2, rule h3(1), rule h3(2),
      rule h3(3), rule c3, rule c5, rule c4, rule c6)
qed

text \<open>
  C4. When complete returns a response to a request that carries the socket server,
  the row was accepted and the caller is its sender or its receiver; the row is now
  COMPLETED with the completion time stamped; exactly two notification rows were added,
  both unread and of type SWAP_COMPLETED, the first for the sender and the second for the
  receiver; and (sender and receiver being two users) the unread count of each has grown
  by exactly one. With a reliable socket server and both user rows present, complete of an
  accepted row by its sender or receiver does return a response. A caller who is neither
  gets 403 and nothing changes.
\<close>

theorem complete_notifies_both_parties:
  "(\<forall>x y io. findSwap s k = Some x \<and> senderId x \<noteq> receiverId x
        \<and> fst (complete r k s) = Inr y \<and> req_io r = Some io \<longrightarrow>
      status x = ACCEPTED \<and> (senderId x = req_user_id r \<or> receiverId x = req_user_id r)
      \<and> y = x\<lparr>status := COMPLETED, completedAt := Some (req_now r), updatedAt := req_now r\<rparr>
      \<and> findSwap (snd (complete r k s)) k = Some y
      \<and> (\<exists>n1 n2. notifications (snd (complete r k s)) = notifications s @ [n1, n2]
            \<and> n_userId n1 = senderId x \<and> n_type n1 = SWAP_COMPLETED \<and> isRead n1 = False
            \<and> n_userId n2 = receiverId x \<and> n_type n2 = SWAP_COMPLETED \<and> isRead n2 = False)
      \<and> getUnreadCount (snd (complete r k s)) (senderId x) = getUnreadCount s (senderId x) + 1
      \<and> getUnreadCount (snd (complete r k s)) (receiverId x)
          = getUnreadCount s (receiverId x) + 1)
   \<and> (\<forall>x io sn rc. findSwap s k = Some x \<and> status x = ACCEPTED
        \<and> (senderId x = req_user_id r \<or> receiverId x = req_user_id r)
        \<and> req_io r = Some io \<and> (\<forall>room ev. io room ev)
        \<and> findUser s (senderId x) = Some sn \<and> findUser s (receiverId x) = Some rc \<longrightarrow>
      fst (complete r k s) =
        Inr (x\<lparr>status := COMPLETED, completedAt := Some (req_now r), updatedAt := req_now r\<rparr>))
   \<and> (\<forall>x. findSwap s k = Some x \<and> senderId x \<noteq> req_user_id r \<and> receiverId x \<noteq> req_user_id r
        \<longrightarrow> complete r k s =
              (Inl (ApiError 403 ''You can only complete swaps you are part of''), s))"
proof (intro conjI allI impI)
  fix x y io
  assume a: "findSwap s k = Some x \<and> senderId x \<noteq> receiverId x
        \<and> fst (complete r k s) = Inr y \<and> req_io r = Some io"
  then have ok: "complete r k s = (Inr y, snd (complete r k s))"
    by (metis prod.collapse)
  from a have io: "req_io r = Some io" by simp
  from complete_success [OF ok io] a
  obtain n1 n2 where c: "status x = ACCEPTED"
      "senderId x = req_user_id r \<or> receiverId x = req_user_id r"
      "y = x\<lparr>status := COMPLETED, completedAt := Some (req_now r), updatedAt := req_now r\<rparr>"
      "findSwap (snd (complete r k s)) k = Some y"
      "notifications (snd (complete r k s)) = notifications s @ [n1, n2]"
      "n_userId n1 = senderId x" "n_type n1 = SWAP_COMPLETED" "\<not> isRead n1"
      "n_userId n2 = receiverId x" "n_type n2 = SWAP_COMPLETED" "\<not> isRead n2"
    by auto
  show "status x = ACCEPTED" by (rule c)
  show "senderId x = req_user_id r \<or> receiverId x = req_user_id r" by (rule c)
  show "y = x\<lparr>status := COMPLETED, completedAt := Some (req_now r), updatedAt := req_now r\<rparr>"
    by (rule c)
  show "findSwap (snd (complete r k s)) k = Some y" by (rule c)
  show "\<exists>n1 n2. notifications (snd (complete r k s)) = notifications s @ [n1, n2]
            \<and> n_userId n1 = senderId x \<and> n_type n1 = SWAP_COMPLETED \<and> isRead n1 = False
            \<and> n_userId n2 = receiverId x \<and> n_type n2 = SWAP_COMPLETED \<and> isRead n2 = False"
    using c by auto
  from a have ne: "senderId x \<noteq> receiverId x" by simp
  show "getUnreadCount (snd (complete r k s)) (senderId x) = getUnreadCount s (senderId x) + 1"
    using c ne by (simp add: getUnreadCount_def)
  show "getUnreadCount (snd (complete r k s)) (receiverId x) = getUnreadCount s (receiverId x) + 1"
    using c ne by (simp add: getUnreadCount_def)
next
  fix x io sn rc
  assume a: "findSwap s k = Some x \<and> status x = ACCEPTED
        \<and> (senderId x = req_user_id r \<or> receiverId x = req_user_id r)
        \<and> req_io r = Some io \<and> (\<forall>room ev. io room ev)
        \<and> findUser s (senderId x) = Some sn \<and> findUser s (receiverId x) = Some rc"
  then have g: "complete_guard r k s = Inr (x, Some sn, Some rc)"
    using complete_guard_pass [of s k x r] by auto
  from a have "fst (complete_commit r k (x, Some sn, Some rc) s) =
      Inr (x\<lparr>status := COMPLETED, completedAt := Some (req_now r), updatedAt := req_now r\<rparr>)"
    by (intro complete_commit_reliable [where io = io]) auto
  then show "fst (complete r k s) =
      Inr (x\<lparr>status := COMPLETED, completedAt := Some (req_now r), updatedAt := req_now r\<rparr>)"
    by (simp add: complete_def g fst_respond)
next
  fix x
  assume "findSwap s k = Some x \<and> senderId x \<noteq> req_user_id r \<and> receiverId x \<noteq> req_user_id r"
  then show "complete r k s = (Inl (ApiError 403 ''You can only complete swaps you are part of''), s)"
    by (simp add: complete_def complete_guard_def findSwapIncl_def)
qed

theorem complete_notifies_both_parties_witness:
  "findSwap (ex_world ACCEPTED) (js ''s1'') = Some (ex_swap ACCEPTED)
   \<and> senderId (ex_swap ACCEPTED) \<noteq> receiverId (ex_swap ACCEPTED)
   \<and> req_io as_alice = Some ex_io
   \<and> fst (complete as_alice (js ''s1'') (ex_world ACCEPTED)) =
       Inr ((ex_swap ACCEPTED)\<lparr>status := COMPLETED, completedAt := Some 5, updatedAt := 5\<rparr>)
   \<and> map_option status (findSwap (snd (complete as_alice (js ''s1'') (ex_world ACCEPTED))) (js ''s1''))
       = Some COMPLETED
   \<and> length (notifications (snd (complete as_alice (js ''s1'') (ex_world ACCEPTED)))) = 2
   \<and> getUnreadCount (snd (complete as_alice (js ''s1'') (ex_world ACCEPTED))) (js ''alice'') = 1
   \<and> getUnreadCount (snd (complete as_alice (js ''s1'') (ex_world ACCEPTED))) (js ''bob'') = 1
   \<and> complete as_carol (js ''s1'') (ex_world ACCEPTED) =
       (Inl (ApiError 403 ''You can only complete swaps you are part of''), ex_world ACCEPTED)"
proof -
  let ?w = "ex_world ACCEPTED" and ?x = "ex_swap ACCEPTED"
  let ?y = "?x\<lparr>status := COMPLETED, completedAt := Some 5, updatedAt := 5\<rparr>"
  note t = complete_notifies_both_parties [of ?w "js ''s1''" as_alice]
  note tc = complete_notifies_both_parties [of ?w "js ''s1''" as_carol]
  have f: "findSwap ?w (js ''s1'') = Some ?x"
    by (simp add: findSwap_def ex_defs)
  have x: "senderId ?x = js ''alice''" "receiverId ?x = js ''bob''" "status ?x = ACCEPTED"
    by (simp_all add: ex_defs)
  have r: "req_io as_alice = Some ex_io" "req_user_id as_alice = js ''alice''" "req_now as_alice = 5"
    "req_user_id as_carol = js ''carol''"
    by (simp_all add: ex_defs as_carol_def)
  have io: "\<forall>room ev. ex_io room ev" by (simp add: ex_io_def)
  have u: "findUser ?w (js ''alice'') = Some ex_alice" "findUser ?w (js ''bob'') = Some ex_bob"
    by (simp_all add: findUser_def ex_defs)
  have n: "notifications ?w = []" by (simp add: ex_defs)
  have e: "fst (complete as_alice (js ''s1'') ?w) = Inr ?y"
    using t [THEN conjunct2, THEN conjunct1, rule_format, of ?x ex_io ex_alice ex_bob]
      f x r io u by simp
  have ne: "senderId ?x \<noteq> receiverId ?x" by (simp add: x)
  note big = t [THEN conjunct1, rule_format, of ?x ?y ex_io, OF conjI [OF f conjI [OF ne conjI [OF e r(1)]]]]
  have fs: "findSwap (snd (complete as_alice (js ''s1'') ?w)) (js ''s1'') = Some ?y"
    using big by blast
  have ex: "\<exists>n1 n2. notifications (snd (complete as_alice (js ''s1'') ?w)) = notifications ?w @ [n1, n2]"
    using big by blast
  have l: "length (notifications (snd (complete as_alice (js ''s1'') ?w))) = 2"
    using ex n by auto
  have c0: "getUnreadCount ?w (js ''alice'') = 0" "getUnreadCount ?w (js ''bob'') = 0"
    by (simp_all add: getUnreadCount_def n)
  have ca: "getUnreadCount (snd (complete as_alice (js ''s1'') ?w)) (senderId ?x)
         = getUnreadCount ?w (senderId ?x) + 1"
    using big by blast
  have cb: "getUnreadCount (snd (complete as_alice (js ''s1'') ?w)) (receiverId ?x)
         = getUnreadCount ?w (receiverId ?x) + 1"
    using big by blast
  have c: "complete as_carol (js ''s1'') ?w =
       (Inl (ApiError 403 ''You can only complete swaps you are part of''), ?w)"
    using tc [THEN conjunct2, THEN conjunct2, rule_format, of ?x] f x r by simp
  have st: "status ?y = COMPLETED" by simp
  show ?thesis
    using f ne r(1) e fs l c c0 ca cb x(1,2) by simp
qed

text \<open>
  C5 (as the code has it). A throw of the socket emit is not contained:
  createNotification logs it and throws it again, and the handler's catch answers 500.
  For accept, reject, complete and submit whose guards pass, on a request that carries
  the socket server and with the user rows the message names present: the new status
  (for submit the new pending row) is in the table and the notification row is in the
  table whatever the emits do; the log holds the emits made before the first that threw
  (the notification, then the unread count read from the table); and the answer is the
  response when every emit returned and 500 "Failed to ..." as soon as one emit threw,
  be it the notification or the count. complete notifies the sender first: when one of
  those two emits throws the receiver's row is never written; when both return the
  receiver's row is written and the answer depends on the receiver's two emits.
\<close>

theorem push_failure_reported_as_500:
  "req_io r = Some io \<longrightarrow>
   (\<forall>x sn rc. accept_guard r k s = Inr (x, sn, Some rc) \<longrightarrow>
      (\<exists>n. notifications (snd (accept r k s)) = notifications s @ [n]
         \<and> n_userId n = senderId x \<and> n_type n = SWAP_REQUEST_ACCEPTED \<and> isRead n = False
         \<and> findSwap (snd (accept r k s)) k = Some (x\<lparr>status := ACCEPTED, updatedAt := req_now r\<rparr>)
         \<and> emitted (snd (accept r k s)) =
             emitted s @ delivered io (senderId x)
               (pushes n (getUnreadCount (snd (accept r k s)) (senderId x)))
         \<and> fst (accept r k s) =
             (if list_all (io (senderId x))
                   (pushes n (getUnreadCount (snd (accept r k s)) (senderId x)))
              then Inr (x\<lparr>status := ACCEPTED, updatedAt := req_now r\<rparr>)
              else Inl (ApiError 500 ''Failed to accept swap request''))))
   \<and> (\<forall>x sn rc. reject_guard r k s = Inr (x, sn, Some rc) \<longrightarrow>
      (\<exists>n. notifications (snd (reject r k s)) = notifications s @ [n]
         \<and> n_userId n = senderId x \<and> n_type n = SWAP_REQUEST_REJECTED \<and> isRead n = False
         \<and> findSwap (snd (reject r k s)) k = Some (x\<lparr>status := REJECTED, updatedAt := req_now r\<rparr>)
         \<and> emitted (snd (reject r k s)) =
             emitted s @ delivered io (senderId x)
               (pushes n (getUnreadCount (snd (reject r k s)) (senderId x)))
         \<and> fst (reject r k s) =
             (if list_all (io (senderId x))
                   (pushes n (getUnreadCount (snd (reject r k s)) (senderId x)))
              then Inr (x\<lparr>status := REJECTED, updatedAt := req_now r\<rparr>)
              else Inl (ApiError 500 ''Failed to reject swap request''))))
   \<and> (\<forall>x sn rc. complete_guard r k s = Inr (x, Some sn, Some rc) \<longrightarrow>
      findSwap (snd (complete r k s)) k =
        Some (x\<lparr>status := COMPLETED, completedAt := Some (req_now r), updatedAt := req_now r\<rparr>)
      \<and> (\<exists>n1. n_userId n1 = senderId x \<and> n_type n1 = SWAP_COMPLETED \<and> isRead n1 = False
           \<and> (if list_all (io (senderId x)) (pushes n1 (Suc (getUnreadCount s (senderId x))))
               then \<exists>n2. n_userId n2 = receiverId x \<and> n_type n2 = SWAP_COMPLETED
                      \<and> isRead n2 = False
                      \<and> notifications (snd (complete r k s)) = notifications s @ [n1, n2]
                      \<and> emitted (snd (complete r k s)) =
                          emitted s
                          @ delivered io (senderId x)
                              (pushes n1 (Suc (getUnreadCount s (senderId x))))
                          @ delivered io (receiverId x)
                              (pushes n2 (getUnreadCount (snd (complete r k s)) (receiverId x)))
                      \<and> fst (complete r k s) =
                          (if list_all (io (receiverId x))
                                (pushes n2 (getUnreadCount (snd (complete r k s)) (receiverId x)))
                           then Inr (x\<lparr>status := COMPLETED, completedAt := Some (req_now r),
                                        updatedAt := req_now r\<rparr>)
                           else Inl (ApiError 500 ''Failed to complete swap request''))
               else notifications (snd (complete r k s)) = notifications s @ [n1]
                    \<and> emitted (snd (complete r k s)) =
                        emitted s @ delivered io (senderId x)
                          (pushes n1 (Suc (getUnreadCount s (senderId x))))
                    \<and> fst (complete r k s) =
                        Inl (ApiError 500 ''Failed to complete swap request''))))
   \<and> (\<forall>ua. createSwapValidation body \<and> submit_guard r (sanitize body) s = Inr ()
          \<and> findUser s (req_user_id r) = Some ua \<longrightarrow>
      (\<exists>x n. swapRequests (snd (submit r body s)) = swapRequests s @ [x]
         \<and> status x = PENDING \<and> senderId x = req_user_id r \<and> receiverId x = b_receiverId body
         \<and> notifications (snd (submit r body s)) = notifications s @ [n]
         \<and> n_userId n = b_receiverId body \<and> n_type n = SWAP_REQUEST_RECEIVED
         \<and> isRead n = False
         \<and> emitted (snd (submit r body s)) =
             emitted s @ delivered io (b_receiverId body)
               (pushes n (getUnreadCount (snd (submit r body s)) (b_receiverId body)))
         \<and> fst (submit r body s) =
             (if list_all (io (b_receiverId body))
                   (pushes n (getUnreadCount (snd (submit r body s)) (b_receiverId body)))
              then Inr x else Inl (ApiError 500 ''Failed to create swap request''))))"
proof (intro impI conjI allI)
  fix x sn rc
  assume "req_io r = Some io" "accept_guard r k s = Inr (x, sn, Some rc)"
  then show "\<exists>n. notifications (snd (accept r k s)) = notifications s @ [n]
         \<and> n_userId n = senderId x \<and> n_type n = SWAP_REQUEST_ACCEPTED \<and> isRead n = False
         \<and> findSwap (snd (accept r k s)) k = Some (x\<lparr>status := ACCEPTED, updatedAt := req_now r\<rparr>)
         \<and> emitted (snd (accept r k s)) =
             emitted s @ delivered io (senderId x)
               (pushes n (getUnreadCount (snd (accept r k s)) (senderId x)))
         \<and> fst (accept r k s) =
             (if list_all (io (senderId x))
                   (pushes n (getUnreadCount (snd (accept r k s)) (senderId x)))
              then Inr (x\<lparr>status := ACCEPTED, updatedAt := req_now r\<rparr>)
              else Inl (ApiError 500 ''Failed to accept swap request''))"
    by (rule accept_outcome [rotated])
next
  fix x sn rc
  assume "req_io r = Some io" "reject_guard r k s = Inr (x, sn, Some rc)"
  then show "\<exists>n. notifications (snd (reject r k s)) = notifications s @ [n]
         \<and> n_userId n = senderId x \<and> n_type n = SWAP_REQUEST_REJECTED \<and> isRead n = False
         \<and> findSwap (snd (reject r k s)) k = Some (x\<lparr>status := REJECTED, updatedAt := req_now r\<rparr>)
         \<and> emitted (snd (reject r k s)) =
             emitted s @ delivered io (senderId x)
               (pushes n (getUnreadCount (snd (reject r k s)) (senderId x)))
         \<and> fst (reject r k s) =
             (if list_all (io (senderId x))
                   (pushes n (getUnreadCount (snd (reject r k s)) (senderId x)))
              then Inr (x\<lparr>status := REJECTED, updatedAt := req_now r\<rparr>)
              else Inl (ApiError 500 ''Failed to reject swap request''))"
    by (rule reject_outcome [rotated])
next
  fix x sn rc
  assume a: "req_io r = Some io" "complete_guard r k s = Inr (x, Some sn, Some rc)"
  note c = complete_outcome [OF a(2) a(1)]
  show "findSwap (snd (complete r k s)) k =
        Some (x\<lparr>status := COMPLETED, completedAt := Some (req_now r), updatedAt := req_now r\<rparr>)"
    using c by (rule conjunct1)
  show "\<exists>n1. n_userId n1 = senderId x \<and> n_type n1 = SWAP_COMPLETED \<and> isRead n1 = False
           \<and> (if list_all (io (senderId x)) (pushes n1 (Suc (getUnreadCount s (senderId x))))
               then \<exists>n2. n_userId n2 = receiverId x \<and> n_type n2 = SWAP_COMPLETED
                      \<and> isRead n2 = False
                      \<and> notifications (snd (complete r k s)) = notifications s @ [n1, n2]
                      \<and> emitted (snd (complete r k s)) =
                          emitted s
                          @ delivered io (senderId x)
                              (pushes n1 (Suc (getUnreadCount s (senderId x))))
                          @ delivered io (receiverId x)
                              (pushes n2 (getUnreadCount (snd (complete r k s)) (receiverId x)))
                      \<and> fst (complete r k s) =
                          (if list_all (io (receiverId x))
                                (pushes n2 (getUnreadCount (snd (complete r k s)) (receiverId x)))
                           then Inr (x\<lparr>status := COMPLETED, completedAt := Some (req_now r),
                                        updatedAt := req_now r\<rparr>)
                           else Inl (ApiError 500 ''Failed to complete swap request''))
               else notifications (snd (complete r k s)) = notifications s @ [n1]
                    \<and> emitted (snd (complete r k s)) =
                        emitted s @ delivered io (senderId x)
                          (pushes n1 (Suc (getUnreadCount s (senderId x))))
                    \<and> fst (complete r k s) =
                        Inl (ApiError 500 ''Failed to complete swap request''))"
    using c by (rule conjunct2)
next
  fix ua
  assume io: "req_io r = Some io"
    and a: "createSwapValidation body \<and> submit_guard r (sanitize body) s = Inr ()
          \<and> findUser s (req_user_id r) = Some ua"
  from a have v: "createSwapValidation body" and g: "submit_guard r (sanitize body) s = Inr ()"
    and ua: "findUser s (req_user_id r) = Some ua" by simp_all
  show "\<exists>x n. swapRequests (snd (submit r body s)) = swapRequests s @ [x]
         \<and> status x = PENDING \<and> senderId x = req_user_id r \<and> receiverId x = b_receiverId body
         \<and> notifications (snd (submit r body s)) = notifications s @ [n]
         \<and> n_userId n = b_receiverId body \<and> n_type n = SWAP_REQUEST_RECEIVED
         \<and> isRead n = False
         \<and> emitted (snd (submit r body s)) =
             emitted s @ delivered io (b_receiverId body)
               (pushes n (getUnreadCount (snd (submit r body s)) (b_receiverId body)))
         \<and> fst (submit r body s) =
             (if list_all (io (b_receiverId body))
                   (pushes n (getUnreadCount (snd (submit r body s)) (b_receiverId body)))
              then Inr x else Inl (ApiError 500 ''Failed to create swap request''))"
    by (rule submit_outcome [OF v g io ua])
qed

theorem push_failure_escalates_counterexample:
  "fst (accept as_bob_down (js ''s1'') (ex_world PENDING)) =
     Inl (ApiError 500 ''Failed to accept swap request'')
   \<and> map_option status (findSwap (snd (accept as_bob_down (js ''s1'') (ex_world PENDING))) (js ''s1''))
       = Some ACCEPTED
   \<and> map n_type (notifications (snd (accept as_bob_down (js ''s1'') (ex_world PENDING))))
       = [SWAP_REQUEST_ACCEPTED]
   \<and> fst (accept as_bob_count_down (js ''s1'') (ex_world PENDING)) =
     Inl (ApiError 500 ''Failed to accept swap request'')
   \<and> map_option status
         (findSwap (snd (accept as_bob_count_down (js ''s1'') (ex_world PENDING))) (js ''s1''))
       = Some ACCEPTED
   \<and> map n_type (notifications (snd (accept as_bob_count_down (js ''s1'') (ex_world PENDING))))
       = [SWAP_REQUEST_ACCEPTED]
   \<and> map fst (emitted (snd (accept as_bob_count_down (js ''s1'') (ex_world PENDING))))
       = [js ''alice'']"
  by (simp add: ex_defs down_defs accept_def accept_guard_def findSwapIncl_def findSwap_def
      findUser_def respond_def accept_commit_def updateSwap_def andThen_def
      notifySwapRequestAccepted_def createNotification_def emit_def Let_def)

theorem push_failure_reported_as_500_witness:
  "req_io as_bob_count_down = Some ex_count_down_io
   \<and> accept_guard as_bob_count_down (js ''s1'') (ex_world PENDING)
       = Inr (ex_swap PENDING, Some ex_alice, Some ex_bob)
   \<and> fst (accept as_bob_count_down (js ''s1'') (ex_world PENDING)) =
       Inl (ApiError 500 ''Failed to accept swap request'')
   \<and> map_option status
         (findSwap (snd (accept as_bob_count_down (js ''s1'') (ex_world PENDING))) (js ''s1''))
       = Some ACCEPTED
   \<and> length (notifications (snd (accept as_bob_count_down (js ''s1'') (ex_world PENDING)))) = 1
   \<and> length (emitted (snd (accept as_bob_count_down (js ''s1'') (ex_world PENDING)))) = 1
   \<and> req_io as_bob = Some ex_io
   \<and> accept_guard as_bob (js ''s1'') (ex_world PENDING)
       = Inr (ex_swap PENDING, Some ex_alice, Some ex_bob)
   \<and> fst (accept as_bob (js ''s1'') (ex_world PENDING)) =
       Inr ((ex_swap PENDING)\<lparr>status := ACCEPTED, updatedAt := 7\<rparr>)
   \<and> length (emitted (snd (accept as_bob (js ''s1'') (ex_world PENDING)))) = 2
   \<and> req_io as_bob_down = Some ex_down_io
   \<and> reject_guard as_bob_down (js ''s1'') (ex_world PENDING)
       = Inr (ex_swap PENDING, Some ex_alice, Some ex_bob)
   \<and> fst (reject as_bob_down (js ''s1'') (ex_world PENDING)) =
       Inl (ApiError 500 ''Failed to reject swap request'')
   \<and> map_option status
         (findSwap (snd (reject as_bob_down (js ''s1'') (ex_world PENDING))) (js ''s1''))
       = Some REJECTED
   \<and> length (notifications (snd (reject as_bob_down (js ''s1'') (ex_world PENDING)))) = 1
   \<and> emitted (snd (reject as_bob_down (js ''s1'') (ex_world PENDING))) = []
   \<and> req_io as_alice_bob_down = Some ex_bob_down_io
   \<and> complete_guard as_alice_bob_down (js ''s1'') (ex_world ACCEPTED)
       = Inr (ex_swap ACCEPTED, Some ex_alice, Some ex_bob)
   \<and> fst (complete as_alice_bob_down (js ''s1'') (ex_world ACCEPTED)) =
       Inl (ApiError 500 ''Failed to complete swap request'')
   \<and> map_option status
         (findSwap (snd (complete as_alice_bob_down (js ''s1'') (ex_world ACCEPTED))) (js ''s1''))
       = Some COMPLETED
   \<and> map n_userId (notifications (snd (complete as_alice_bob_down (js ''s1'') (ex_world ACCEPTED))))
       = [js ''alice'', js ''bob'']
   \<and> map fst (emitted (snd (complete as_alice_bob_down (js ''s1'') (ex_world ACCEPTED))))
       = [js ''alice'', js ''alice'']
   \<and> complete_guard as_bob_down (js ''s1'') (ex_world ACCEPTED)
       = Inr (ex_swap ACCEPTED, Some ex_alice, Some ex_bob)
   \<and> fst (complete as_bob_down (js ''s1'') (ex_world ACCEPTED)) =
       Inl (ApiError 500 ''Failed to complete swap request'')
   \<and> map n_userId (notifications (snd (complete as_bob_down (js ''s1'') (ex_world ACCEPTED))))
       = [js ''alice'']
   \<and> req_io as_alice_count_down = Some ex_count_down_io
   \<and> createSwapValidation ex_body
   \<and> submit_guard as_alice_count_down (sanitize ex_body) (ex_world PENDING) = Inr ()
   \<and> findUser (ex_world PENDING) (req_user_id as_alice_count_down) = Some ex_alice
   \<and> fst (submit as_alice_count_down ex_body (ex_world PENDING)) =
       Inl (ApiError 500 ''Failed to create swap request'')
   \<and> length (swapRequests (snd (submit as_alice_count_down ex_body (ex_world PENDING)))) = 2
   \<and> map n_userId (notifications (snd (submit as_alice_count_down ex_body (ex_world PENDING))))
       = [js ''bob'']
   \<and> length (emitted (snd (submit as_alice_count_down ex_body (ex_world PENDING)))) = 1"
proof -
  let ?k = "js ''s1''"
  let ?p = "ex_world PENDING" and ?a = "ex_world ACCEPTED"
  have io: "req_io as_bob_count_down = Some ex_count_down_io" "req_io as_bob = Some ex_io"
    "req_io as_bob_down = Some ex_down_io" "req_io as_alice_bob_down = Some ex_bob_down_io"
    "req_io as_alice_count_down = Some ex_count_down_io"
    by (simp_all add: down_defs ex_defs)
  have w: "notifications ?p = []" "emitted ?p = []" "notifications ?a = []" "emitted ?a = []"
    "senderId (ex_swap PENDING) = js ''alice''" "receiverId (ex_swap PENDING) = js ''bob''"
    "senderId (ex_swap ACCEPTED) = js ''alice''" "receiverId (ex_swap ACCEPTED) = js ''bob''"
    "swapRequests ?p = [ex_swap PENDING]" "b_receiverId ex_body = js ''bob''"
    "getUnreadCount ?a (js ''alice'') = 0"
    by (simp_all add: ex_defs getUnreadCount_def)
  have cd: "\<And>u n c. list_all (ex_count_down_io u) (pushes n c) = False"
    "\<And>u n c. length (delivered ex_count_down_io u (pushes n c)) = 1"
    by (simp_all add: down_defs pushes_def delivered_def)
  have dn: "\<And>u n c. list_all (ex_down_io u) (pushes n c) = False"
    "\<And>u n c. delivered ex_down_io u (pushes n c) = []"
    by (simp_all add: down_defs pushes_def delivered_def)
  have up: "\<And>u n c. list_all (ex_io u) (pushes n c) = True"
    "\<And>u n c. length (delivered ex_io u (pushes n c)) = 2"
    by (simp_all add: ex_io_def pushes_def delivered_def)
  have bd: "\<And>n c. list_all (ex_bob_down_io (js ''alice'')) (pushes n c) = True"
    "\<And>n c. map fst (delivered ex_bob_down_io (js ''alice'') (pushes n c)) = [js ''alice'', js ''alice'']"
    "\<And>n c. list_all (ex_bob_down_io (js ''bob'')) (pushes n c) = False"
    "\<And>n c. delivered ex_bob_down_io (js ''bob'') (pushes n c) = []"
    by (simp_all add: down_defs pushes_def delivered_def)
  have ga: "accept_guard as_bob_count_down ?k ?p = Inr (ex_swap PENDING, Some ex_alice, Some ex_bob)"
    "accept_guard as_bob ?k ?p = Inr (ex_swap PENDING, Some ex_alice, Some ex_bob)"
    by (simp_all add: ex_defs down_defs accept_guard_def findSwapIncl_def findSwap_def findUser_def)
  have gr: "reject_guard as_bob_down ?k ?p = Inr (ex_swap PENDING, Some ex_alice, Some ex_bob)"
    by (simp add: ex_defs down_defs reject_guard_def findSwapIncl_def findSwap_def findUser_def)
  have gc: "complete_guard as_alice_bob_down ?k ?a = Inr (ex_swap ACCEPTED, Some ex_alice, Some ex_bob)"
    "complete_guard as_bob_down ?k ?a = Inr (ex_swap ACCEPTED, Some ex_alice, Some ex_bob)"
    by (simp_all add: ex_defs down_defs complete_guard_def findSwapIncl_def findSwap_def
        findUser_def)
  have gs: "createSwapValidation ex_body"
    "submit_guard as_alice_count_down (sanitize ex_body) ?p = Inr ()"
    "findUser ?p (req_user_id as_alice_count_down) = Some ex_alice"
    by (simp_all add: ex_defs down_defs createSwapValidation_def submit_guard_def sanitize_def
        str_eval findUser_def similar_def)
  from push_failure_reported_as_500 [of as_bob_count_down ex_count_down_io ?k ?p ex_body,
      rule_format, OF io(1), THEN conjunct1, rule_format, OF ga(1)]
  obtain n where a: "notifications (snd (accept as_bob_count_down ?k ?p)) = notifications ?p @ [n]"
    "findSwap (snd (accept as_bob_count_down ?k ?p)) ?k =
       Some ((ex_swap PENDING)\<lparr>status := ACCEPTED, updatedAt := req_now as_bob_count_down\<rparr>)"
    "emitted (snd (accept as_bob_count_down ?k ?p)) =
       emitted ?p @ delivered ex_count_down_io (senderId (ex_swap PENDING))
         (pushes n (getUnreadCount (snd (accept as_bob_count_down ?k ?p)) (senderId (ex_swap PENDING))))"
    "fst (accept as_bob_count_down ?k ?p) =
       (if list_all (ex_count_down_io (senderId (ex_swap PENDING)))
             (pushes n (getUnreadCount (snd (accept as_bob_count_down ?k ?p)) (senderId (ex_swap PENDING))))
        then Inr ((ex_swap PENDING)\<lparr>status := ACCEPTED, updatedAt := req_now as_bob_count_down\<rparr>)
        else Inl (ApiError 500 ''Failed to accept swap request''))"
    by (elim exE conjE)
  have a1: "fst (accept as_bob_count_down ?k ?p) = Inl (ApiError 500 ''Failed to accept swap request'')"
    using a(4) by (simp add: cd)
  have a2: "map_option status (findSwap (snd (accept as_bob_count_down ?k ?p)) ?k) = Some ACCEPTED"
    by (simp add: a(2))
  have a3: "length (notifications (snd (accept as_bob_count_down ?k ?p))) = 1"
    by (simp add: a(1) w)
  have a4: "length (emitted (snd (accept as_bob_count_down ?k ?p))) = 1"
    by (simp add: a(3) w cd)
  from push_failure_reported_as_500 [of as_bob ex_io ?k ?p ex_body,
      rule_format, OF io(2), THEN conjunct1, rule_format, OF ga(2)]
  obtain n where b: "emitted (snd (accept as_bob ?k ?p)) =
       emitted ?p @ delivered ex_io (senderId (ex_swap PENDING))
         (pushes n (getUnreadCount (snd (accept as_bob ?k ?p)) (senderId (ex_swap PENDING))))"
    "fst (accept as_bob ?k ?p) =
       (if list_all (ex_io (senderId (ex_swap PENDING)))
             (pushes n (getUnreadCount (snd (accept as_bob ?k ?p)) (senderId (ex_swap PENDING))))
        then Inr ((ex_swap PENDING)\<lparr>status := ACCEPTED, updatedAt := req_now as_bob\<rparr>)
        else Inl (ApiError 500 ''Failed to accept swap request''))"
    by (elim exE conjE)
  have b1: "fst (accept as_bob ?k ?p) = Inr ((ex_swap PENDING)\<lparr>status := ACCEPTED, updatedAt := 7\<rparr>)"
    using b(2) by (simp add: up) (simp add: as_bob_def)
  have b2: "length (emitted (snd (accept as_bob ?k ?p))) = 2"
    by (simp add: b(1) w up)
  from push_failure_reported_as_500 [of as_bob_down ex_down_io ?k ?p ex_body,
      rule_format, OF io(3), THEN conjunct2, THEN conjunct1, rule_format, OF gr]
  obtain n where r: "notifications (snd (reject as_bob_down ?k ?p)) = notifications ?p @ [n]"
    "findSwap (snd (reject as_bob_down ?k ?p)) ?k =
       Some ((ex_swap PENDING)\<lparr>status := REJECTED, updatedAt := req_now as_bob_down\<rparr>)"
    "emitted (snd (reject as_bob_down ?k ?p)) =
       emitted ?p @ delivered ex_down_io (senderId (ex_swap PENDING))
         (pushes n (getUnreadCount (snd (reject as_bob_down ?k ?p)) (senderId (ex_swap PENDING))))"
    "fst (reject as_bob_down ?k ?p) =
       (if list_all (ex_down_io (senderId (ex_swap PENDING)))
             (pushes n (getUnreadCount (snd (reject as_bob_down ?k ?p)) (senderId (ex_swap PENDING))))
        then Inr ((ex_swap PENDING)\<lparr>status := REJECTED, updatedAt := req_now as_bob_down\<rparr>)
        else Inl (ApiError 500 ''Failed to reject swap request''))"
    by (elim exE conjE)
  have r1: "fst (reject as_bob_down ?k ?p) = Inl (ApiError 500 ''Failed to reject swap request'')"
    using r(4) by (simp add: dn)
  have r2: "map_option status (findSwap (snd (reject as_bob_down ?k ?p)) ?k) = Some REJECTED"
    by (simp add: r(2))
  have r3: "length (notifications (snd (reject as_bob_down ?k ?p))) = 1"
    by (simp add: r(1) w)
  have r4: "emitted (snd (reject as_bob_down ?k ?p)) = []"
    by (simp add: r(3) w dn)
  note c = push_failure_reported_as_500 [of as_alice_bob_down ex_bob_down_io ?k ?a ex_body,
      rule_format, OF io(4), THEN conjunct2, THEN conjunct2, THEN conjunct1, rule_format, OF gc(1)]
  have c2: "map_option status (findSwap (snd (complete as_alice_bob_down ?k ?a)) ?k) = Some COMPLETED"
    using c [THEN conjunct1] by simp
  from c [THEN conjunct2] obtain n1 n2 where cc: "n_userId n1 = js ''alice''"
    "n_userId n2 = js ''bob''"
    "notifications (snd (complete as_alice_bob_down ?k ?a)) = notifications ?a @ [n1, n2]"
    "emitted (snd (complete as_alice_bob_down ?k ?a)) =
       emitted ?a
       @ delivered ex_bob_down_io (js ''alice'') (pushes n1 (Suc (getUnreadCount ?a (js ''alice''))))
       @ delivered ex_bob_down_io (js ''bob'')
           (pushes n2 (getUnreadCount (snd (complete as_alice_bob_down ?k ?a)) (js ''bob'')))"
    "fst (complete as_alice_bob_down ?k ?a) =
       (if list_all (ex_bob_down_io (js ''bob''))
             (pushes n2 (getUnreadCount (snd (complete as_alice_bob_down ?k ?a)) (js ''bob'')))
        then Inr ((ex_swap ACCEPTED)\<lparr>status := COMPLETED,
                    completedAt := Some (req_now as_alice_bob_down),
                    updatedAt := req_now as_alice_bob_down\<rparr>)
        else Inl (ApiError 500 ''Failed to complete swap request''))"
    by (simp add: w bd) (elim exE conjE)
  have c1: "fst (complete as_alice_bob_down ?k ?a) =
       Inl (ApiError 500 ''Failed to complete swap request'')"
    using cc(5) by (simp add: bd)
  have c3: "map n_userId (notifications (snd (complete as_alice_bob_down ?k ?a)))
       = [js ''alice'', js ''bob'']"
    by (simp add: cc(1-3) w)
  have c4: "map fst (emitted (snd (complete as_alice_bob_down ?k ?a)))
       = [js ''alice'', js ''alice'']"
    by (simp add: cc(4) w bd)
  note d = push_failure_reported_as_500 [of as_bob_down ex_down_io ?k ?a ex_body,
      rule_format, OF io(3), THEN conjunct2, THEN conjunct2, THEN conjunct1, rule_format, OF gc(2)]
  from d [THEN conjunct2] obtain n1 where dd: "n_userId n1 = js ''alice''"
    "notifications (snd (complete as_bob_down ?k ?a)) = notifications ?a @ [n1]"
    "fst (complete as_bob_down ?k ?a) = Inl (ApiError 500 ''Failed to complete swap request'')"
    by (simp add: w dn) (elim exE conjE)
  have d2: "map n_userId (notifications (snd (complete as_bob_down ?k ?a))) = [js ''alice'']"
    by (simp add: dd w)
  from push_failure_reported_as_500 [of as_alice_count_down ex_count_down_io ?k ?p ex_body,
      rule_format, OF io(5), THEN conjunct2, THEN conjunct2, THEN conjunct2, rule_format,
      OF conjI [OF gs(1) conjI [OF gs(2) gs(3)]]]
  obtain x n where s: "swapRequests (snd (submit as_alice_count_down ex_body ?p)) = swapRequests ?p @ [x]"
    "notifications (snd (submit as_alice_count_down ex_body ?p)) = notifications ?p @ [n]"
    "n_userId n = b_receiverId ex_body"
    "emitted (snd (submit as_alice_count_down ex_body ?p)) =
       emitted ?p @ delivered ex_count_down_io (b_receiverId ex_body)
         (pushes n (getUnreadCount (snd (submit as_alice_count_down ex_body ?p)) (b_receiverId ex_body)))"
    "fst (submit as_alice_count_down ex_body ?p) =
       (if list_all (ex_count_down_io (b_receiverId ex_body))
             (pushes n (getUnreadCount (snd (submit as_alice_count_down ex_body ?p)) (b_receiverId ex_body)))
        then Inr x else Inl (ApiError 500 ''Failed to create swap request''))"
    by (elim exE conjE)
  have s1: "fst (submit as_alice_count_down ex_body ?p) =
       Inl (ApiError 500 ''Failed to create swap request'')"
    using s(5) by (simp add: cd)
  have s2: "length (swapRequests (snd (submit as_alice_count_down ex_body ?p))) = 2"
    by (simp add: s(1) w)
  have s3: "map n_userId (notifications (snd (submit as_alice_count_down ex_body ?p))) = [js ''bob'']"
    by (simp add: s(2,3) w)
  have s4: "length (emitted (snd (submit as_alice_count_down ex_body ?p))) = 1"
    by (simp add: s(4) w cd)
  show ?thesis
    by (intro conjI) (rule io(1), rule ga(1), rule a1, rule a2, rule a3, rule a4, rule io(2),
      rule ga(2), rule b1, rule b2, rule io(3), rule gr, rule r1, rule r2, rule r3, rule r4,
      rule io(4), rule gc(1), rule c1, rule c2, rule c3, rule c4, rule gc(2), rule dd(3), rule d2,
      rule io(5), rule gs(1), rule gs(2), rule gs(3), rule s1, rule s2, rule s3, rule s4)
qed

text \<open>
  C6 (where the route departs from the claim). The service does what the claim says
  (lemmas \<open>markAsRead_P2025\<close>, \<open>markAsRead_rows\<close> and \<open>markAsRead_pushes\<close>):
  markAsRead throws "record not found" exactly when no row has that identity and that
  user, and otherwise writes isRead and readAt and pushes the recount. But the route in
  front of it validates the identity with isUUID(), and every identity of the table is a
  cuid (the default of the schema, 25 characters and no hyphen), so for every identity
  the database has generated the route answers 400 "Validation failed": nothing is
  written and nothing is pushed. At bob's unread notification \<open>cuid 10\<close> the route
  answers 400 and leaves the inbox as it is, where the service, called with the arguments
  the route would pass, marks that row read at the time of the request and pushes the
  count 1. The identities the chain lets through are no row's: for a version 4 UUID the
  route reaches the service and answers 404 "Notification not found".
\<close>

theorem mark_read_refuses_stored_identity:
  "markRead r (cuid n) s = (Inl (ApiError 400 ''Validation failed''), s)
   \<and> n_id (last (notifications (snd (createNotification this_io now u ty t m d rt s))))
       = cuid (cuidSeq s)
   \<and> find (\<lambda>x. n_id x = cuid 10 \<and> n_userId x = req_user_id as_bob) (notifications ex_inbox)
       = Some (ex_note (cuid 10) (js ''bob'') False)
   \<and> markRead as_bob (cuid 10) ex_inbox = (Inl (ApiError 400 ''Validation failed''), ex_inbox)
   \<and> fst (markAsRead (req_io as_bob) (req_now as_bob) (cuid 10) (req_user_id as_bob) ex_inbox)
       = Inr ((ex_note (cuid 10) (js ''bob'') False)\<lparr>isRead := True, readAt := Some 7\<rparr>)
   \<and> map isRead (notifications
         (snd (markAsRead (req_io as_bob) (req_now as_bob) (cuid 10) (req_user_id as_bob) ex_inbox)))
       = [True, False, False]
   \<and> emitted (snd (markAsRead (req_io as_bob) (req_now as_bob) (cuid 10) (req_user_id as_bob)
         ex_inbox))
       = [(js ''bob'', NotificationCount 1)]
   \<and> isUUID (js ''123e4567-e89b-42d3-a456-426614174000'')
   \<and> markRead as_bob (js ''123e4567-e89b-42d3-a456-426614174000'') ex_inbox
       = (Inl (ApiError 404 ''Notification not found''), ex_inbox)"
proof (intro conjI)
  show "markRead r (cuid n) s = (Inl (ApiError 400 ''Validation failed''), s)"
    by (rule markRead_cuid)
  show "n_id (last (notifications (snd (createNotification this_io now u ty t m d rt s))))
       = cuid (cuidSeq s)"
    by (simp add: createNotification_frame new_row_simps)
  show "find (\<lambda>x. n_id x = cuid 10 \<and> n_userId x = req_user_id as_bob) (notifications ex_inbox)
       = Some (ex_note (cuid 10) (js ''bob'') False)"
    by (simp add: inbox_defs ex_defs)
  show "markRead as_bob (cuid 10) ex_inbox = (Inl (ApiError 400 ''Validation failed''), ex_inbox)"
    by (rule markRead_cuid)
  show "fst (markAsRead (req_io as_bob) (req_now as_bob) (cuid 10) (req_user_id as_bob) ex_inbox)
       = Inr ((ex_note (cuid 10) (js ''bob'') False)\<lparr>isRead := True, readAt := Some 7\<rparr>)"
    by (simp add: inbox_defs ex_defs markAsRead_def Let_def andThen_def emit_def)
  show "map isRead (notifications
         (snd (markAsRead (req_io as_bob) (req_now as_bob) (cuid 10) (req_user_id as_bob) ex_inbox)))
       = [True, False, False]"
    by (simp add: inbox_defs ex_defs markAsRead_def Let_def andThen_def emit_def cuid_distinct)
  show "emitted (snd (markAsRead (req_io as_bob) (req_now as_bob) (cuid 10) (req_user_id as_bob)
         ex_inbox))
       = [(js ''bob'', NotificationCount 1)]"
    by (simp add: inbox_defs ex_defs markAsRead_def Let_def andThen_def emit_def cuid_distinct
        getUnreadCount_def)
  show u: "isUUID (js ''123e4567-e89b-42d3-a456-426614174000'')"
    by (simp add: isUUID_def uuid_layout_def is_hex_def js_def upt_rec)
  have ne: "cuid i \<noteq> js ''123e4567-e89b-42d3-a456-426614174000''" for i
  proof
    assume "cuid i = js ''123e4567-e89b-42d3-a456-426614174000''"
    then have "length (cuid i) = length (js ''123e4567-e89b-42d3-a456-426614174000'')"
      by (rule arg_cong)
    then show False by (simp add: length_cuid js_def)
  qed
  show "markRead as_bob (js ''123e4567-e89b-42d3-a456-426614174000'') ex_inbox
       = (Inl (ApiError 404 ''Notification not found''), ex_inbox)"
    by (simp add: markRead_def u markAsRead_def inbox_defs ne)
qed

text \<open>
  C7. After markAllAsRead the user has no unread notification, and a service with a
  socket server whose emit returns has emitted the count zero to the user's room (the
  route answers with the same world). A createNotification for the same user afterwards,
  whatever its arguments and its outcome, has appended one row for that user with isRead
  false, so the unread count is one.
\<close>

theorem mark_all_read_then_emit:
  "getUnreadCount (snd (markAllAsRead this_io now uid s)) uid = 0
   \<and> snd (markAllRead r s) = snd (markAllAsRead (req_io r) (req_now r) (req_user_id r) s)
   \<and> (\<forall>io. this_io = Some io \<and> io uid (NotificationCount 0) \<longrightarrow>
        fst (markAllAsRead this_io now uid s) = Inr ()
        \<and> emitted (snd (markAllAsRead this_io now uid s)) = emitted s @ [(uid, NotificationCount 0)])
   \<and> (\<exists>n. notifications
             (snd (createNotification io2 now2 uid ty t m d rt
                     (snd (markAllAsRead this_io now uid s))))
           = notifications (snd (markAllAsRead this_io now uid s)) @ [n]
         \<and> n_userId n = uid \<and> isRead n = False)
   \<and> getUnreadCount
        (snd (createNotification io2 now2 uid ty t m d rt (snd (markAllAsRead this_io now uid s))))
        uid = 1"
proof (intro conjI allI impI)
  let ?s1 = "snd (markAllAsRead this_io now uid s)"
  show z: "getUnreadCount ?s1 uid = 0" by (rule markAllAsRead_zero)
  show "snd (markAllRead r s) = snd (markAllAsRead (req_io r) (req_now r) (req_user_id r) s)"
    by (simp add: markAllRead_def snd_respond)
  obtain n where n: "notifications (snd (createNotification io2 now2 uid ty t m d rt ?s1))
      = notifications ?s1 @ [n]" "n_userId n = uid" "isRead n = False"
    using createNotification_unread [of io2 now2 uid ty t m d rt ?s1] by blast
  then show "\<exists>n. notifications (snd (createNotification io2 now2 uid ty t m d rt ?s1))
           = notifications ?s1 @ [n] \<and> n_userId n = uid \<and> isRead n = False"
    by blast
  show "getUnreadCount (snd (createNotification io2 now2 uid ty t m d rt ?s1)) uid = 1"
    using getUnreadCount_snoc [OF n(1), of uid] n(2,3) z by simp
next
  fix io assume a: "this_io = Some io \<and> io uid (NotificationCount 0)"
  then show "fst (markAllAsRead this_io now uid s) = Inr ()"
    using markAllAsRead_pushes [of io uid now s] by simp
  from a show "emitted (snd (markAllAsRead this_io now uid s)) = emitted s @ [(uid, NotificationCount 0)]"
    using markAllAsRead_pushes [of io uid now s] by simp
qed

theorem mark_all_read_then_emit_witness:
  "getUnreadCount ex_inbox (js ''bob'') = 2
   \<and> ex_io (js ''bob'') (NotificationCount 0)
   \<and> getUnreadCount (snd (markAllAsRead (Some ex_io) 7 (js ''bob'') ex_inbox)) (js ''bob'') = 0
   \<and> emitted (snd (markAllAsRead (Some ex_io) 7 (js ''bob'') ex_inbox)) = [(js ''bob'', NotificationCount 0)]
   \<and> getUnreadCount
        (snd (createNotification (Some ex_io) 8 (js ''bob'') PLATFORM_MESSAGE (js ''Hi'') (js ''News'') None True
                (snd (markAllAsRead (Some ex_io) 7 (js ''bob'') ex_inbox)))) (js ''bob'') = 1"
proof -
  note t = mark_all_read_then_emit [of "Some ex_io" 7 "js ''bob''" ex_inbox as_bob "Some ex_io" 8
      PLATFORM_MESSAGE "js ''Hi''" "js ''News''" None True]
  have c0: "getUnreadCount ex_inbox (js ''bob'') = 2"
    by (simp add: getUnreadCount_def inbox_defs)
  have io: "ex_io (js ''bob'') (NotificationCount 0)" by (simp add: ex_io_def)
  have c1: "getUnreadCount (snd (markAllAsRead (Some ex_io) 7 (js ''bob'') ex_inbox)) (js ''bob'') = 0"
    using t by blast
  have "emitted (snd (markAllAsRead (Some ex_io) 7 (js ''bob'') ex_inbox))
      = emitted ex_inbox @ [(js ''bob'', NotificationCount 0)]"
    using t [THEN conjunct2, THEN conjunct2, THEN conjunct1, rule_format, of ex_io] io by blast
  then have c2: "emitted (snd (markAllAsRead (Some ex_io) 7 (js ''bob'') ex_inbox))
      = [(js ''bob'', NotificationCount 0)]"
    by (simp add: inbox_defs)
  have c3: "getUnreadCount
        (snd (createNotification (Some ex_io) 8 (js ''bob'') PLATFORM_MESSAGE (js ''Hi'') (js ''News'') None True
                (snd (markAllAsRead (Some ex_io) 7 (js ''bob'') ex_inbox)))) (js ''bob'') = 1"
    using t by blast
  show ?thesis
    by (intro conjI) (rule c0, rule io, rule c1, rule c2, rule c3)
qed



text \<open>
  C9 (as the code has it). submit stores the trimmed skill labels and the trimmed
  message, an empty or missing message as null; trimming strips every white-space and
  line-terminator code unit of ECMAScript, and a stored label is its own trim. The
  sanitizers of the validation chain have trimmed the labels in the body before the
  handler reads them, so the duplicate check compares trimmed labels with the stored
  rows: a body whose labels, with whatever white space around them, trim to the labels
  of a pending request from the same sender to the same receiver fails and changes
  nothing, with 400 "A similar swap request already exists between you and this user"
  when it passes the validation and the receiver checks.
\<close>

theorem submit_trims_before_duplicate_check:
  "(\<forall>x. fst (submit r body s) = Inr x \<longrightarrow>
        skillOffered x = trim (b_skillOffered body)
        \<and> skillRequested x = trim (b_skillRequested body)
        \<and> sw_message x = (case b_message body of None \<Rightarrow> None
                           | Some m \<Rightarrow> if trim m = [] then None else Some (trim m))
        \<and> trim (skillOffered x) = skillOffered x
        \<and> trim (skillRequested x) = skillRequested x)
   \<and> (\<forall>x. x \<in> set (swapRequests s) \<and> status x = PENDING \<and> senderId x = req_user_id r
          \<and> receiverId x = b_receiverId body \<and> skillOffered x = trim (b_skillOffered body)
          \<and> skillRequested x = trim (b_skillRequested body) \<longrightarrow>
        (\<exists>e. submit r body s = (Inl e, s))
        \<and> (\<forall>u. createSwapValidation body \<and> req_user_id r \<noteq> b_receiverId body
              \<and> findUser s (b_receiverId body) = Some u \<and> isActive u \<and> isPublic u \<longrightarrow>
            submit r body s =
              (Inl (ApiError 400
                 ''A similar swap request already exists between you and this user''), s)))"
proof (intro conjI allI impI)
  fix x assume a: "fst (submit r body s) = Inr x"
  note e = submit_effect [OF a]
  show "skillOffered x = trim (b_skillOffered body)" using e by simp
  show "skillRequested x = trim (b_skillRequested body)" using e by simp
  show "sw_message x = (case b_message body of None \<Rightarrow> None
                           | Some m \<Rightarrow> if trim m = [] then None else Some (trim m))"
    using e by simp
  show "trim (skillOffered x) = skillOffered x" using e by (simp add: trim_idem)
  show "trim (skillRequested x) = skillRequested x" using e by (simp add: trim_idem)
next
  fix x
  assume a: "x \<in> set (swapRequests s) \<and> status x = PENDING \<and> senderId x = req_user_id r
          \<and> receiverId x = b_receiverId body \<and> skillOffered x = trim (b_skillOffered body)
          \<and> skillRequested x = trim (b_skillRequested body)"
  then show "\<exists>e. submit r body s = (Inl e, s)"
    using submit_whitespace_variant_fails [of x s r body] by blast
next
  fix x u
  assume a: "x \<in> set (swapRequests s) \<and> status x = PENDING \<and> senderId x = req_user_id r
          \<and> receiverId x = b_receiverId body \<and> skillOffered x = trim (b_skillOffered body)
          \<and> skillRequested x = trim (b_skillRequested body)"
    and b: "createSwapValidation body \<and> req_user_id r \<noteq> b_receiverId body
              \<and> findUser s (b_receiverId body) = Some u \<and> isActive u \<and> isPublic u"
  from a have "pending_between (req_user_id r) body x" by (simp add: pending_between_def)
  then have "similar (req_user_id r) (sanitize body) x" by (simp add: pending_between_similar)
  with a b show "submit r body s =
      (Inl (ApiError 400 ''A similar swap request already exists between you and this user''), s)"
    using submit_duplicate_message [of body r s u x] by blast
qed

theorem whitespace_duplicate_counterexample:
  "submit as_alice ex_dup_body (ex_world PENDING) =
     (Inl (ApiError 400 ''A similar swap request already exists between you and this user''),
      ex_world PENDING)
   \<and> submit as_alice ex_nbsp_body (ex_world PENDING) =
     (Inl (ApiError 400 ''A similar swap request already exists between you and this user''),
      ex_world PENDING)
   \<and> \<not> (\<exists>r body s x y. x \<in> set (swapRequests s) \<and> status x = PENDING
          \<and> senderId x = req_user_id r \<and> receiverId x = b_receiverId body
          \<and> skillOffered x = trim (b_skillOffered body)
          \<and> skillRequested x = trim (b_skillRequested body)
          \<and> fst (submit r body s) = Inr y)"
proof (intro conjI)
  show "submit as_alice ex_dup_body (ex_world PENDING) =
     (Inl (ApiError 400 ''A similar swap request already exists between you and this user''),
      ex_world PENDING)"
    by (simp add: ex_defs ex_body_defs submit_def createSwapValidation_def str_eval
        sanitize_def submit_guard_def findUser_def similar_def)
  show "submit as_alice ex_nbsp_body (ex_world PENDING) =
     (Inl (ApiError 400 ''A similar swap request already exists between you and this user''),
      ex_world PENDING)"
    by (simp add: ex_defs ex_nbsp_body_def submit_def createSwapValidation_def str_eval
        sanitize_def submit_guard_def findUser_def similar_def)
  show "\<not> (\<exists>r body s x y. x \<in> set (swapRequests s) \<and> status x = PENDING
          \<and> senderId x = req_user_id r \<and> receiverId x = b_receiverId body
          \<and> skillOffered x = trim (b_skillOffered body)
          \<and> skillRequested x = trim (b_skillRequested body)
          \<and> fst (submit r body s) = Inr y)"
  proof
    assume "\<exists>r body s x y. x \<in> set (swapRequests s) \<and> status x = PENDING
          \<and> senderId x = req_user_id r \<and> receiverId x = b_receiverId body
          \<and> skillOffered x = trim (b_skillOffered body)
          \<and> skillRequested x = trim (b_skillRequested body)
          \<and> fst (submit r body s) = Inr y"
    then obtain r :: request and body s x y where a: "x \<in> set (swapRequests s)" "status x = PENDING"
        "senderId x = req_user_id r" "receiverId x = b_receiverId body"
        "skillOffered x = trim (b_skillOffered body)"
        "skillRequested x = trim (b_skillRequested body)"
        and y: "fst (submit r body s) = Inr y"
      by blast
    from submit_whitespace_variant_fails [OF a] y show False by auto
  qed
qed

theorem submit_trims_before_duplicate_check_witness:
  "ex_swap PENDING \<in> set (swapRequests (ex_world PENDING)) \<and> status (ex_swap PENDING) = PENDING
   \<and> senderId (ex_swap PENDING) = req_user_id as_alice
   \<and> receiverId (ex_swap PENDING) = b_receiverId ex_dup_body
   \<and> skillOffered (ex_swap PENDING) = trim (b_skillOffered ex_dup_body)
   \<and> skillRequested (ex_swap PENDING) = trim (b_skillRequested ex_dup_body)
   \<and> b_skillOffered ex_dup_body \<noteq> skillOffered (ex_swap PENDING)
   \<and> createSwapValidation ex_dup_body \<and> req_user_id as_alice \<noteq> b_receiverId ex_dup_body
   \<and> findUser (ex_world PENDING) (b_receiverId ex_dup_body) = Some ex_bob
   \<and> isActive ex_bob \<and> isPublic ex_bob
   \<and> submit as_alice ex_dup_body (ex_world PENDING) =
       (Inl (ApiError 400 ''A similar swap request already exists between you and this user''),
        ex_world PENDING)
   \<and> skillOffered (ex_swap PENDING) = trim (b_skillOffered ex_nbsp_body)
   \<and> skillRequested (ex_swap PENDING) = trim (b_skillRequested ex_nbsp_body)
   \<and> receiverId (ex_swap PENDING) = b_receiverId ex_nbsp_body
   \<and> createSwapValidation ex_nbsp_body
   \<and> submit as_alice ex_nbsp_body (ex_world PENDING) =
       (Inl (ApiError 400 ''A similar swap request already exists between you and this user''),
        ex_world PENDING)
   \<and> (\<exists>x. fst (submit as_alice ex_body (ex_world PENDING)) = Inr x
        \<and> skillOffered x = js ''Piano'' \<and> skillRequested x = js ''Chess'' \<and> sw_message x = None)"
proof -
  let ?w = "ex_world PENDING" and ?x = "ex_swap PENDING"
  have h: "?x \<in> set (swapRequests ?w)" "status ?x = PENDING"
    "senderId ?x = req_user_id as_alice" "receiverId ?x = b_receiverId ex_dup_body"
    "skillOffered ?x = trim (b_skillOffered ex_dup_body)"
    "skillRequested ?x = trim (b_skillRequested ex_dup_body)"
    "b_skillOffered ex_dup_body \<noteq> skillOffered ?x"
    "createSwapValidation ex_dup_body" "req_user_id as_alice \<noteq> b_receiverId ex_dup_body"
    "findUser ?w (b_receiverId ex_dup_body) = Some ex_bob" "isActive ex_bob" "isPublic ex_bob"
    by (simp_all add: ex_defs ex_body_defs createSwapValidation_def str_eval
        findUser_def)
  note t = submit_trims_before_duplicate_check [of as_alice ex_dup_body ?w]
  have c: "submit as_alice ex_dup_body ?w =
       (Inl (ApiError 400 ''A similar swap request already exists between you and this user''), ?w)"
    using t [THEN conjunct2, rule_format, of ?x, THEN conjunct2, rule_format, of ex_bob] h
    by blast
  have k: "skillOffered ?x = trim (b_skillOffered ex_nbsp_body)"
    "skillRequested ?x = trim (b_skillRequested ex_nbsp_body)"
    "receiverId ?x = b_receiverId ex_nbsp_body" "createSwapValidation ex_nbsp_body"
    "req_user_id as_alice \<noteq> b_receiverId ex_nbsp_body"
    "findUser ?w (b_receiverId ex_nbsp_body) = Some ex_bob"
    by (simp_all add: ex_defs ex_nbsp_body_def createSwapValidation_def str_eval findUser_def)
  have cn: "submit as_alice ex_nbsp_body ?w =
       (Inl (ApiError 400 ''A similar swap request already exists between you and this user''), ?w)"
    using submit_trims_before_duplicate_check [of as_alice ex_nbsp_body ?w, THEN conjunct2,
        rule_format, of ?x, THEN conjunct2, rule_format, of ex_bob] h(1-3,11,12) k
    by blast
  obtain x where x: "fst (submit as_alice ex_body ?w) = Inr x"
    by (simp add: ex_defs submit_eval)
  have tr: "trim (b_skillOffered ex_body) = js ''Piano''" "trim (b_skillRequested ex_body) = js ''Chess''"
    "(case b_message ex_body of None \<Rightarrow> None
      | Some m \<Rightarrow> if trim m = [] then None else Some (trim m)) = None"
    by (simp_all add: ex_defs str_eval)
  have d: "\<exists>x. fst (submit as_alice ex_body ?w) = Inr x
        \<and> skillOffered x = js ''Piano'' \<and> skillRequested x = js ''Chess'' \<and> sw_message x = None"
    using submit_trims_before_duplicate_check [of as_alice ex_body ?w, THEN conjunct1,
        rule_format, OF x] x tr by (intro exI [of _ x]) simp
  show ?thesis
    by (intro conjI) (rule h(1), rule h(2), rule h(3), rule h(4), rule h(5), rule h(6), rule h(7),
      rule h(8), rule h(9), rule h(10), rule h(11), rule h(12), rule c, rule k(1), rule k(2),
      rule k(3), rule k(4), rule cn, rule d)
qed

text \<open>
  C10. A lifecycle request that ends in 400, 403 or 404 has changed nothing: the
  tables, the identity sequence and the log of emits are what they were. (Every guard
  comes before the write, and only the write and what follows it can end in 500.)
\<close>

theorem guard_failure_leaves_store:
  "fst (exec r c s) = Inl e \<and> (statusCode e = 400 \<or> statusCode e = 403 \<or> statusCode e = 404)
   \<longrightarrow> snd (exec r c s) = s"
  using exec_error_unchanged [of r c s e] by auto

theorem guard_failure_leaves_store_witness:
  "fst (exec as_alice (Accept (js ''s1'')) (ex_world PENDING)) =
     Inl (ApiError 403 ''You can only accept requests sent to you'')
   \<and> statusCode (ApiError 403 ''You can only accept requests sent to you'') = 403
   \<and> snd (exec as_alice (Accept (js ''s1'')) (ex_world PENDING)) = ex_world PENDING"
proof -
  have e: "fst (exec as_alice (Accept (js ''s1'')) (ex_world PENDING)) =
     Inl (ApiError 403 ''You can only accept requests sent to you'')"
    by (simp add: ex_defs accept_def accept_guard_def findSwapIncl_def findSwap_def)
  show ?thesis
    using guard_failure_leaves_store [of as_alice "Accept (js ''s1'')" "ex_world PENDING"
        "ApiError 403 ''You can only accept requests sent to you''"] e
    by simp
qed

end
